theory Spec2Isabelle
  imports Complex_Main "HOL-Library.Product_Lexorder"
begin

section \<open>VyaparSaathi backend test utilities: values and errors\<close>

text \<open>
  The utilities of \<^verbatim>\<open>tests/utils.py\<close> and the generators of
  \<^verbatim>\<open>tests/strategies.py\<close> are Python functions over dynamically typed values.
  An exception is a value of type \<open>error\<close>; a function that can raise returns
  \<open>error + 'a\<close>, with \<open>Inl\<close> for the exception.
\<close>

datatype error =
  AssertionError | TypeError | ValueError | OverflowError | AttributeError | KeyError

text \<open>
  A Python \<^verbatim>\<open>float\<close>. A finite float is represented by the real number it
  denotes (every double is a real; comparison of floats is exact, so the order below is
  the order of the doubles). Negative zero is the real \<open>0\<close>: \<^verbatim>\<open>-0.0 == 0\<close>
  holds in Python. Floating-point arithmetic rounds and is not defined here; the one
  function that computes with floats takes the rounded expression as a parameter.
\<close>

datatype pyfloat = Finite real | PosInf | NegInf | NaN

text \<open>A number as the numeric helpers receive it: an \<^verbatim>\<open>int\<close> or a \<^verbatim>\<open>float\<close>.\<close>

datatype pynum = PInt int | PFloat pyfloat

fun num_val :: "pynum \<Rightarrow> pyfloat" where
  "num_val (PInt i) = Finite (of_int i)"
| "num_val (PFloat f) = f"

text \<open>\<^verbatim>\<open>a <= b\<close> and \<^verbatim>\<open>a == b\<close> on floats: every comparison with NaN is false.\<close>

fun float_le :: "pyfloat \<Rightarrow> pyfloat \<Rightarrow> bool" where
  "float_le NaN b = False"
| "float_le a NaN = False"
| "float_le NegInf b = True"
| "float_le a PosInf = True"
| "float_le (Finite a) (Finite b) = (a \<le> b)"
| "float_le (Finite a) NegInf = False"
| "float_le PosInf b = False"

fun float_eq :: "pyfloat \<Rightarrow> pyfloat \<Rightarrow> bool" where
  "float_eq (Finite a) (Finite b) = (a = b)"
| "float_eq PosInf PosInf = True"
| "float_eq NegInf NegInf = True"
| "float_eq a b = False"

text \<open>Python compares an int with a float by their exact values.\<close>

definition num_le :: "pynum \<Rightarrow> pynum \<Rightarrow> bool" where
  "num_le a b = float_le (num_val a) (num_val b)"

definition num_eq :: "pynum \<Rightarrow> pynum \<Rightarrow> bool" where
  "num_eq a b = float_eq (num_val a) (num_val b)"

section \<open>Range checks\<close>

text \<open>
  \<^verbatim>\<open>def is_in_range(value, min_value, max_value): return min_value <= value <= max_value\<close>
  The chained comparison is the conjunction of the two comparisons.
\<close>

definition is_in_range :: "pynum \<Rightarrow> pynum \<Rightarrow> pynum \<Rightarrow> bool" where
  "is_in_range val min_value max_value = (num_le min_value val \<and> num_le val max_value)"

text \<open>\<^verbatim>\<open>return is_in_range(confidence, 0.0, 1.0)\<close>\<close>

definition is_valid_confidence :: "pynum \<Rightarrow> bool" where
  "is_valid_confidence confidence =
     is_in_range confidence (PFloat (Finite 0)) (PFloat (Finite 1))"

text \<open>\<^verbatim>\<open>return is_in_range(horizon, 7, 14)\<close>\<close>

definition is_valid_forecast_horizon :: "pynum \<Rightarrow> bool" where
  "is_valid_forecast_horizon horizon = is_in_range horizon (PInt 7) (PInt 14)"

section \<open>Percentage difference\<close>

text \<open>
  \<^verbatim>\<open>
  def calculate_percentage_difference(baseline, comparison):
      if baseline == 0:
          return float("inf") if comparison != 0 else 0.0
      return ((comparison - baseline) / baseline) * 100
  \<close>
  The last line is floating-point arithmetic (or integer arithmetic followed by a true
  division, which raises OverflowError on integers too large for a float). Its value is
  the parameter \<open>pct\<close>, applied to the baseline and the comparison.
\<close>

definition calculate_percentage_difference ::
  "(pynum \<Rightarrow> pynum \<Rightarrow> error + pyfloat) \<Rightarrow> pynum \<Rightarrow> pynum \<Rightarrow> error + pyfloat" where
  "calculate_percentage_difference pct baseline comparison =
     (if num_eq baseline (PInt 0)
      then Inr (if \<not> num_eq comparison (PInt 0) then PosInf else Finite 0)
      else pct baseline comparison)"

section \<open>Dynamically typed values\<close>

text \<open>
  The values the helpers receive in dictionaries (\<^verbatim>\<open>Dict[str, Any]\<close>): strings,
  ints, floats, bools, \<^verbatim>\<open>None\<close>, dictionaries with string keys (an association
  list in insertion order, its keys distinct), lists, and \<open>VOther s r\<close>, an object of
  another type, of which the texts of \<^verbatim>\<open>str()\<close> and \<^verbatim>\<open>repr()\<close> are known. Such
  an object is taken to be neither a number nor a container: it is equal to no value of
  the other kinds, and comparing it with a number, testing \<^verbatim>\<open>k in v\<close> and indexing it
  raise TypeError, as they do for a \<^verbatim>\<open>datetime\<close>; what its method
  \<^verbatim>\<open>replace\<close> does is a parameter where a helper calls it.
  A character is a code point below 256.
\<close>

datatype pyval =
    VStr (str_of: string)
  | VInt int
  | VFloat pyfloat
  | VBool (bool_of: bool)
  | VNone
  | VDict (items: "(string \<times> pyval) list")
  | VList (elements: "pyval list")
  | VOther string string

type_synonym pydict = "(string \<times> pyval) list"

text \<open>
  Python's classes of these values; \<^verbatim>\<open>bool\<close> is a subclass of \<^verbatim>\<open>int\<close>, so
  \<^verbatim>\<open>isinstance(True, int)\<close> holds.
\<close>

datatype pytype = TStr | TInt | TFloat | TBool | TNoneType | TDict | TList | TObject

fun type_of :: "pyval \<Rightarrow> pytype" where
  "type_of (VStr s) = TStr"
| "type_of (VInt i) = TInt"
| "type_of (VFloat f) = TFloat"
| "type_of (VBool b) = TBool"
| "type_of VNone = TNoneType"
| "type_of (VDict d) = TDict"
| "type_of (VList xs) = TList"
| "type_of (VOther s r) = TObject"

definition issubclass :: "pytype \<Rightarrow> pytype \<Rightarrow> bool" where
  "issubclass t u = (t = u \<or> (t = TBool \<and> u = TInt))"

definition isinstance :: "pyval \<Rightarrow> pytype list \<Rightarrow> bool" where
  "isinstance v ts = list_ex (issubclass (type_of v)) ts"

text \<open>The numeric value of a number; a bool is the int 0 or 1.\<close>

fun as_num :: "pyval \<Rightarrow> pynum option" where
  "as_num (VInt i) = Some (PInt i)"
| "as_num (VFloat f) = Some (PFloat f)"
| "as_num (VBool b) = Some (PInt (if b then 1 else 0))"
| "as_num v = None"

subsection \<open>Decimal numerals and \<^verbatim>\<open>str()\<close>\<close>

definition digit_char :: "nat \<Rightarrow> char" where
  "digit_char d = ''0123456789'' ! d"

fun str_nat :: "nat \<Rightarrow> string" where
  "str_nat n = (if n < 10 then [digit_char n] else str_nat (n div 10) @ [digit_char (n mod 10)])"

declare str_nat.simps [simp del]

definition str_int :: "int \<Rightarrow> string" where
  "str_int i = (if i < 0 then CHR ''-'' # str_nat (nat (- i)) else str_nat (nat i))"

text \<open>\<^verbatim>\<open>sep.join(xs)\<close>\<close>

fun join :: "string \<Rightarrow> string list \<Rightarrow> string" where
  "join sep [] = []"
| "join sep [x] = x"
| "join sep (x # y # ys) = x @ sep @ join sep (y # ys)"

text \<open>
  The library's text of a float (\<^verbatim>\<open>repr(1.5)\<close>) and of a string in quotes
  (\<^verbatim>\<open>repr('a')\<close>) are parameters: the shortest round-tripping numeral and the
  quoting rules are the interpreter's, not this repository's.
\<close>

record pylib =
  float_repr :: "pyfloat \<Rightarrow> string"
  str_repr :: "string \<Rightarrow> string"

fun py_repr :: "pylib \<Rightarrow> pyval \<Rightarrow> string"
  and py_repr_list :: "pylib \<Rightarrow> pyval list \<Rightarrow> string list"
  and py_repr_items :: "pylib \<Rightarrow> (string \<times> pyval) list \<Rightarrow> string list" where
  "py_repr L (VStr s) = str_repr L s"
| "py_repr L (VInt i) = str_int i"
| "py_repr L (VFloat f) = float_repr L f"
| "py_repr L (VBool b) = (if b then ''True'' else ''False'')"
| "py_repr L VNone = ''None''"
| "py_repr L (VDict d) = ''{'' @ join '', '' (py_repr_items L d) @ ''}''"
| "py_repr L (VList xs) = ''['' @ join '', '' (py_repr_list L xs) @ '']''"
| "py_repr L (VOther s r) = r"
| "py_repr_list L [] = []"
| "py_repr_list L (x # xs) = py_repr L x # py_repr_list L xs"
| "py_repr_items L [] = []"
| "py_repr_items L (kv # kvs) =
     (str_repr L (fst kv) @ '': '' @ py_repr L (snd kv)) # py_repr_items L kvs"

text \<open>\<^verbatim>\<open>str(v)\<close>: the string itself for a string, \<^verbatim>\<open>repr(v)\<close> for the built-in types.\<close>

fun py_str :: "pylib \<Rightarrow> pyval \<Rightarrow> string" where
  "py_str L (VStr s) = s"
| "py_str L (VOther s r) = s"
| "py_str L v = py_repr L v"

subsection \<open>Dictionary access\<close>

text \<open>\<^verbatim>\<open>k in d\<close>, \<^verbatim>\<open>d[k]\<close> (KeyError on a missing key), \<^verbatim>\<open>d.get(k, default)\<close>, \<^verbatim>\<open>d.keys()\<close>.\<close>

definition dict_contains :: "(string \<times> 'v) list \<Rightarrow> string \<Rightarrow> bool" where
  "dict_contains d k = (map_of d k \<noteq> None)"

definition getitem :: "(string \<times> 'v) list \<Rightarrow> string \<Rightarrow> error + 'v" where
  "getitem d k = (case map_of d k of None \<Rightarrow> Inl KeyError | Some v \<Rightarrow> Inr v)"

definition dict_get :: "(string \<times> 'v) list \<Rightarrow> string \<Rightarrow> 'v \<Rightarrow> 'v" where
  "dict_get d k dflt = (case map_of d k of None \<Rightarrow> dflt | Some v \<Rightarrow> v)"

definition keys :: "(string \<times> 'v) list \<Rightarrow> string list" where
  "keys d = map fst d"

subsection \<open>Sequencing of steps that can raise\<close>

definition then_do :: "error + 'a \<Rightarrow> ('a \<Rightarrow> error + 'b) \<Rightarrow> error + 'b" where
  "then_do m f = (case m of Inl e \<Rightarrow> Inl e | Inr x \<Rightarrow> f x)"

text \<open>\<^verbatim>\<open>assert b\<close>\<close>

definition py_assert :: "bool \<Rightarrow> error + unit" where
  "py_assert b = (if b then Inr () else Inl AssertionError)"

section \<open>Required fields\<close>

text \<open>
  \<^verbatim>\<open>
  def has_required_fields(obj, required_fields):
      return all(field in obj and obj[field] is not None for field in required_fields)
  \<close>
\<close>

definition has_required_fields :: "pydict \<Rightarrow> string list \<Rightarrow> bool" where
  "has_required_fields obj required_fields =
     list_all (\<lambda>field. dict_contains obj field \<and> map_of obj field \<noteq> Some VNone)
       required_fields"

text \<open>
  The same function on a value that need not be a dictionary (a nested field of a
  record). \<^verbatim>\<open>all\<close> stops at the first false item, and the first item decides for
  every value that is not a dictionary: \<^verbatim>\<open>field in obj\<close> is a substring test on a
  string and a membership test on a list, after which \<^verbatim>\<open>obj[field]\<close> raises
  TypeError (an index must be an integer); on a number, a bool, \<^verbatim>\<open>None\<close> or a plain
  object \<^verbatim>\<open>in\<close> itself raises TypeError.
\<close>

fun is_substring :: "string \<Rightarrow> string \<Rightarrow> bool" where
  "is_substring p [] = (p = [])"
| "is_substring p (c # cs) = (take (length p) (c # cs) = p \<or> is_substring p cs)"

definition has_required_fields_val :: "pyval \<Rightarrow> string list \<Rightarrow> error + bool" where
  "has_required_fields_val obj required_fields =
     (case obj of
        VDict d \<Rightarrow> Inr (has_required_fields d required_fields)
      | VStr s \<Rightarrow>
          (case required_fields of
             [] \<Rightarrow> Inr True
           | field # _ \<Rightarrow> if is_substring field s then Inl TypeError else Inr False)
      | VList xs \<Rightarrow>
          (case required_fields of
             [] \<Rightarrow> Inr True
           | field # _ \<Rightarrow> if VStr field \<in> set xs then Inl TypeError else Inr False)
      | _ \<Rightarrow> (case required_fields of [] \<Rightarrow> Inr True | field # _ \<Rightarrow> Inl TypeError))"

text \<open>
  \<^verbatim>\<open>is_valid_confidence(v)\<close> on a value taken from a dictionary: \<^verbatim>\<open>0.0 <= v\<close> raises
  TypeError unless \<open>v\<close> is a number.
\<close>

definition is_valid_confidence_val :: "pyval \<Rightarrow> error + bool" where
  "is_valid_confidence_val v =
     (case as_num v of None \<Rightarrow> Inl TypeError | Some n \<Rightarrow> Inr (is_valid_confidence n))"

text \<open>
  \<^verbatim>\<open>
  def assert_risk_assessment_valid(risk):
      required_fields = ["sku", "category", "currentStock", "stockoutRisk",
                         "overstockRisk", "recommendation"]
      assert has_required_fields(risk, required_fields)
      assert has_required_fields(risk["stockoutRisk"],
                                 ["probability", "daysUntilStockout", "potentialLostSales"])
      assert is_valid_confidence(risk["stockoutRisk"]["probability"])
      assert has_required_fields(risk["overstockRisk"],
                                 ["probability", "excessUnits", "carryingCost"])
      assert is_valid_confidence(risk["overstockRisk"]["probability"])
      assert has_required_fields(risk["recommendation"],
                                 ["action", "suggestedQuantity", "urgency", "confidence"])
      assert risk["recommendation"]["action"] in ["reorder", "reduce", "maintain"]
      assert risk["recommendation"]["urgency"] in ["low", "medium", "high"]
      assert is_valid_confidence(risk["recommendation"]["confidence"])
  \<close>
  \<open>v[k]\<close> on a nested value: once \<^verbatim>\<open>has_required_fields\<close> has returned true on
  a non-empty field list, the value is a dictionary; the other cases are kept as the
  TypeError Python raises for a string index.
\<close>

definition getitem_val :: "pyval \<Rightarrow> string \<Rightarrow> error + pyval" where
  "getitem_val v k = (case v of VDict d \<Rightarrow> getitem d k | _ \<Rightarrow> Inl TypeError)"

definition assert_fields_and_probability :: "pyval \<Rightarrow> string list \<Rightarrow> string \<Rightarrow> error + unit" where
  "assert_fields_and_probability v required_fields k =
     then_do (has_required_fields_val v required_fields) (\<lambda>ok.
     then_do (py_assert ok) (\<lambda>_.
     then_do (getitem_val v k) (\<lambda>p.
     then_do (is_valid_confidence_val p) py_assert)))"

definition assert_risk_assessment_valid :: "pydict \<Rightarrow> error + unit" where
  "assert_risk_assessment_valid risk =
     then_do (py_assert (has_required_fields risk
        [''sku'', ''category'', ''currentStock'', ''stockoutRisk'', ''overstockRisk'',
         ''recommendation''])) (\<lambda>_.
     then_do (getitem risk ''stockoutRisk'') (\<lambda>so.
     then_do (assert_fields_and_probability so
        [''probability'', ''daysUntilStockout'', ''potentialLostSales''] ''probability'') (\<lambda>_.
     then_do (getitem risk ''overstockRisk'') (\<lambda>ov.
     then_do (assert_fields_and_probability ov
        [''probability'', ''excessUnits'', ''carryingCost''] ''probability'') (\<lambda>_.
     then_do (getitem risk ''recommendation'') (\<lambda>rc.
     then_do (has_required_fields_val rc
        [''action'', ''suggestedQuantity'', ''urgency'', ''confidence'']) (\<lambda>ok.
     then_do (py_assert ok) (\<lambda>_.
     then_do (getitem_val rc ''action'') (\<lambda>a.
     then_do (py_assert (a \<in> set [VStr ''reorder'', VStr ''reduce'', VStr ''maintain''])) (\<lambda>_.
     then_do (getitem_val rc ''urgency'') (\<lambda>u.
     then_do (py_assert (u \<in> set [VStr ''low'', VStr ''medium'', VStr ''high''])) (\<lambda>_.
     then_do (getitem_val rc ''confidence'') (\<lambda>c.
     then_do (is_valid_confidence_val c) py_assert)))))))))))))"

section \<open>DynamoDB item formatting\<close>

text \<open>
  A DynamoDB attribute value is a dictionary with one key, the type tag:
  \<^verbatim>\<open>{"S": str}\<close>, \<^verbatim>\<open>{"N": str}\<close>, \<^verbatim>\<open>{"BOOL": bool}\<close>, \<^verbatim>\<open>{"M": dict}\<close>,
  \<^verbatim>\<open>{"L": list}\<close>, \<^verbatim>\<open>{"NULL": True}\<close>. One constructor stands for each tag.
\<close>

datatype attr_value =
    AV_S string
  | AV_N string
  | AV_BOOL bool
  | AV_M "(string \<times> attr_value) list"
  | AV_L "attr_value list"
  | AV_NULL bool

text \<open>
  \<^verbatim>\<open>
  def format_value(value):
      if isinstance(value, str):             return {"S": value}
      elif isinstance(value, (int, float)):  return {"N": str(value)}
      elif isinstance(value, bool):          return {"BOOL": value}
      elif isinstance(value, dict):          return {"M": {k: format_value(v) for k, v in value.items()}}
      elif isinstance(value, list):          return {"L": [format_value(v) for v in value]}
      elif value is None:                    return {"NULL": True}
      else:                                  return {"S": str(value)}
  return {k: format_value(v) for k, v in item.items()}
  \<close>
  The tests are kept in the source's order.
\<close>

lemma size_elements: "x \<in> set (elements v) \<Longrightarrow> type_of v = TList \<Longrightarrow> size x < size v"
  by (cases v) (auto simp: less_Suc_eq_le size_list_estimation')

lemma size_items: "kv \<in> set (items v) \<Longrightarrow> type_of v = TDict \<Longrightarrow> size (snd kv) < size v"
proof (cases v)
  case (VDict d)
  assume "kv \<in> set (items v)"
  then have "kv \<in> set d" using VDict by simp
  then have "size_prod (\<lambda>_. 0) size kv \<le> size_list (size_prod (\<lambda>_. 0) size) d"
    by (simp add: size_list_estimation')
  then show ?thesis using VDict by (cases kv) simp
qed simp_all

function format_value :: "pylib \<Rightarrow> pyval \<Rightarrow> attr_value" where
  "format_value L v =
     (if isinstance v [TStr] then AV_S (str_of v)
      else if isinstance v [TInt, TFloat] then AV_N (py_str L v)
      else if isinstance v [TBool] then AV_BOOL (bool_of v)
      else if isinstance v [TDict]
        then AV_M (map (\<lambda>kv. (fst kv, format_value L (snd kv))) (items v))
      else if isinstance v [TList] then AV_L (map (format_value L) (elements v))
      else if v = VNone then AV_NULL True
      else AV_S (py_str L v))"
  by pat_completeness auto
termination
  by (relation "measure (\<lambda>(L, v). size v)")
     (auto simp: isinstance_def issubclass_def size_elements size_items)

declare format_value.simps [simp del]

definition mock_dynamodb_item :: "pylib \<Rightarrow> pydict \<Rightarrow> (string \<times> attr_value) list" where
  "mock_dynamodb_item L item = map (\<lambda>kv. (fst kv, format_value L (snd kv))) item"

section \<open>CSV text\<close>

text \<open>
  \<^verbatim>\<open>
  def create_csv_content(headers, rows):
      header_line = ",".join(headers)
      data_lines = "\n".join([",".join(row) for row in rows])
      return f"{header_line}\n{data_lines}"
  \<close>
\<close>

definition newline :: string where
  "newline = [CHR 0x0A]"

definition create_csv_content :: "string list \<Rightarrow> string list list \<Rightarrow> string" where
  "create_csv_content hdrs rows =
     (let header_line = join '','' hdrs;
          data_lines = join newline (map (join '','') rows)
      in header_line @ newline @ data_lines)"

text \<open>
  \<^verbatim>\<open>
  def create_sales_csv(records):
      if not records:
          return "date,sku,quantity\n"
      headers = list(records[0].keys())
      rows = [[str(record.get(h, "")) for h in headers] for record in records]
      return create_csv_content(headers, rows)
  \<close>
\<close>

definition create_sales_csv :: "pylib \<Rightarrow> pydict list \<Rightarrow> string" where
  "create_sales_csv L records =
     (case records of
        [] \<Rightarrow> ''date,sku,quantity'' @ newline
      | first # _ \<Rightarrow>
          (let hdrs = keys first;
               rows = map (\<lambda>record. map (\<lambda>h. py_str L (dict_get record h (VStr []))) hdrs)
                        records
           in create_csv_content hdrs rows))"

section \<open>Mock API Gateway event\<close>

text \<open>
  \<^verbatim>\<open>
  def create_api_gateway_event(body=None, path_parameters=None, query_parameters=None,
                               headers=None, http_method="POST", path="/"):
      return {
          "httpMethod": http_method,
          "path": path,
          "pathParameters": path_parameters or {},
          "queryStringParameters": query_parameters or {},
          "headers": headers or {"Content-Type": "application/json"},
          "body": json.dumps(body) if body else None,
          "requestContext": {"requestId": "test-request-id",
                             "authorizer": {"claims": {"sub": "test-user-123"}}},
          "isBase64Encoded": False,
      }
  \<close>
  The returned dictionary has a fixed set of keys and is a record here. \<^verbatim>\<open>json.dumps\<close>
  is the library's serialiser, a parameter; it raises TypeError on a value it cannot
  serialise. An argument left out is \<^verbatim>\<open>None\<close>.
\<close>

record api_gateway_event =
  httpMethod :: string
  path :: string
  pathParameters :: "(string \<times> string) list"
  queryStringParameters :: "(string \<times> string) list"
  headers :: "(string \<times> string) list"
  body :: "string option"
  requestContext :: pyval
  isBase64Encoded :: bool

text \<open>\<^verbatim>\<open>d or dflt\<close>: \<^verbatim>\<open>None\<close> and the empty dictionary are both false.\<close>

definition dict_or :: "(string \<times> 'v) list option \<Rightarrow> (string \<times> 'v) list \<Rightarrow> (string \<times> 'v) list" where
  "dict_or d dflt = (case d of None \<Rightarrow> dflt | Some kvs \<Rightarrow> if kvs = [] then dflt else kvs)"

text \<open>\<^verbatim>\<open>json.dumps(body) if body else None\<close>\<close>

definition dumps_if_truthy :: "(pydict \<Rightarrow> error + string) \<Rightarrow> pydict option \<Rightarrow> error + string option" where
  "dumps_if_truthy json_dumps b =
     (case b of
        None \<Rightarrow> Inr None
      | Some d \<Rightarrow> if d = [] then Inr None else map_sum id Some (json_dumps d))"

definition create_api_gateway_event ::
  "(pydict \<Rightarrow> error + string) \<Rightarrow> pydict option \<Rightarrow> (string \<times> string) list option \<Rightarrow>
   (string \<times> string) list option \<Rightarrow> (string \<times> string) list option \<Rightarrow> string \<Rightarrow> string \<Rightarrow>
   error + api_gateway_event" where
  "create_api_gateway_event json_dumps b path_parameters query_parameters hdrs http_method pth =
     then_do (dumps_if_truthy json_dumps b) (\<lambda>serialized.
       Inr \<lparr> httpMethod = http_method,
             path = pth,
             pathParameters = dict_or path_parameters [],
             queryStringParameters = dict_or query_parameters [],
             headers = dict_or hdrs [(''Content-Type'', ''application/json'')],
             body = serialized,
             requestContext = VDict
               [(''requestId'', VStr ''test-request-id''),
                (''authorizer'', VDict [(''claims'', VDict [(''sub'', VStr ''test-user-123'')])])],
             isBase64Encoded = False \<rparr>)"

section \<open>Dates and times\<close>

text \<open>
  A \<^verbatim>\<open>datetime\<close> of the standard library, without time zone (naive), as
  \<^verbatim>\<open>datetime.now()\<close> returns it: its seven fields. The calendar is the proleptic
  Gregorian calendar of the library, years 1 to 9999; the functions below are the
  library's \<^verbatim>\<open>_is_leap\<close>, \<^verbatim>\<open>_days_in_month\<close>, \<^verbatim>\<open>_days_before_year\<close>,
  \<^verbatim>\<open>_days_before_month\<close> and \<^verbatim>\<open>_ymd2ord\<close> (the day number, 1 for 0001-01-01).
\<close>

record datetime =
  year :: int
  month :: int
  day :: int
  hour :: int
  minute :: int
  second :: int
  microsecond :: int

definition is_leap :: "int \<Rightarrow> bool" where
  "is_leap y = (y mod 4 = 0 \<and> (y mod 100 \<noteq> 0 \<or> y mod 400 = 0))"

definition DAYS_IN_MONTH :: "int list" where
  "DAYS_IN_MONTH = [- 1, 31, 28, 31, 30, 31, 30, 31, 31, 30, 31, 30, 31]"

definition DAYS_BEFORE_MONTH :: "int list" where
  "DAYS_BEFORE_MONTH = [- 1, 0, 31, 59, 90, 120, 151, 181, 212, 243, 273, 304, 334]"

definition days_in_month :: "int \<Rightarrow> int \<Rightarrow> int" where
  "days_in_month y m = (if m = 2 \<and> is_leap y then 29 else DAYS_IN_MONTH ! nat m)"

definition days_before_year :: "int \<Rightarrow> int" where
  "days_before_year y = (let p = y - 1 in p * 365 + p div 4 - p div 100 + p div 400)"

definition days_before_month :: "int \<Rightarrow> int \<Rightarrow> int" where
  "days_before_month y m = DAYS_BEFORE_MONTH ! nat m + (if m > 2 \<and> is_leap y then 1 else 0)"

definition ymd2ord :: "int \<Rightarrow> int \<Rightarrow> int \<Rightarrow> int" where
  "ymd2ord y m d = days_before_year y + days_before_month y m + d"

text \<open>
  The checks of the constructor (\<^verbatim>\<open>_check_date_fields\<close>, \<^verbatim>\<open>_check_time_fields\<close>);
  the constructor raises ValueError when one fails.
\<close>

definition check_date_fields :: "int \<Rightarrow> int \<Rightarrow> int \<Rightarrow> bool" where
  "check_date_fields y m d =
     (1 \<le> y \<and> y \<le> 9999 \<and> 1 \<le> m \<and> m \<le> 12 \<and> 1 \<le> d \<and> d \<le> days_in_month y m)"

definition check_time_fields :: "int \<Rightarrow> int \<Rightarrow> int \<Rightarrow> int \<Rightarrow> bool" where
  "check_time_fields h mi s us =
     (0 \<le> h \<and> h \<le> 23 \<and> 0 \<le> mi \<and> mi \<le> 59 \<and> 0 \<le> s \<and> s \<le> 59 \<and> 0 \<le> us \<and> us \<le> 999999)"

definition valid_datetime :: "datetime \<Rightarrow> bool" where
  "valid_datetime x =
     (check_date_fields (year x) (month x) (day x)
      \<and> check_time_fields (hour x) (minute x) (second x) (microsecond x))"

definition toordinal :: "datetime \<Rightarrow> int" where
  "toordinal x = ymd2ord (year x) (month x) (day x)"

subsection \<open>Adding days\<close>

text \<open>
  \<^verbatim>\<open>timedelta(days=n)\<close> raises OverflowError when \<open>n\<close> has a magnitude above
  999999999. \<^verbatim>\<open>x + timedelta(days=n)\<close> is the same time of day \<open>n\<close> days later (earlier
  for a negative \<open>n\<close>), and raises OverflowError when that day is not between 0001-01-01
  and 9999-12-31. The library computes the date from the day number; here the date moves
  one day at a time, and \<open>toordinal\<close> is shown below to move by one with it.
\<close>

definition timedelta_days :: "int \<Rightarrow> error + int" where
  "timedelta_days n = (if \<bar>n\<bar> > 999999999 then Inl OverflowError else Inr n)"

definition next_day :: "datetime \<Rightarrow> error + datetime" where
  "next_day x =
     (if day x < days_in_month (year x) (month x) then Inr (x\<lparr>day := day x + 1\<rparr>)
      else if month x < 12 then Inr (x\<lparr>month := month x + 1, day := 1\<rparr>)
      else if year x < 9999 then Inr (x\<lparr>year := year x + 1, month := 1, day := 1\<rparr>)
      else Inl OverflowError)"

definition prev_day :: "datetime \<Rightarrow> error + datetime" where
  "prev_day x =
     (if 1 < day x then Inr (x\<lparr>day := day x - 1\<rparr>)
      else if 1 < month x
        then Inr (x\<lparr>month := month x - 1, day := days_in_month (year x) (month x - 1)\<rparr>)
      else if 1 < year x then Inr (x\<lparr>year := year x - 1, month := 12, day := 31\<rparr>)
      else Inl OverflowError)"

fun forward :: "nat \<Rightarrow> datetime \<Rightarrow> error + datetime" where
  "forward 0 x = Inr x"
| "forward (Suc k) x = then_do (next_day x) (forward k)"

fun backward :: "nat \<Rightarrow> datetime \<Rightarrow> error + datetime" where
  "backward 0 x = Inr x"
| "backward (Suc k) x = then_do (prev_day x) (backward k)"

definition datetime_add :: "datetime \<Rightarrow> int \<Rightarrow> error + datetime" where
  "datetime_add x n = (if 0 \<le> n then forward (nat n) x else backward (nat (- n)) x)"

definition datetime_sub :: "datetime \<Rightarrow> int \<Rightarrow> error + datetime" where
  "datetime_sub x n = datetime_add x (- n)"

subsection \<open>Comparison and formatting\<close>

text \<open>\<^verbatim>\<open>a <= b\<close> on naive date-times compares the fields in order.\<close>

definition dt_key :: "datetime \<Rightarrow> int \<times> int \<times> int \<times> int \<times> int \<times> int \<times> int" where
  "dt_key x = (year x, month x, day x, hour x, minute x, second x, microsecond x)"

definition datetime_le :: "datetime \<Rightarrow> datetime \<Rightarrow> bool" where
  "datetime_le a b = (dt_key a \<le> dt_key b)"

text \<open>
  \<^verbatim>\<open>x.strftime("%Y-%m-%d")\<close>. The platform's \<^verbatim>\<open>strftime\<close> writes the month and the
  day with two digits; glibc writes the year without padding (\<^verbatim>\<open>999-01-01\<close>).
\<close>

definition zero_pad2 :: "int \<Rightarrow> string" where
  "zero_pad2 n = (if n < 10 then CHR ''0'' # str_int n else str_int n)"

definition strftime_Ymd :: "datetime \<Rightarrow> string" where
  "strftime_Ymd x = str_int (year x) @ ''-'' @ zero_pad2 (month x) @ ''-'' @ zero_pad2 (day x)"

section \<open>Festival period\<close>

text \<open>
  \<^verbatim>\<open>
  def is_in_festival_period(date, festival_date, duration):
      festival_end = festival_date + timedelta(days=duration)
      return festival_date <= date <= festival_end
  \<close>
\<close>

definition is_in_festival_period :: "datetime \<Rightarrow> datetime \<Rightarrow> int \<Rightarrow> error + bool" where
  "is_in_festival_period date festival_date duration =
     then_do (timedelta_days duration) (\<lambda>delta.
     then_do (datetime_add festival_date delta) (\<lambda>festival_end.
       Inr (datetime_le festival_date date \<and> datetime_le date festival_end)))"

section \<open>Mock S3 object\<close>

text \<open>
  \<^verbatim>\<open>
  def mock_s3_object(bucket, key, content):
      return {"Bucket": bucket, "Key": key, "Body": content.encode("utf-8"),
              "ContentLength": len(content), "ContentType": "text/csv",
              "LastModified": datetime.now()}
  \<close>
  The reading of the clock, \<^verbatim>\<open>datetime.now()\<close>, is the first argument \<open>now\<close>.
  UTF-8 writes a code point below 128 as one byte and one from 128 to 255 as two.
\<close>

record s3_object =
  Bucket :: string
  Key :: string
  Body :: "char list"
  ContentLength :: nat
  ContentType :: string
  LastModified :: datetime

definition utf8_char :: "char \<Rightarrow> char list" where
  "utf8_char c =
     (let n = (of_char c :: nat)
      in if n < 128 then [c] else [char_of (192 + n div 64), char_of (128 + n mod 64)])"

definition encode_utf8 :: "string \<Rightarrow> char list" where
  "encode_utf8 s = concat (map utf8_char s)"

definition mock_s3_object :: "datetime \<Rightarrow> string \<Rightarrow> string \<Rightarrow> string \<Rightarrow> s3_object" where
  "mock_s3_object now bucket k content =
     \<lparr> Bucket = bucket, Key = k, Body = encode_utf8 content, ContentLength = length content,
       ContentType = ''text/csv'', LastModified = now \<rparr>"

section \<open>Sales record generator\<close>

text \<open>
  \<^verbatim>\<open>
  @st.composite
  def sales_record_strategy(draw):
      days_ago = draw(st.integers(min_value=0, max_value=730))
      date = datetime.now() - timedelta(days=days_ago)
      return {
          "date": date.strftime("%Y-%m-%d"),
          "sku": draw(st.text(alphabet=st.characters(whitelist_categories=("Lu", "Nd")),
                              min_size=5, max_size=10)),
          "quantity": draw(st.integers(min_value=1, max_value=1000)),
          "category": draw(st.sampled_from(["grocery", "apparel", "electronics", "home", "beauty"])),
          "price": draw(st.floats(min_value=1.0, max_value=10000.0,
                                  allow_nan=False, allow_infinity=False)),
      }
  \<close>
  A run of the generator is determined by the values \<^verbatim>\<open>draw\<close> returns and by the clock.
  The drawn values are the record \<open>sales_draws\<close>; \<open>sales_draws_ok\<close> says that each one
  is a value its strategy can return (among code points below 256 the uppercase letters
  are A to Z and U+00C0 to U+00DE without U+00D7, and the decimal digits are 0 to 9).
\<close>

record sales_draws =
  days_ago :: int
  sku :: string
  quantity :: int
  category :: string
  price :: pyfloat

definition is_Lu_or_Nd :: "char \<Rightarrow> bool" where
  "is_Lu_or_Nd c =
     (let n = (of_char c :: nat)
      in (48 \<le> n \<and> n \<le> 57) \<or> (65 \<le> n \<and> n \<le> 90) \<or> (192 \<le> n \<and> n \<le> 222 \<and> n \<noteq> 215))"

definition sales_draws_ok :: "sales_draws \<Rightarrow> bool" where
  "sales_draws_ok d =
     (0 \<le> days_ago d \<and> days_ago d \<le> 730
      \<and> 5 \<le> length (sku d) \<and> length (sku d) \<le> 10 \<and> list_all is_Lu_or_Nd (sku d)
      \<and> 1 \<le> quantity d \<and> quantity d \<le> 1000
      \<and> List.member [''grocery'', ''apparel'', ''electronics'', ''home'', ''beauty''] (category d)
      \<and> float_le (Finite 1) (price d) \<and> float_le (price d) (Finite 10000))"

definition sales_record_strategy :: "datetime \<Rightarrow> sales_draws \<Rightarrow> error + pydict" where
  "sales_record_strategy now d =
     then_do (timedelta_days (days_ago d)) (\<lambda>delta.
     then_do (datetime_sub now delta) (\<lambda>date.
       Inr [(''date'', VStr (strftime_Ymd date)),
            (''sku'', VStr (sku d)),
            (''quantity'', VInt (quantity d)),
            (''category'', VStr (category d)),
            (''price'', VFloat (price d))]))"

section \<open>The time line\<close>

text \<open>
  The claims about periods speak of points in time and of calendar days. The position of a
  naive date-time on the time line is its day number and its time of day, in
  microseconds; \<open>same_time\<close> says that two date-times have the same time of day.
  \<open>in_period_days\<close> is the set of calendar days that hold a date-time for which
  \<open>is_in_festival_period\<close> returns \<^verbatim>\<open>True\<close>.
\<close>

definition same_time :: "datetime \<Rightarrow> datetime \<Rightarrow> bool" where
  "same_time x y = (hour y = hour x \<and> minute y = minute x \<and> second y = second x
         \<and> microsecond y = microsecond x)"

definition time_of_day_us :: "datetime \<Rightarrow> int" where
  "time_of_day_us x = ((hour x * 60 + minute x) * 60 + second x) * 1000000 + microsecond x"

definition instant_us :: "datetime \<Rightarrow> int" where
  "instant_us x = toordinal x * 86400000000 + time_of_day_us x"

definition in_period_days :: "datetime \<Rightarrow> int \<Rightarrow> (int \<times> int \<times> int) set" where
  "in_period_days festival_date duration =
     {(year x, month x, day x) | x.
        valid_datetime x \<and> is_in_festival_period x festival_date duration = Inr True}"

section \<open>Parsing ISO 8601 strings\<close>

text \<open>
  \<^verbatim>\<open>datetime.fromisoformat\<close> of the interpreter the package requires (Python 3.11). It
  is library code, written here after the library's own functions
  (\<^verbatim>\<open>_find_isoformat_datetime_separator\<close>, \<^verbatim>\<open>_parse_isoformat_date\<close>,
  \<^verbatim>\<open>_parse_hh_mm_ss_ff\<close>, \<^verbatim>\<open>_parse_isoformat_time\<close>, \<^verbatim>\<open>_isoweek_to_gregorian\<close>,
  \<^verbatim>\<open>_ord2ymd\<close>) as the interpreter runs them: on the UTF-8 bytes of the string, which
  end with a zero byte. Every failure is a ValueError. The result is the naive date-time
  and, when the string has one, the offset from UTC in microseconds.
\<close>

definition byte_at :: "char list \<Rightarrow> nat \<Rightarrow> char" where
  "byte_at bs i = (if i < length bs then bs ! i else CHR 0x00)"

definition is_digit :: "char \<Rightarrow> bool" where
  "is_digit c = (let n = (of_char c :: nat) in 48 \<le> n \<and> n \<le> 57)"

definition digit_value :: "char \<Rightarrow> nat" where
  "digit_value c = of_char c - 48"

text \<open>\<open>n\<close> decimal digits starting at position \<open>p\<close>.\<close>

fun digits_from :: "char list \<Rightarrow> nat \<Rightarrow> nat \<Rightarrow> nat \<Rightarrow> nat option" where
  "digits_from bs p 0 acc = Some acc"
| "digits_from bs p (Suc n) acc =
     (if is_digit (byte_at bs p)
      then digits_from bs (Suc p) n (acc * 10 + digit_value (byte_at bs p))
      else None)"

definition parse_digits :: "char list \<Rightarrow> nat \<Rightarrow> nat \<Rightarrow> nat option" where
  "parse_digits bs p n = digits_from bs p n 0"

definition need :: "'a option \<Rightarrow> error + 'a" where
  "need x = (case x of None \<Rightarrow> Inl ValueError | Some v \<Rightarrow> Inr v)"

text \<open>Where the date part ends: after 7, 8 or 10 bytes.\<close>

definition find_isoformat_datetime_separator :: "char list \<Rightarrow> error + nat" where
  "find_isoformat_datetime_separator bs =
     (let n = length bs in
      if n = 7 then Inr 7
      else if byte_at bs 4 = CHR ''-'' then
        (if byte_at bs 5 = CHR ''W'' then
           (if n < 8 then Inl ValueError
            else if 8 < n \<and> byte_at bs 8 = CHR ''-'' then
              (if n = 9 then Inl ValueError
               else if 10 < n \<and> is_digit (byte_at bs 10) then Inr 8
               else Inr 10)
            else Inr 8)
         else Inr 10)
      else if byte_at bs 4 = CHR ''W'' then
        (let idx = 7 + length (takeWhile is_digit (drop 7 bs)) in
         if idx < 9 then Inr idx else if even idx then Inr 7 else Inr 8)
      else Inr 8)"

subsection \<open>ISO week dates\<close>

definition ord2ymd :: "int \<Rightarrow> int \<times> int \<times> int" where
  "ord2ymd ordinal =
     (let n = ordinal - 1;
          n400 = n div 146097; n = n mod 146097;
          n100 = n div 36524; n = n mod 36524;
          n4 = n div 1461; n = n mod 1461;
          n1 = n div 365; n = n mod 365;
          y = n400 * 400 + 1 + n100 * 100 + n4 * 4 + n1
      in if n1 = 4 \<or> n100 = 4 then (y - 1, 12, 31)
         else
           (let leapyear = (n1 = 3 \<and> (n4 \<noteq> 24 \<or> n100 = 3));
                m = (n + 50) div 32;
                preceding = DAYS_BEFORE_MONTH ! nat m + (if 2 < m \<and> leapyear then 1 else 0)
            in if n < preceding
               then (let m' = m - 1;
                         preceding' = preceding
                           - (DAYS_IN_MONTH ! nat m' + (if m' = 2 \<and> leapyear then 1 else 0))
                     in (y, m', n - preceding' + 1))
               else (y, m, n - preceding + 1)))"

definition isoweek1monday :: "int \<Rightarrow> int" where
  "isoweek1monday y =
     (let firstday = ymd2ord y 1 1;
          firstweekday = (firstday + 6) mod 7;
          week1monday = firstday - firstweekday
      in if 3 < firstweekday then week1monday + 7 else week1monday)"

text \<open>
  A week 53 exists in the years that start on a Thursday and in the leap years that
  start on a Wednesday. A day outside the calendar (after 9999-12-31) is refused by the
  constructor.
\<close>

definition isoweek_to_gregorian :: "int \<Rightarrow> int \<Rightarrow> int \<Rightarrow> error + int \<times> int \<times> int" where
  "isoweek_to_gregorian y week d =
     (if \<not> (1 \<le> y \<and> y \<le> 9999) then Inl ValueError
      else if \<not> (0 < week \<and> week < 53)
              \<and> \<not> (week = 53 \<and> (let first_weekday = ymd2ord y 1 1 mod 7
                                 in first_weekday = 4 \<or> (first_weekday = 3 \<and> is_leap y)))
        then Inl ValueError
      else if \<not> (0 < d \<and> d < 8) then Inl ValueError
      else (let ordinal = isoweek1monday y + (week - 1) * 7 + (d - 1)
            in if 1 \<le> ordinal \<and> ordinal \<le> 3652059 then Inr (ord2ymd ordinal)
               else Inl ValueError))"

subsection \<open>The date part\<close>

text \<open>
  \<open>YYYY-MM-DD\<close>, \<open>YYYYMMDD\<close>, \<open>YYYY-Www\<close>, \<open>YYYYWww\<close>, \<open>YYYY-Www-D\<close> or \<open>YYYYWwwD\<close>
  in the first \<open>n\<close> bytes; the result is year, month and day, not yet checked.
\<close>

definition expect_dash :: "char list \<Rightarrow> bool \<Rightarrow> nat \<Rightarrow> error + nat" where
  "expect_dash bs uses_separator cur =
     (if uses_separator
      then (if byte_at bs cur = CHR ''-'' then Inr (Suc cur) else Inl ValueError)
      else Inr cur)"

definition parse_isoformat_date :: "char list \<Rightarrow> nat \<Rightarrow> error + int \<times> int \<times> int" where
  "parse_isoformat_date bs n =
     then_do (need (parse_digits bs 0 4)) (\<lambda>y.
       let uses_separator = (byte_at bs 4 = CHR ''-'');
           cur = (if uses_separator then 5 else 4)
       in if byte_at bs cur = CHR ''W'' then
            then_do (need (parse_digits bs (cur + 1) 2)) (\<lambda>week.
              if cur + 3 < n then
                then_do (expect_dash bs uses_separator (cur + 3)) (\<lambda>cur'.
                then_do (need (parse_digits bs cur' 1)) (\<lambda>d.
                  isoweek_to_gregorian (int y) (int week) (int d)))
              else isoweek_to_gregorian (int y) (int week) 1)
          else
            then_do (need (parse_digits bs cur 2)) (\<lambda>m.
            then_do (expect_dash bs uses_separator (cur + 2)) (\<lambda>cur'.
            then_do (need (parse_digits bs cur' 2)) (\<lambda>d.
              Inr (int y, int m, int d)))))"

subsection \<open>The time part\<close>

text \<open>
  \<open>HH[:MM[:SS[.ffffff]]]\<close>, with or without the colons, in the bytes from \<open>p\<close> up to
  \<open>e\<close>. The result is a flag and the four numbers; the flag says that the byte where the
  parse stopped is not the zero byte. \<open>hms k p has_separator vs\<close> reads up to \<open>k\<close> more
  two-digit numbers, \<open>vs\<close> being those read so far.
\<close>

definition FRACTION_CORRECTION :: "nat list" where
  "FRACTION_CORRECTION = [100000, 10000, 1000, 100, 10]"

definition pad3 :: "nat list \<Rightarrow> nat list" where
  "pad3 vs = take 3 (vs @ [0, 0, 0])"

definition skip_digits :: "char list \<Rightarrow> nat \<Rightarrow> nat" where
  "skip_digits bs p = p + length (takeWhile is_digit (drop p bs))"

definition fraction :: "char list \<Rightarrow> nat \<Rightarrow> nat \<Rightarrow> nat list \<Rightarrow> error + bool \<times> nat list" where
  "fraction bs e p vs =
     (let len_remains = e - p;
          to_parse = min len_remains 6
      in then_do (need (parse_digits bs p to_parse)) (\<lambda>us.
           let us' = (if to_parse < 6 then us * FRACTION_CORRECTION ! (to_parse - 1) else us);
               q = skip_digits bs (p + to_parse)
           in Inr (byte_at bs q \<noteq> CHR 0x00, pad3 vs @ [us'])))"

fun hms :: "char list \<Rightarrow> nat \<Rightarrow> nat \<Rightarrow> nat \<Rightarrow> bool \<Rightarrow> nat list \<Rightarrow> error + bool \<times> nat list" where
  "hms bs e 0 p has_separator vs = fraction bs e p vs"
| "hms bs e (Suc k) p has_separator vs =
     then_do (need (parse_digits bs p 2)) (\<lambda>v.
       let c = byte_at bs (p + 2);
           q = p + 3;
           has_separator' = (if vs = [] then c = CHR '':'' else has_separator)
       in if e \<le> q then Inr (c \<noteq> CHR 0x00, pad3 (vs @ [v]) @ [0])
          else if has_separator' \<and> c = CHR '':'' then hms bs e k q has_separator' (vs @ [v])
          else if c = CHR ''.'' \<or> c = CHR '','' then fraction bs e q (vs @ [v])
          else if \<not> has_separator' then hms bs e k (q - 1) has_separator' (vs @ [v])
          else Inl ValueError)"

definition parse_hh_mm_ss_ff :: "char list \<Rightarrow> nat \<Rightarrow> nat \<Rightarrow> error + bool \<times> nat list" where
  "parse_hh_mm_ss_ff bs p e = hms bs e 3 p True []"

text \<open>The first \<open>Z\<close>, \<open>+\<close> or \<open>-\<close> from position \<open>p\<close>, or the end \<open>e\<close> of the time part.\<close>

definition is_tz_marker :: "char \<Rightarrow> bool" where
  "is_tz_marker c = (c = CHR ''Z'' \<or> c = CHR ''+'' \<or> c = CHR ''-'')"

function tz_scan :: "char list \<Rightarrow> nat \<Rightarrow> nat \<Rightarrow> nat" where
  "tz_scan bs e p =
     (if is_tz_marker (byte_at bs p) then p
      else if Suc p < e then tz_scan bs e (Suc p)
      else Suc p)"
  by pat_completeness auto
termination
  by (relation "measure (\<lambda>(bs, e, p). e - p)") auto

declare tz_scan.simps [simp del]

text \<open>
  The time part of \<open>n\<close> bytes from \<open>p\<close>: the time, and the offset from UTC in
  microseconds. An offset of zero seconds is UTC whatever its fraction; any other offset
  must be strictly between minus and plus 24 hours.
\<close>

definition parse_isoformat_time :: "char list \<Rightarrow> nat \<Rightarrow> nat \<Rightarrow> error + nat list \<times> int option" where
  "parse_isoformat_time bs p n =
     (let e = p + n;
          tz = tz_scan bs e p
      in then_do (parse_hh_mm_ss_ff bs p tz) (\<lambda>(more, t).
           if tz = e then (if more then Inl ValueError else Inr (t, None))
           else if byte_at bs tz = CHR ''Z''
             then (if byte_at bs (tz + 1) \<noteq> CHR 0x00 then Inl ValueError else Inr (t, Some 0))
           else
             then_do (parse_hh_mm_ss_ff bs (tz + 1) e) (\<lambda>(more', z).
               if more' then Inl ValueError
               else (let secs = int (z ! 0) * 3600 + int (z ! 1) * 60 + int (z ! 2);
                         tzsign = (if byte_at bs tz = CHR ''-'' then - 1 else 1);
                         off = tzsign * (secs * 1000000 + int (z ! 3))
                     in if secs = 0 then Inr (t, Some 0)
                        else if - 86400000000 < off \<and> off < 86400000000 then Inr (t, Some off)
                        else Inl ValueError))))"

subsection \<open>The whole string\<close>

text \<open>The separator after the date part is one character, of one or more bytes.\<close>

definition separator_width :: "char \<Rightarrow> nat" where
  "separator_width b =
     (let n = (of_char b :: nat)
      in if n < 128 then 1 else if 240 \<le> n then 4 else if 224 \<le> n then 3 else 2)"

definition fromisoformat :: "string \<Rightarrow> error + datetime \<times> int option" where
  "fromisoformat date_string =
     (let bs = encode_utf8 date_string;
          len = length bs
      in if len < 7 then Inl ValueError
         else
           then_do (find_isoformat_datetime_separator bs) (\<lambda>separator_location.
           then_do (parse_isoformat_date bs separator_location) (\<lambda>(y, m, d).
           then_do (if separator_location < len
                    then (let p = separator_location
                                  + separator_width (byte_at bs separator_location)
                          in parse_isoformat_time bs p (len - p))
                    else Inr ([0, 0, 0, 0], None)) (\<lambda>(t, tzoffset).
             if check_date_fields y m d
                \<and> check_time_fields (int (t ! 0)) (int (t ! 1)) (int (t ! 2)) (int (t ! 3))
             then Inr (\<lparr> year = y, month = m, day = d, hour = int (t ! 0),
                         minute = int (t ! 1), second = int (t ! 2),
                         microsecond = int (t ! 3) \<rparr>, tzoffset)
             else Inl ValueError))))"

text \<open>A step of the parser fails with ValueError or not at all.\<close>

definition only_ValueError :: "error + 'a \<Rightarrow> bool" where
  "only_ValueError m = (case m of Inl e \<Rightarrow> e = ValueError | Inr x \<Rightarrow> True)"

section \<open>Date string validation\<close>

text \<open>
  \<^verbatim>\<open>
  def is_valid_date_string(date_string):
      try:
          datetime.fromisoformat(date_string.replace("Z", "+00:00"))
          return True
      except (ValueError, AttributeError):
          return False
  \<close>
  \<^verbatim>\<open>str.replace\<close> rewrites every occurrence.
\<close>

definition replace_Z :: "string \<Rightarrow> string" where
  "replace_Z s = concat (map (\<lambda>c. if c = CHR ''Z'' then ''+00:00'' else [c]) s)"

definition is_valid_date_string :: "string \<Rightarrow> error + bool" where
  "is_valid_date_string date_string =
     (case fromisoformat (replace_Z date_string) of
        Inr parsed \<Rightarrow> Inr True
      | Inl e \<Rightarrow> if e = ValueError \<or> e = AttributeError then Inr False else Inl e)"

text \<open>
  The same function on a value that need not be a string. A number, a bool,
  \<^verbatim>\<open>None\<close>, a dictionary and a list have no attribute \<^verbatim>\<open>replace\<close>: the call raises
  AttributeError, which the function catches. An object of another type may have one
  (a \<^verbatim>\<open>datetime\<close>, a \<^verbatim>\<open>date\<close> and \<^verbatim>\<open>bytes\<close> do, and raise TypeError on these
  two arguments): what \<^verbatim>\<open>v.replace("Z", "+00:00")\<close> does on an object \<open>VOther\<close> is
  the parameter \<open>obj_replace\<close>. When it returns, \<^verbatim>\<open>datetime.fromisoformat\<close> raises
  TypeError unless the value returned is a string. Only ValueError and AttributeError
  are caught.
\<close>

definition is_valid_date_string_val :: "(pyval \<Rightarrow> error + pyval) \<Rightarrow> pyval \<Rightarrow> error + bool" where
  "is_valid_date_string_val obj_replace v =
     (case v of
        VStr s \<Rightarrow> is_valid_date_string s
      | VOther s r \<Rightarrow>
          (case then_do (obj_replace v) (\<lambda>w.
                  case w of VStr t \<Rightarrow> fromisoformat t | _ \<Rightarrow> Inl TypeError) of
             Inr parsed \<Rightarrow> Inr True
           | Inl e \<Rightarrow> if e = ValueError \<or> e = AttributeError then Inr False else Inl e)
      | _ \<Rightarrow> Inr False)"

section \<open>Forecast validation\<close>

text \<open>
  \<^verbatim>\<open>
  def assert_forecast_result_valid(forecast):
      required_fields = ["sku", "category", "predictions", "confidence", "methodology"]
      assert has_required_fields(forecast, required_fields)
      assert is_valid_confidence(forecast["confidence"])
      assert forecast["methodology"] in ["ml", "pattern", "hybrid"]
      assert isinstance(forecast["predictions"], list)
      assert len(forecast["predictions"]) > 0
      for prediction in forecast["predictions"]:
          assert has_required_fields(
              prediction, ["date", "demandForecast", "lowerBound", "upperBound"])
          assert is_valid_date_string(prediction["date"])
          assert prediction["demandForecast"] >= 0
          assert prediction["lowerBound"] <= prediction["demandForecast"]
          assert prediction["upperBound"] >= prediction["demandForecast"]
  \<close>
  A comparison with a number raises TypeError unless the other operand is a number too;
  once \<^verbatim>\<open>prediction["demandForecast"] >= 0\<close> has passed, the two comparisons after it
  have a number on one side.
\<close>

definition num_compare :: "pyval \<Rightarrow> pyval \<Rightarrow> error + bool" where
  "num_compare a b =
     (case (as_num a, as_num b) of
        (Some x, Some y) \<Rightarrow> Inr (num_le x y)
      | _ \<Rightarrow> Inl TypeError)"

definition assert_prediction_valid :: "(pyval \<Rightarrow> error + pyval) \<Rightarrow> pyval \<Rightarrow> error + unit" where
  "assert_prediction_valid obj_replace prediction =
     then_do (has_required_fields_val prediction
        [''date'', ''demandForecast'', ''lowerBound'', ''upperBound'']) (\<lambda>ok.
     then_do (py_assert ok) (\<lambda>_.
     then_do (getitem_val prediction ''date'') (\<lambda>dt.
     then_do (is_valid_date_string_val obj_replace dt) (\<lambda>ok.
     then_do (py_assert ok) (\<lambda>_.
     then_do (getitem_val prediction ''demandForecast'') (\<lambda>demand.
     then_do (num_compare (VInt 0) demand) (\<lambda>ok.
     then_do (py_assert ok) (\<lambda>_.
     then_do (getitem_val prediction ''lowerBound'') (\<lambda>lower.
     then_do (num_compare lower demand) (\<lambda>ok.
     then_do (py_assert ok) (\<lambda>_.
     then_do (getitem_val prediction ''upperBound'') (\<lambda>upper.
     then_do (num_compare demand upper) py_assert))))))))))))"

fun assert_predictions_valid :: "(pyval \<Rightarrow> error + pyval) \<Rightarrow> pyval list \<Rightarrow> error + unit" where
  "assert_predictions_valid obj_replace [] = Inr ()"
| "assert_predictions_valid obj_replace (prediction # rest) =
     then_do (assert_prediction_valid obj_replace prediction) (\<lambda>_.
       assert_predictions_valid obj_replace rest)"

definition assert_forecast_result_valid :: "(pyval \<Rightarrow> error + pyval) \<Rightarrow> pydict \<Rightarrow> error + unit" where
  "assert_forecast_result_valid obj_replace forecast =
     then_do (py_assert (has_required_fields forecast
        [''sku'', ''category'', ''predictions'', ''confidence'', ''methodology''])) (\<lambda>_.
     then_do (getitem forecast ''confidence'') (\<lambda>c.
     then_do (is_valid_confidence_val c) (\<lambda>ok.
     then_do (py_assert ok) (\<lambda>_.
     then_do (getitem forecast ''methodology'') (\<lambda>m.
     then_do (py_assert (m \<in> set [VStr ''ml'', VStr ''pattern'', VStr ''hybrid''])) (\<lambda>_.
     then_do (getitem forecast ''predictions'') (\<lambda>ps.
     then_do (py_assert (isinstance ps [TList])) (\<lambda>_.
     then_do (py_assert (0 < length (elements ps))) (\<lambda>_.
       assert_predictions_valid obj_replace (elements ps))))))))))"

section \<open>The other helpers\<close>

subsection \<open>Mock Lambda context\<close>

text \<open>
  \<^verbatim>\<open>
  def create_lambda_context(function_name="test-function", memory_limit=512, timeout=30):
      class MockLambdaContext:
          def __init__(self):
              self.function_name = function_name
              self.memory_limit_in_mb = memory_limit
              self.invoked_function_arn = (
                  f"arn:aws:lambda:us-east-1:123456789012:function:{function_name}")
              self.aws_request_id = "test-request-id"
              self.log_group_name = f"/aws/lambda/{function_name}"
              self.log_stream_name = "test-stream"
              self._remaining_time = timeout * 1000
          def get_remaining_time_in_millis(self):
              return self._remaining_time
      return MockLambdaContext()
  \<close>
  Every call makes a new object of a new class; the object is modelled by the values
  of its attributes.
\<close>

record lambda_context =
  function_name :: string
  memory_limit_in_mb :: int
  invoked_function_arn :: string
  aws_request_id :: string
  log_group_name :: string
  log_stream_name :: string
  remaining_time :: int

definition create_lambda_context :: "string \<Rightarrow> int \<Rightarrow> int \<Rightarrow> lambda_context" where
  "create_lambda_context fname memory_limit timeout =
     \<lparr> function_name = fname, memory_limit_in_mb = memory_limit,
       invoked_function_arn = ''arn:aws:lambda:us-east-1:123456789012:function:'' @ fname,
       aws_request_id = ''test-request-id'',
       log_group_name = ''/aws/lambda/'' @ fname,
       log_stream_name = ''test-stream'',
       remaining_time = timeout * 1000 \<rparr>"

definition get_remaining_time_in_millis :: "lambda_context \<Rightarrow> int" where
  "get_remaining_time_in_millis self = remaining_time self"

subsection \<open>Date ranges\<close>

text \<open>
  \<^verbatim>\<open>
  def generate_date_range(start_date, days):
      return [(start_date + timedelta(days=i)).strftime("%Y-%m-%d") for i in range(days)]
  \<close>
  \<open>map_results\<close> is a comprehension whose body can raise: the first failure ends it.
\<close>

primrec map_results :: "('a \<Rightarrow> error + 'b) \<Rightarrow> 'a list \<Rightarrow> error + 'b list" where
  "map_results f [] = Inr []"
| "map_results f (x # xs) =
     then_do (f x) (\<lambda>y. then_do (map_results f xs) (\<lambda>ys. Inr (y # ys)))"

definition generate_date_range :: "datetime \<Rightarrow> int \<Rightarrow> error + string list" where
  "generate_date_range start_date days =
     map_results
       (\<lambda>i. then_do (timedelta_days i) (\<lambda>delta.
             then_do (datetime_add start_date delta) (\<lambda>x. Inr (strftime_Ymd x))))
       (map int [0..<nat days])"

subsection \<open>API responses\<close>

text \<open>
  \<^verbatim>\<open>
  def assert_api_response(response, expected_status=200, expected_body_keys=None):
      assert "statusCode" in response
      assert response["statusCode"] == expected_status
      assert "body" in response
      body = (json.loads(response["body"]) if isinstance(response["body"], str)
              else response["body"])
      if expected_body_keys:
          for key in expected_body_keys:
              assert key in body, f"Expected key '{key}' not found in response body"
      return body
  \<close>
  \<^verbatim>\<open>json.loads\<close> is the library's and a parameter. \<^verbatim>\<open>v == n\<close> for an int \<open>n\<close> compares
  numbers by value and is false for every other value. \<^verbatim>\<open>key in body\<close> is a key test on
  a dictionary, a substring test on a string, a membership test on a list, and raises
  TypeError on the other values.
\<close>

definition py_eq_int :: "pyval \<Rightarrow> int \<Rightarrow> bool" where
  "py_eq_int v n = (case as_num v of None \<Rightarrow> False | Some x \<Rightarrow> num_eq x (PInt n))"

definition py_contains :: "pyval \<Rightarrow> string \<Rightarrow> error + bool" where
  "py_contains container k =
     (case container of
        VDict d \<Rightarrow> Inr (dict_contains d k)
      | VStr s \<Rightarrow> Inr (is_substring k s)
      | VList xs \<Rightarrow> Inr (VStr k \<in> set xs)
      | _ \<Rightarrow> Inl TypeError)"

fun assert_keys_in :: "pyval \<Rightarrow> string list \<Rightarrow> error + unit" where
  "assert_keys_in b [] = Inr ()"
| "assert_keys_in b (k # ks) =
     then_do (py_contains b k) (\<lambda>ok.
     then_do (py_assert ok) (\<lambda>_. assert_keys_in b ks))"

definition assert_api_response ::
    "(string \<Rightarrow> error + pyval) \<Rightarrow> pydict \<Rightarrow> int \<Rightarrow> string list option \<Rightarrow> error + pyval" where
  "assert_api_response json_loads response expected_status expected_body_keys =
     then_do (py_assert (dict_contains response ''statusCode'')) (\<lambda>_.
     then_do (getitem response ''statusCode'') (\<lambda>status.
     then_do (py_assert (py_eq_int status expected_status)) (\<lambda>_.
     then_do (py_assert (dict_contains response ''body'')) (\<lambda>_.
     then_do (getitem response ''body'') (\<lambda>raw.
     then_do (case raw of VStr s \<Rightarrow> json_loads s | _ \<Rightarrow> Inr raw) (\<lambda>b.
     then_do (case expected_body_keys of
                None \<Rightarrow> Inr ()
              | Some ks \<Rightarrow> assert_keys_in b ks) (\<lambda>_.
       Inr b)))))))"

section \<open>The other generators\<close>

text \<open>
  As for \<open>sales_record_strategy\<close>, a run of a generator is determined by the values
  \<^verbatim>\<open>draw\<close> returns, in a record of draws, and by the clock where the generator reads it.
  The ranges of the drawn values are those of the strategies in the source; they are
  written out where a property depends on them.
\<close>

definition BUSINESS_TYPES :: "string list" where
  "BUSINESS_TYPES = [''grocery'', ''apparel'', ''electronics'', ''general'']"

definition STORE_SIZES :: "string list" where
  "STORE_SIZES = [''small'', ''medium'', ''large'']"

definition REGIONS :: "string list" where
  "REGIONS = [''north'', ''south'', ''east'', ''west'', ''central'']"

definition RISK_TOLERANCES :: "string list" where
  "RISK_TOLERANCES = [''conservative'', ''moderate'', ''aggressive'']"

definition DATA_QUALITIES :: "string list" where
  "DATA_QUALITIES = [''poor'', ''fair'', ''good'']"

subsection \<open>Lists of sales records\<close>

text \<open>
  \<^verbatim>\<open>
  @st.composite
  def sales_data_list_strategy(draw, min_size=1, max_size=100):
      return draw(st.lists(sales_record_strategy(), min_size=min_size, max_size=max_size))
  \<close>
  Every element is a run of \<open>sales_record_strategy\<close>, which reads the clock: a run of
  the list generator is the list of the clock readings and draws of its elements. The
  sizes bound the number of elements; which sizes the library accepts is not modelled.
\<close>

definition sales_list_runs_ok :: "nat \<Rightarrow> nat \<Rightarrow> (datetime \<times> sales_draws) list \<Rightarrow> bool" where
  "sales_list_runs_ok min_size max_size runs =
     (min_size \<le> length runs \<and> length runs \<le> max_size
      \<and> list_all (\<lambda>run. sales_draws_ok (snd run)) runs)"

definition sales_data_list_strategy ::
    "nat \<Rightarrow> nat \<Rightarrow> (datetime \<times> sales_draws) list \<Rightarrow> error + pydict list" where
  "sales_data_list_strategy min_size max_size runs =
     map_results (\<lambda>run. sales_record_strategy (fst run) (snd run)) runs"

subsection \<open>Invalid sales records\<close>

text \<open>
  \<^verbatim>\<open>
  @st.composite
  def invalid_sales_record_strategy(draw):
      record = {}
      if draw(st.booleans()):
          record["date"] = draw(st.one_of(st.just("invalid-date"), st.text(max_size=5),
                                          st.none()))
      if draw(st.booleans()):
          record["sku"] = draw(st.one_of(st.text(max_size=2), st.none()))
      if draw(st.booleans()):
          record["quantity"] = draw(st.one_of(st.integers(max_value=0),
                                              st.floats(allow_nan=True), st.none()))
      return record
  \<close>
\<close>

record invalid_sales_draws =
  iv_with_date :: bool
  iv_date :: pyval
  iv_with_sku :: bool
  iv_sku :: pyval
  iv_with_quantity :: bool
  iv_quantity :: pyval

definition invalid_sales_record_strategy :: "invalid_sales_draws \<Rightarrow> pydict" where
  "invalid_sales_record_strategy d =
     (if iv_with_date d then [(''date'', iv_date d)] else [])
     @ (if iv_with_sku d then [(''sku'', iv_sku d)] else [])
     @ (if iv_with_quantity d then [(''quantity'', iv_quantity d)] else [])"

subsection \<open>Festival events\<close>

text \<open>
  \<^verbatim>\<open>
  @st.composite
  def festival_event_strategy(draw):
      festival_names = ["Diwali", "Eid", "Holi", "Christmas", "Pongal", "Onam", "Durga Puja"]
      days_ahead = draw(st.integers(min_value=1, max_value=365))
      date = datetime.now() + timedelta(days=days_ahead)
      return {
          "festivalId": f"{draw(st.sampled_from(festival_names)).lower()}-{date.year}",
          "name": draw(st.sampled_from(festival_names)),
          "date": date.strftime("%Y-%m-%d"),
          "region": draw(st.lists(st.sampled_from(REGIONS), min_size=1, max_size=3,
                                  unique=True)),
          "category": "festival",
          "demandMultipliers": {
              "grocery": draw(st.floats(min_value=1.0, max_value=5.0)),
              "apparel": draw(st.floats(min_value=1.0, max_value=5.0)),
              "electronics": draw(st.floats(min_value=1.0, max_value=5.0)),
          },
          "duration": draw(st.integers(min_value=1, max_value=10)),
          "preparationDays": draw(st.integers(min_value=7, max_value=30)),
      }
  \<close>
  The name in \<open>festivalId\<close> and the \<open>name\<close> are two draws. \<^verbatim>\<open>str.lower\<close> moves the
  uppercase letters among the code points below 256 (A to Z, U+00C0 to U+00DE without
  U+00D7) up by 32.
\<close>

definition festival_names :: "string list" where
  "festival_names = [''Diwali'', ''Eid'', ''Holi'', ''Christmas'', ''Pongal'', ''Onam'',
                     ''Durga Puja'']"

definition lower_char :: "char \<Rightarrow> char" where
  "lower_char c =
     (let n = (of_char c :: nat)
      in if (65 \<le> n \<and> n \<le> 90) \<or> (192 \<le> n \<and> n \<le> 222 \<and> n \<noteq> 215) then char_of (n + 32)
         else c)"

definition lower :: "string \<Rightarrow> string" where
  "lower s = map lower_char s"

record festival_draws =
  fe_days_ahead :: int
  fe_id_name :: string
  fe_name :: string
  fe_region :: "string list"
  fe_grocery :: pyfloat
  fe_apparel :: pyfloat
  fe_electronics :: pyfloat
  fe_duration :: int
  fe_preparation_days :: int

definition festival_draws_ok :: "festival_draws \<Rightarrow> bool" where
  "festival_draws_ok d =
     (1 \<le> fe_days_ahead d \<and> fe_days_ahead d \<le> 365
      \<and> List.member festival_names (fe_id_name d) \<and> List.member festival_names (fe_name d)
      \<and> 1 \<le> length (fe_region d) \<and> length (fe_region d) \<le> 3 \<and> distinct (fe_region d)
      \<and> list_all (List.member REGIONS) (fe_region d)
      \<and> float_le (Finite 1) (fe_grocery d) \<and> float_le (fe_grocery d) (Finite 5)
      \<and> float_le (Finite 1) (fe_apparel d) \<and> float_le (fe_apparel d) (Finite 5)
      \<and> float_le (Finite 1) (fe_electronics d) \<and> float_le (fe_electronics d) (Finite 5)
      \<and> 1 \<le> fe_duration d \<and> fe_duration d \<le> 10
      \<and> 7 \<le> fe_preparation_days d \<and> fe_preparation_days d \<le> 30)"

definition festival_event_strategy :: "datetime \<Rightarrow> festival_draws \<Rightarrow> error + pydict" where
  "festival_event_strategy now d =
     then_do (timedelta_days (fe_days_ahead d)) (\<lambda>delta.
     then_do (datetime_add now delta) (\<lambda>date.
       Inr [(''festivalId'', VStr (lower (fe_id_name d) @ ''-'' @ str_int (year date))),
            (''name'', VStr (fe_name d)),
            (''date'', VStr (strftime_Ymd date)),
            (''region'', VList (map VStr (fe_region d))),
            (''category'', VStr ''festival''),
            (''demandMultipliers'',
               VDict [(''grocery'', VFloat (fe_grocery d)),
                      (''apparel'', VFloat (fe_apparel d)),
                      (''electronics'', VFloat (fe_electronics d))]),
            (''duration'', VInt (fe_duration d)),
            (''preparationDays'', VInt (fe_preparation_days d))]))"

subsection \<open>User profiles\<close>

text \<open>
  \<^verbatim>\<open>
  @st.composite
  def user_profile_strategy(draw):
      return {
          "userId": f"user-{draw(st.text(alphabet=st.characters(whitelist_categories=('Ll', 'Nd')), min_size=8, max_size=12))}",
          "businessInfo": {
              "name": draw(st.text(min_size=5, max_size=50)),
              "type": draw(st.sampled_from(BUSINESS_TYPES)),
              "location": {
                  "city": draw(st.text(min_size=3, max_size=30)),
                  "state": draw(st.text(min_size=3, max_size=30)),
                  "region": draw(st.sampled_from(REGIONS)),
              },
              "size": draw(st.sampled_from(STORE_SIZES)),
          },
          "dataCapabilities": {
              "hasHistoricalData": draw(st.booleans()),
              "dataQuality": draw(st.sampled_from(DATA_QUALITIES)),
              "lastUpdated": datetime.now().isoformat(),
          },
          "preferences": {
              "forecastHorizon": draw(st.integers(min_value=7, max_value=14)),
              "riskTolerance": draw(st.sampled_from(RISK_TOLERANCES)),
          },
      }
  \<close>
  \<^verbatim>\<open>x.isoformat()\<close> of a naive date-time is \<^verbatim>\<open>YYYY-MM-DDTHH:MM:SS\<close>, followed by
  \<^verbatim>\<open>.ffffff\<close> when the microsecond is not zero; the numbers are padded with zeros
  (\<^verbatim>\<open>%04d\<close>, \<^verbatim>\<open>%02d\<close>, \<^verbatim>\<open>%06d\<close>).
\<close>

definition zfill :: "nat \<Rightarrow> string \<Rightarrow> string" where
  "zfill w s = replicate (w - length s) CHR ''0'' @ s"

definition format_0d :: "nat \<Rightarrow> int \<Rightarrow> string" where
  "format_0d w n =
     (if n < 0 then CHR ''-'' # zfill (w - 1) (str_nat (nat (- n))) else zfill w (str_nat (nat n)))"

definition isoformat :: "datetime \<Rightarrow> string" where
  "isoformat x =
     format_0d 4 (year x) @ ''-'' @ format_0d 2 (month x) @ ''-'' @ format_0d 2 (day x)
     @ ''T'' @ format_0d 2 (hour x) @ '':'' @ format_0d 2 (minute x) @ '':''
     @ format_0d 2 (second x)
     @ (if microsecond x = 0 then [] else ''.'' @ format_0d 6 (microsecond x))"

record profile_draws =
  up_user_suffix :: string
  up_business_name :: string
  up_business_type :: string
  up_city :: string
  up_state :: string
  up_region :: string
  up_size :: string
  up_has_historical_data :: bool
  up_data_quality :: string
  up_forecast_horizon :: int
  up_risk_tolerance :: string

definition user_profile_strategy :: "datetime \<Rightarrow> profile_draws \<Rightarrow> pydict" where
  "user_profile_strategy now d =
     [(''userId'', VStr (''user-'' @ up_user_suffix d)),
      (''businessInfo'',
         VDict [(''name'', VStr (up_business_name d)),
                (''type'', VStr (up_business_type d)),
                (''location'',
                   VDict [(''city'', VStr (up_city d)),
                          (''state'', VStr (up_state d)),
                          (''region'', VStr (up_region d))]),
                (''size'', VStr (up_size d))]),
      (''dataCapabilities'',
         VDict [(''hasHistoricalData'', VBool (up_has_historical_data d)),
                (''dataQuality'', VStr (up_data_quality d)),
                (''lastUpdated'', VStr (isoformat now))]),
      (''preferences'',
         VDict [(''forecastHorizon'', VInt (up_forecast_horizon d)),
                (''riskTolerance'', VStr (up_risk_tolerance d))])]"

subsection \<open>Questionnaire responses, forecast requests and inventory data\<close>

text \<open>
  \<^verbatim>\<open>
  @st.composite
  def questionnaire_response_strategy(draw):
      return {
          "userId": f"user-{draw(st.text(alphabet=st.characters(whitelist_categories=('Ll', 'Nd')), min_size=8, max_size=12))}",
          "businessType": draw(st.sampled_from(BUSINESS_TYPES)),
          "storeSize": draw(st.sampled_from(STORE_SIZES)),
          "lastFestivalPerformance": {
              "festival": draw(st.sampled_from(["Diwali", "Eid", "Holi", "Christmas"])),
              "salesIncrease": draw(st.floats(min_value=0.0, max_value=500.0)),
              "topCategories": draw(st.lists(st.sampled_from(
                  ["grocery", "apparel", "electronics"]), min_size=1, max_size=3,
                  unique=True)),
              "stockoutItems": draw(st.lists(st.text(min_size=3, max_size=20),
                                             min_size=0, max_size=5)),
          },
          "currentInventory": draw(st.lists(
              st.fixed_dictionaries({
                  "category": st.sampled_from(["grocery", "apparel", "electronics"]),
                  "currentStock": st.integers(min_value=0, max_value=10000),
                  "averageDailySales": st.integers(min_value=1, max_value=500),
                  "confidence": st.sampled_from(["low", "medium", "high"]),
              }), min_size=1, max_size=5)),
          "targetFestivals": draw(st.lists(st.sampled_from(
              ["Diwali", "Eid", "Holi", "Christmas"]), min_size=1, max_size=3, unique=True)),
      }
  \<close>
\<close>

record inventory_item_draws =
  qi_category :: string
  qi_current_stock :: int
  qi_average_daily_sales :: int
  qi_confidence :: string

definition inventory_item :: "inventory_item_draws \<Rightarrow> pyval" where
  "inventory_item d =
     VDict [(''category'', VStr (qi_category d)),
            (''currentStock'', VInt (qi_current_stock d)),
            (''averageDailySales'', VInt (qi_average_daily_sales d)),
            (''confidence'', VStr (qi_confidence d))]"

record questionnaire_draws =
  qr_user_suffix :: string
  qr_business_type :: string
  qr_store_size :: string
  qr_festival :: string
  qr_sales_increase :: pyfloat
  qr_top_categories :: "string list"
  qr_stockout_items :: "string list"
  qr_current_inventory :: "inventory_item_draws list"
  qr_target_festivals :: "string list"

definition questionnaire_response_strategy :: "questionnaire_draws \<Rightarrow> pydict" where
  "questionnaire_response_strategy d =
     [(''userId'', VStr (''user-'' @ qr_user_suffix d)),
      (''businessType'', VStr (qr_business_type d)),
      (''storeSize'', VStr (qr_store_size d)),
      (''lastFestivalPerformance'',
         VDict [(''festival'', VStr (qr_festival d)),
                (''salesIncrease'', VFloat (qr_sales_increase d)),
                (''topCategories'', VList (map VStr (qr_top_categories d))),
                (''stockoutItems'', VList (map VStr (qr_stockout_items d)))]),
      (''currentInventory'', VList (map inventory_item (qr_current_inventory d))),
      (''targetFestivals'', VList (map VStr (qr_target_festivals d)))]"

text \<open>
  \<^verbatim>\<open>
  @st.composite
  def forecast_request_strategy(draw):
      return {
          "userId": f"user-{draw(st.text(alphabet=st.characters(whitelist_categories=('Ll', 'Nd')), min_size=8, max_size=12))}",
          "forecastHorizon": draw(st.integers(min_value=7, max_value=14)),
          "targetFestivals": draw(st.lists(st.text(min_size=3, max_size=20),
                                           min_size=0, max_size=3)),
          "dataMode": draw(st.sampled_from(["structured", "low-data"])),
          "confidence": draw(st.floats(min_value=0.0, max_value=1.0)),
      }
  \<close>
\<close>

record forecast_request_draws =
  fr_user_suffix :: string
  fr_forecast_horizon :: int
  fr_target_festivals :: "string list"
  fr_data_mode :: string
  fr_confidence :: pyfloat

definition forecast_request_strategy :: "forecast_request_draws \<Rightarrow> pydict" where
  "forecast_request_strategy d =
     [(''userId'', VStr (''user-'' @ fr_user_suffix d)),
      (''forecastHorizon'', VInt (fr_forecast_horizon d)),
      (''targetFestivals'', VList (map VStr (fr_target_festivals d))),
      (''dataMode'', VStr (fr_data_mode d)),
      (''confidence'', VFloat (fr_confidence d))]"

text \<open>
  \<^verbatim>\<open>
  @st.composite
  def inventory_data_strategy(draw):
      return {
          "sku": draw(st.text(alphabet=st.characters(whitelist_categories=("Lu", "Nd")),
                              min_size=5, max_size=10)),
          "category": draw(st.sampled_from(["grocery", "apparel", "electronics"])),
          "currentStock": draw(st.integers(min_value=0, max_value=10000)),
          "reorderPoint": draw(st.integers(min_value=10, max_value=500)),
          "leadTimeDays": draw(st.integers(min_value=1, max_value=30)),
      }
  \<close>
\<close>

record inventory_draws =
  inv_sku :: string
  inv_category :: string
  inv_current_stock :: int
  inv_reorder_point :: int
  inv_lead_time_days :: int

definition inventory_data_strategy :: "inventory_draws \<Rightarrow> pydict" where
  "inventory_data_strategy d =
     [(''sku'', VStr (inv_sku d)),
      (''category'', VStr (inv_category d)),
      (''currentStock'', VInt (inv_current_stock d)),
      (''reorderPoint'', VInt (inv_reorder_point d)),
      (''leadTimeDays'', VInt (inv_lead_time_days d))]"

text \<open>The number written by a decimal numeral.\<close>

definition numeral_value :: "string \<Rightarrow> nat" where
  "numeral_value s = foldl (\<lambda>acc c. acc * 10 + digit_value c) 0 s"

section \<open>Properties of the range checks and of the percentage difference\<close>

lemma num_le_Finite [simp]:
  "num_le (PFloat (Finite a)) (PFloat (Finite b)) = (a \<le> b)"
  "num_le (PFloat (Finite a)) (PInt j) = (a \<le> of_int j)"
  "num_le (PInt i) (PFloat (Finite b)) = (of_int i \<le> b)"
  "num_le (PInt i) (PInt j) = (i \<le> j)"
  by (simp_all add: num_le_def)

lemma num_le_special [simp]:
  "num_le (PFloat NaN) b = False"
  "num_le a (PFloat NaN) = False"
  "num_le (PFloat PosInf) (PFloat (Finite r)) = False"
  "num_le (PFloat (Finite r)) (PFloat NegInf) = False"
  by (simp_all add: num_le_def) (cases "num_val a"; simp)

lemma num_eq_zero [simp]:
  "num_eq (PInt i) (PInt 0) = (i = 0)"
  "num_eq (PFloat (Finite r)) (PInt 0) = (r = 0)"
  "num_eq (PFloat NaN) (PInt 0) = False"
  "num_eq (PFloat PosInf) (PInt 0) = False"
  "num_eq (PFloat NegInf) (PInt 0) = False"
  by (simp_all add: num_eq_def)

text \<open>
  C4. \<open>is_valid_confidence x\<close> is true exactly when \<open>0.0 \<le> x \<le> 1.0\<close>: for a
  finite float, for an integer, and never for NaN or an infinity. Both bounds are
  included: \<open>0.0\<close> and \<open>1.0\<close> are valid, \<open>-0.0001\<close> and \<open>1.0001\<close> are not.
\<close>

theorem is_valid_confidence_iff:
  "is_valid_confidence (PFloat (Finite r)) = (0 \<le> r \<and> r \<le> 1)
   \<and> is_valid_confidence (PInt i) = (0 \<le> i \<and> i \<le> 1)
   \<and> is_valid_confidence (PFloat NaN) = False
   \<and> is_valid_confidence (PFloat PosInf) = False
   \<and> is_valid_confidence (PFloat NegInf) = False
   \<and> is_valid_confidence (PFloat (Finite 0)) = True
   \<and> is_valid_confidence (PFloat (Finite 1)) = True
   \<and> is_valid_confidence (PFloat (Finite (- (1 / 10000)))) = False
   \<and> is_valid_confidence (PFloat (Finite (10001 / 10000))) = False"
  by (simp add: is_valid_confidence_def is_in_range_def num_le_def)

text \<open>
  C3. With a zero baseline the result is \<open>0.0\<close> when the comparison is zero too and
  positive infinity otherwise, whatever the arithmetic of the other branch is; in
  particular \<open>calculate_percentage_difference(0, 0) = 0.0\<close> and
  \<open>calculate_percentage_difference(0, 5) = inf\<close>.
\<close>

theorem calculate_percentage_difference_zero_baseline:
  "calculate_percentage_difference pct (PInt 0) (PInt 0) = Inr (Finite 0)
   \<and> calculate_percentage_difference pct (PInt 0) (PInt 5) = Inr PosInf
   \<and> calculate_percentage_difference pct (PInt 0) c =
         Inr (if num_eq c (PInt 0) then Finite 0 else PosInf)
   \<and> calculate_percentage_difference pct (PFloat (Finite 0)) c =
         Inr (if num_eq c (PInt 0) then Finite 0 else PosInf)"
  by (simp add: calculate_percentage_difference_def)

section \<open>Properties of the formatting helpers\<close>

lemma str_nat_digit: "n < 10 \<Longrightarrow> str_nat n = [digit_char n]"
  by (simp add: str_nat.simps)

lemma digit_char_simps [simp]:
  "digit_char 0 = CHR ''0''" "digit_char (Suc 0) = CHR ''1''" "digit_char 2 = CHR ''2''"
  "digit_char 3 = CHR ''3''" "digit_char 4 = CHR ''4''" "digit_char 5 = CHR ''5''"
  "digit_char 6 = CHR ''6''" "digit_char 7 = CHR ''7''" "digit_char 8 = CHR ''8''"
  "digit_char 9 = CHR ''9''"
  by (simp_all add: digit_char_def)

lemma format_value_cases:
  "format_value L (VStr s) = AV_S s"
  "format_value L (VInt i) = AV_N (str_int i)"
  "format_value L (VFloat f) = AV_N (float_repr L f)"
  "format_value L (VBool b) = AV_N (if b then ''True'' else ''False'')"
  "format_value L VNone = AV_NULL True"
  "format_value L (VOther t r) = AV_S t"
  by (simp_all add: format_value.simps isinstance_def issubclass_def)

text \<open>
  C1. On \<^verbatim>\<open>{"a": 1, "b": "x", "c": True, "d": None}\<close> the function returns
  \<^verbatim>\<open>{"a": {"N": "1"}, "b": {"S": "x"}, "c": {"N": "True"}, "d": {"NULL": True}}\<close>:
  a bool is an instance of \<^verbatim>\<open>int\<close>, the numeric test comes first, and no bool is ever
  tagged \<^verbatim>\<open>BOOL\<close>.
\<close>

theorem mock_dynamodb_item_bool_is_N:
  "mock_dynamodb_item L
     [(''a'', VInt 1), (''b'', VStr ''x''), (''c'', VBool True), (''d'', VNone)]
   = [(''a'', AV_N ''1''), (''b'', AV_S ''x''), (''c'', AV_N ''True''), (''d'', AV_NULL True)]
   \<and> format_value L (VBool b) = AV_N (if b then ''True'' else ''False'')
   \<and> format_value L (VBool b) \<noteq> AV_BOOL b"
  by (simp add: mock_dynamodb_item_def format_value_cases str_int_def str_nat_digit)

text \<open>
  C5. The CSV of no records is the fixed header line with its newline; the CSV of the one
  record \<^verbatim>\<open>{date: "2023-10-01", sku: "SKU001", quantity: 10}\<close> is the header line
  \<^verbatim>\<open>date,sku,quantity\<close>, a newline, and the data line \<^verbatim>\<open>2023-10-01,SKU001,10\<close>.
\<close>

theorem create_sales_csv_examples:
  "create_sales_csv L [] = ''date,sku,quantity'' @ [CHR 0x0A]
   \<and> create_sales_csv L
        [[(''date'', VStr ''2023-10-01''), (''sku'', VStr ''SKU001''), (''quantity'', VInt 10)]]
      = ''date,sku,quantity'' @ [CHR 0x0A] @ ''2023-10-01,SKU001,10''"
  by (simp add: create_sales_csv_def create_csv_content_def newline_def keys_def dict_get_def
      str_int_def str_nat.simps [of 10] str_nat_digit)

text \<open>
  C9. The body is serialised only when it is a non-empty dictionary. With no body or with
  the empty dictionary the event is the same event \<open>e\<close>, whose \<open>body\<close> is \<^verbatim>\<open>None\<close>
  (the serialiser is not called, so the string \<^verbatim>\<open>"{}"\<close> never appears); with a
  non-empty dictionary the event is \<open>e\<close> with only its \<open>body\<close> replaced by the serialised
  text, and an exception of the serialiser is the only way to fail.
\<close>

theorem create_api_gateway_event_body:
  "\<exists>e. create_api_gateway_event json_dumps None pp qp hs m p = Inr e
      \<and> create_api_gateway_event json_dumps (Some []) pp qp hs m p = Inr e
      \<and> body e = None
      \<and> (\<forall>d s. d \<noteq> [] \<longrightarrow> json_dumps d = Inr s \<longrightarrow>
            create_api_gateway_event json_dumps (Some d) pp qp hs m p
            = Inr (e\<lparr>body := Some s\<rparr>))
      \<and> (\<forall>d x. d \<noteq> [] \<longrightarrow> json_dumps d = Inl x \<longrightarrow>
            create_api_gateway_event json_dumps (Some d) pp qp hs m p = Inl x)"
  by (simp add: create_api_gateway_event_def dumps_if_truthy_def then_do_def)

theorem create_api_gateway_event_body_witness:
  "\<exists>e. create_api_gateway_event (\<lambda>d. Inr ''{k: 1}'') None None None None ''POST'' ''/'' = Inr e
      \<and> body e = None
      \<and> create_api_gateway_event (\<lambda>d. Inr ''{k: 1}'') (Some [(''k'', VInt 1)])
           None None None ''POST'' ''/''
         = Inr (e\<lparr>body := Some ''{k: 1}''\<rparr>)"
proof -
  obtain e where e:
    "create_api_gateway_event (\<lambda>d. Inr ''{k: 1}'') None None None None ''POST'' ''/'' = Inr e"
    "body e = None"
    "\<forall>d s. d \<noteq> [] \<longrightarrow> (\<lambda>d::pydict. (Inr ''{k: 1}'' :: error + string)) d = Inr s \<longrightarrow>
       create_api_gateway_event (\<lambda>d. Inr ''{k: 1}'') (Some d) None None None ''POST'' ''/''
       = Inr (e\<lparr>body := Some s\<rparr>)"
    using create_api_gateway_event_body
      [of "\<lambda>d. Inr ''{k: 1}''" None None None "''POST''" "''/''"]
    by blast
  from e(3) have
    "create_api_gateway_event (\<lambda>d. Inr ''{k: 1}'') (Some [(''k'', VInt 1)])
       None None None ''POST'' ''/'' = Inr (e\<lparr>body := Some ''{k: 1}''\<rparr>)"
    by simp
  with e(1,2) show ?thesis by blast
qed

section \<open>Properties of the calendar\<close>

lemma month_cases:
  "1 \<le> m \<Longrightarrow> m \<le> 12 \<Longrightarrow>
   (m::int) = 1 \<or> m = 2 \<or> m = 3 \<or> m = 4 \<or> m = 5 \<or> m = 6 \<or> m = 7 \<or> m = 8 \<or> m = 9 \<or> m = 10 \<or> m = 11 \<or> m = 12"
  by arith

lemma dim_values:
  "days_in_month y 1 = 31" "days_in_month y 2 = (if is_leap y then 29 else 28)"
  "days_in_month y 3 = 31" "days_in_month y 4 = 30" "days_in_month y 5 = 31"
  "days_in_month y 6 = 30" "days_in_month y 7 = 31" "days_in_month y 8 = 31"
  "days_in_month y 9 = 30" "days_in_month y 10 = 31" "days_in_month y 11 = 30"
  "days_in_month y 12 = 31"
  by (simp_all add: days_in_month_def DAYS_IN_MONTH_def)

lemma dbm_values:
  "days_before_month y 1 = 0" "days_before_month y 2 = 31"
  "days_before_month y 3 = 59 + (if is_leap y then 1 else 0)"
  "days_before_month y 4 = 90 + (if is_leap y then 1 else 0)"
  "days_before_month y 5 = 120 + (if is_leap y then 1 else 0)"
  "days_before_month y 6 = 151 + (if is_leap y then 1 else 0)"
  "days_before_month y 7 = 181 + (if is_leap y then 1 else 0)"
  "days_before_month y 8 = 212 + (if is_leap y then 1 else 0)"
  "days_before_month y 9 = 243 + (if is_leap y then 1 else 0)"
  "days_before_month y 10 = 273 + (if is_leap y then 1 else 0)"
  "days_before_month y 11 = 304 + (if is_leap y then 1 else 0)"
  "days_before_month y 12 = 334 + (if is_leap y then 1 else 0)"
  by (simp_all add: days_before_month_def DAYS_BEFORE_MONTH_def)

lemma div_pred: 
  assumes "0 < k" "(y::int) mod k \<noteq> 0" shows "(y - 1) div k = y div k"
proof (rule int_div_pos_eq)
  show "y - 1 = k * (y div k) + (y mod k - 1)" by simp
  have "0 \<le> y mod k" using assms(1) by simp
  then show "0 \<le> y mod k - 1" using assms(2) by linarith
  have "y mod k < k" using assms(1) by simp
  then show "y mod k - 1 < k" by linarith
qed

lemma div_pred0:
  assumes "0 < k" "(y::int) mod k = 0" shows "(y - 1) div k = y div k - 1"
proof (rule int_div_pos_eq)
  have "k * (y div k) + y mod k = y" by (rule mult_div_mod_eq)
  then have "y = k * (y div k)" using assms(2) by simp
  then have "y - 1 = k * (y div k) - 1" by simp
  then show "y - 1 = k * (y div k - 1) + (k - 1)" by (simp add: algebra_simps)
  show "0 \<le> k - 1" using assms(1) by linarith
  show "k - 1 < k" by simp
qed

lemma div_step: "0 < k \<Longrightarrow> (y::int) div k = (y - 1) div k + (if y mod k = 0 then 1 else 0)"
  by (simp add: div_pred div_pred0)

lemma mod_400_100: assumes "(y::int) mod 400 = 0" shows "y mod 100 = 0"
proof -
  have "(100::int) dvd 400" by simp
  moreover have "(400::int) dvd y" using assms by (simp add: dvd_eq_mod_eq_0)
  ultimately have "(100::int) dvd y" by (rule dvd_trans)
  then show ?thesis by (simp add: dvd_eq_mod_eq_0)
qed

lemma mod_100_4: assumes "(y::int) mod 100 = 0" shows "y mod 4 = 0"
proof -
  have "(4::int) dvd 100" by simp
  moreover have "(100::int) dvd y" using assms by (simp add: dvd_eq_mod_eq_0)
  ultimately have "(4::int) dvd y" by (rule dvd_trans)
  then show ?thesis by (simp add: dvd_eq_mod_eq_0)
qed

lemma dby_succ:
  "days_before_year (y + 1) = days_before_year y + 365 + (if is_leap y then 1 else 0)"
proof -
  define A where "A = (y - 1) div 4"
  define B where "B = (y - 1) div 100"
  define C where "C = (y - 1) div 400"
  have a: "y div 4 = A + (if y mod 4 = 0 then 1 else 0)"
    unfolding A_def by (rule div_step) simp
  have b: "y div 100 = B + (if y mod 100 = 0 then 1 else 0)"
    unfolding B_def by (rule div_step) simp
  have c: "y div 400 = C + (if y mod 400 = 0 then 1 else 0)"
    unfolding C_def by (rule div_step) simp
  have l: "days_before_year (y + 1) = y * 365 + y div 4 - y div 100 + y div 400"
    by (simp add: days_before_year_def)
  have r: "days_before_year y = (y - 1) * 365 + A - B + C"
    by (simp add: days_before_year_def Let_def A_def B_def C_def)
  consider (c1) "y mod 400 = 0" | (c2) "y mod 400 \<noteq> 0" "y mod 100 = 0"
    | (c3) "y mod 100 \<noteq> 0" "y mod 4 = 0" | (c4) "y mod 4 \<noteq> 0" by blast
  then show ?thesis
  proof cases
    case c1
    then have h: "y mod 100 = 0" by (rule mod_400_100)
    then have "y mod 4 = 0" by (rule mod_100_4)
    with c1 h show ?thesis unfolding l r a b c is_leap_def by (simp add: algebra_simps)
  next
    case c2
    then have "y mod 4 = 0" using mod_100_4 [of y] by auto
    with c2 show ?thesis unfolding l r a b c is_leap_def by (simp add: algebra_simps)
  next
    case c3
    then have "y mod 400 \<noteq> 0" using mod_400_100 [of y] by auto
    with c3 show ?thesis unfolding l r a b c is_leap_def by (simp add: algebra_simps)
  next
    case c4
    then have h: "y mod 100 \<noteq> 0" using mod_100_4 [of y] by auto
    then have "y mod 400 \<noteq> 0" using mod_400_100 [of y] by auto
    with c4 h show ?thesis unfolding l r a b c is_leap_def by (simp add: algebra_simps)
  qed
qed

lemma dby_add: "days_before_year y + 365 * int n \<le> days_before_year (y + int n)"
proof (induction n)
  case 0
  then show ?case by simp
next
  case (Suc n)
  have eq: "y + int (Suc n) = (y + int n) + 1" by simp
  have "days_before_year ((y + int n) + 1) = days_before_year (y + int n) + 365
          + (if is_leap (y + int n) then 1 else 0)"
    by (rule dby_succ)
  then have "days_before_year (y + int n) + 365 \<le> days_before_year (y + int (Suc n))"
    unfolding eq by (auto split: if_splits)
  moreover have "365 * int (Suc n) = 365 * int n + 365" by simp
  ultimately show ?case using Suc by linarith
qed

lemma dby_less:
  assumes "y1 < y2"
  shows "days_before_year y1 + 365 + (if is_leap y1 then 1 else 0) \<le> days_before_year y2"
proof -
  obtain n where n: "y2 = (y1 + 1) + int n"
    using assms by (metis zle_iff_zadd zless_imp_add1_zle)
  have "days_before_year (y1 + 1) \<le> days_before_year (y1 + 1 + int n)"
    using dby_add [of "y1 + 1" n] by linarith
  then show ?thesis using n dby_succ [of y1] by simp
qed

lemma dbm_succ:
  "1 \<le> m \<Longrightarrow> m < 12 \<Longrightarrow> days_before_month y (m + 1) = days_before_month y m + days_in_month y m"
  using month_cases [of m] by (auto simp: dim_values dbm_values)

lemma dim_bounds: "1 \<le> m \<Longrightarrow> m \<le> 12 \<Longrightarrow> 28 \<le> days_in_month y m \<and> days_in_month y m \<le> 31"
  using month_cases [of m] by (auto simp: dim_values)

lemma day_of_year_le:
  "1 \<le> m \<Longrightarrow> m \<le> 12 \<Longrightarrow>
   days_before_month y m + days_in_month y m \<le> 365 + (if is_leap y then 1 else 0)"
  using month_cases [of m] by (auto simp: dim_values dbm_values)

lemma dbm_nonneg: "1 \<le> m \<Longrightarrow> m \<le> 12 \<Longrightarrow> 0 \<le> days_before_month y m"
  using month_cases [of m] by (auto simp: dbm_values)

lemma dbm_mono:
  "1 \<le> m \<Longrightarrow> m < m' \<Longrightarrow> m' \<le> 12 \<Longrightarrow>
   days_before_month y m + days_in_month y m \<le> days_before_month y m'"
  using month_cases [of m] month_cases [of m'] by (auto simp: dim_values dbm_values)

lemma ymd2ord_less:
  assumes v1: "check_date_fields y1 m1 d1" and v2: "check_date_fields y2 m2 d2"
    and lt: "(y1, m1, d1) < (y2, m2, d2)"
  shows "ymd2ord y1 m1 d1 < ymd2ord y2 m2 d2"
proof -
  from v1 have b1: "1 \<le> m1" "m1 \<le> 12" "1 \<le> d1" "d1 \<le> days_in_month y1 m1"
    by (simp_all add: check_date_fields_def)
  from v2 have b2: "1 \<le> m2" "m2 \<le> 12" "1 \<le> d2" "d2 \<le> days_in_month y2 m2"
    by (simp_all add: check_date_fields_def)
  from lt have "y1 < y2 \<or> (y1 = y2 \<and> m1 < m2) \<or> (y1 = y2 \<and> m1 = m2 \<and> d1 < d2)"
    by (auto simp: less_prod_def order_le_less)
  then consider (y) "y1 < y2" | (m) "y1 = y2" "m1 < m2" | (d) "y1 = y2" "m1 = m2" "d1 < d2"
    by blast
  then show ?thesis
  proof cases
    case y
    have "days_before_month y1 m1 + d1 \<le> 365 + (if is_leap y1 then 1 else 0)"
      using day_of_year_le [of m1 y1] b1 by linarith
    moreover have "days_before_year y1 + 365 + (if is_leap y1 then 1 else 0) \<le> days_before_year y2"
      using y by (rule dby_less)
    moreover have "0 \<le> days_before_month y2 m2" using b2 by (simp add: dbm_nonneg)
    ultimately show ?thesis using b2(3) unfolding ymd2ord_def by linarith
  next
    case m
    have "days_before_month y1 m1 + days_in_month y1 m1 \<le> days_before_month y1 m2"
      using b1(1) m(2) b2(2) by (rule dbm_mono)
    then show ?thesis using m(1) b1(4) b2(3) by (auto simp: ymd2ord_def)
  next
    case d
    then show ?thesis unfolding ymd2ord_def by simp
  qed
qed

lemma ymd2ord_le_iff:
  assumes "check_date_fields y1 m1 d1" "check_date_fields y2 m2 d2"
  shows "((y1, m1, d1) \<le> (y2, m2, d2)) = (ymd2ord y1 m1 d1 \<le> ymd2ord y2 m2 d2)"
proof
  assume le: "(y1, m1, d1) \<le> (y2, m2, d2)"
  show "ymd2ord y1 m1 d1 \<le> ymd2ord y2 m2 d2"
  proof (cases "(y1, m1, d1) = (y2, m2, d2)")
    case True
    then show ?thesis by simp
  next
    case False
    with le have "(y1, m1, d1) < (y2, m2, d2)" by (rule le_neq_trans)
    then have "ymd2ord y1 m1 d1 < ymd2ord y2 m2 d2" by (rule ymd2ord_less [OF assms])
    then show ?thesis by simp
  qed
next
  assume le: "ymd2ord y1 m1 d1 \<le> ymd2ord y2 m2 d2"
  show "(y1, m1, d1) \<le> (y2, m2, d2)"
  proof (rule ccontr)
    assume "\<not> (y1, m1, d1) \<le> (y2, m2, d2)"
    then have "(y2, m2, d2) < (y1, m1, d1)" by (simp only: not_le)
    then have "ymd2ord y2 m2 d2 < ymd2ord y1 m1 d1"
      by (rule ymd2ord_less [OF assms(2) assms(1)])
    with le show False by simp
  qed
qed

lemma ymd2ord_first: "ymd2ord 1 1 1 = 1"
  by (simp add: ymd2ord_def days_before_year_def dbm_values)

lemma ymd2ord_last: "ymd2ord 9999 12 31 = 3652059"
  by (simp add: ymd2ord_def days_before_year_def dbm_values is_leap_def)

lemma toordinal_bounds:
  assumes "valid_datetime x"
  shows "1 \<le> toordinal x \<and> toordinal x \<le> 3652059"
proof -
  from assms have v: "check_date_fields (year x) (month x) (day x)"
    by (simp add: valid_datetime_def)
  have f: "check_date_fields 1 1 1" by (simp add: check_date_fields_def dim_values)
  have l: "check_date_fields 9999 12 31" by (simp add: check_date_fields_def dim_values)
  from v have "(1, 1, 1) \<le> (year x, month x, day x)"
    by (auto simp: check_date_fields_def less_eq_prod_def)
  then have a: "1 \<le> toordinal x"
    using ymd2ord_le_iff [OF f v] ymd2ord_first by (simp add: toordinal_def)
  from v have "day x \<le> 31"
    using dim_bounds [of "month x" "year x"] by (simp add: check_date_fields_def)
  with v have "(year x, month x, day x) \<le> (9999, 12, 31)"
    by (auto simp: check_date_fields_def less_eq_prod_def)
  then have "toordinal x \<le> 3652059"
    using ymd2ord_le_iff [OF v l] ymd2ord_last by (simp add: toordinal_def)
  with a show ?thesis by simp
qed

lemma next_day_valid:
  assumes "valid_datetime x" "next_day x = Inr y"
  shows "valid_datetime y"
proof -
  have b: "28 \<le> days_in_month (year x) (month x + 1)" if "1 \<le> month x" "month x < 12"
    using that dim_bounds [of "month x + 1" "year x"] by simp
  show ?thesis
    using assms b
    by (auto simp: next_day_def valid_datetime_def check_date_fields_def dim_values
        split: if_splits)
qed

lemma next_day_time:
  assumes "next_day x = Inr y"
  shows "hour y = hour x \<and> minute y = minute x \<and> second y = second x
         \<and> microsecond y = microsecond x"
  using assms by (auto simp: next_day_def split: if_splits)

lemma next_day_toordinal:
  assumes v: "valid_datetime x" and n: "next_day x = Inr y"
  shows "toordinal y = toordinal x + 1"
proof -
  from v have b: "1 \<le> month x" "month x \<le> 12" "day x \<le> days_in_month (year x) (month x)"
    by (simp_all add: valid_datetime_def check_date_fields_def)
  consider (a) "day x < days_in_month (year x) (month x)"
    | (b) "\<not> day x < days_in_month (year x) (month x)" "month x < 12"
    | (c) "\<not> day x < days_in_month (year x) (month x)" "\<not> month x < 12" by blast
  then show ?thesis
  proof cases
    case a
    with n have "y = x\<lparr>day := day x + 1\<rparr>" by (simp add: next_day_def)
    then show ?thesis by (simp add: toordinal_def ymd2ord_def)
  next
    case b
    with n have y: "y = x\<lparr>month := month x + 1, day := 1\<rparr>" by (simp add: next_day_def)
    from b(1) \<open>day x \<le> days_in_month (year x) (month x)\<close>
    have d: "day x = days_in_month (year x) (month x)" by simp
    have "days_before_month (year x) (month x + 1)
          = days_before_month (year x) (month x) + days_in_month (year x) (month x)"
      using \<open>1 \<le> month x\<close> b(2) by (rule dbm_succ)
    then show ?thesis using y d by (simp add: toordinal_def ymd2ord_def)
  next
    case c
    then have m: "month x = 12" using \<open>month x \<le> 12\<close> by simp
    from c(1) \<open>day x \<le> days_in_month (year x) (month x)\<close> m
    have d: "day x = 31" by (simp add: dim_values)
    from n c have y: "y = x\<lparr>year := year x + 1, month := 1, day := 1\<rparr>"
      by (simp add: next_day_def split: if_splits)
    have "days_before_year (year x + 1)
          = days_before_year (year x) + 365 + (if is_leap (year x) then 1 else 0)"
      by (rule dby_succ)
    then show ?thesis using y d m
      by (simp add: toordinal_def ymd2ord_def dbm_values)
  qed
qed

lemma next_day_error:
  assumes "valid_datetime x" "next_day x = Inl e"
  shows "e = OverflowError \<and> toordinal x = 3652059"
proof -
  from assms have "year x = 9999 \<and> month x = 12 \<and> day x = 31 \<and> e = OverflowError"
    by (auto simp: next_day_def valid_datetime_def check_date_fields_def dim_values
        split: if_splits)
  then show ?thesis using ymd2ord_last by (simp add: toordinal_def)
qed

lemma prev_day_valid:
  assumes "valid_datetime x" "prev_day x = Inr y"
  shows "valid_datetime y"
proof -
  have b: "28 \<le> days_in_month (year x) (month x - 1)" if "1 < month x" "month x \<le> 12"
    using that dim_bounds [of "month x - 1" "year x"] by simp
  show ?thesis
    using assms b
    by (auto simp: prev_day_def valid_datetime_def check_date_fields_def dim_values
        split: if_splits)
qed

lemma prev_day_time:
  assumes "prev_day x = Inr y"
  shows "hour y = hour x \<and> minute y = minute x \<and> second y = second x
         \<and> microsecond y = microsecond x"
  using assms by (auto simp: prev_day_def split: if_splits)

lemma prev_day_toordinal:
  assumes v: "valid_datetime x" and n: "prev_day x = Inr y"
  shows "toordinal y = toordinal x - 1"
proof -
  from v have b: "1 \<le> month x" "month x \<le> 12" "1 \<le> day x"
    by (simp_all add: valid_datetime_def check_date_fields_def)
  consider (a) "1 < day x" | (b) "\<not> 1 < day x" "1 < month x"
    | (c) "\<not> 1 < day x" "\<not> 1 < month x" by blast
  then show ?thesis
  proof cases
    case a
    with n have "y = x\<lparr>day := day x - 1\<rparr>" by (simp add: prev_day_def)
    then show ?thesis by (simp add: toordinal_def ymd2ord_def)
  next
    case b
    with n have y: "y = x\<lparr>month := month x - 1, day := days_in_month (year x) (month x - 1)\<rparr>"
      by (simp add: prev_day_def)
    from b(1) \<open>1 \<le> day x\<close> have d: "day x = 1" by simp
    have "days_before_month (year x) (month x - 1 + 1)
          = days_before_month (year x) (month x - 1) + days_in_month (year x) (month x - 1)"
      using b(2) \<open>month x \<le> 12\<close> by (intro dbm_succ) simp_all
    then show ?thesis using y d by (simp add: toordinal_def ymd2ord_def)
  next
    case c
    then have m: "month x = 1" and d: "day x = 1" using b by simp_all
    from n c have y: "y = x\<lparr>year := year x - 1, month := 12, day := 31\<rparr>"
      by (simp add: prev_day_def split: if_splits)
    have "days_before_year (year x - 1 + 1)
          = days_before_year (year x - 1) + 365 + (if is_leap (year x - 1) then 1 else 0)"
      by (rule dby_succ)
    then show ?thesis using y d m
      by (simp add: toordinal_def ymd2ord_def dbm_values)
  qed
qed

lemma prev_day_error:
  assumes "valid_datetime x" "prev_day x = Inl e"
  shows "e = OverflowError \<and> toordinal x = 1"
proof -
  from assms have "year x = 1 \<and> month x = 1 \<and> day x = 1 \<and> e = OverflowError"
    by (auto simp: prev_day_def valid_datetime_def check_date_fields_def
        split: if_splits)
  then show ?thesis using ymd2ord_first by (simp add: toordinal_def)
qed

lemma forward_ok:
  "valid_datetime x \<Longrightarrow> toordinal x + int k \<le> 3652059 \<Longrightarrow>
   \<exists>y. forward k x = Inr y \<and> valid_datetime y \<and> toordinal y = toordinal x + int k
       \<and> same_time x y"
proof (induction k arbitrary: x)
  case 0
  then show ?case by (simp add: same_time_def)
next
  case (Suc k)
  have "\<exists>z. next_day x = Inr z"
  proof (cases "next_day x")
    case (Inl e)
    then have "toordinal x = 3652059" using next_day_error [OF Suc.prems(1)] by simp
    with Suc.prems(2) show ?thesis by simp
  next
    case (Inr z)
    then show ?thesis by blast
  qed
  then obtain z where z: "next_day x = Inr z" by blast
  have vz: "valid_datetime z" using Suc.prems(1) z by (rule next_day_valid)
  have oz: "toordinal z = toordinal x + 1" using Suc.prems(1) z by (rule next_day_toordinal)
  have tz: "same_time x z" using next_day_time [OF z] by (simp add: same_time_def)
  from oz Suc.prems(2) have "toordinal z + int k \<le> 3652059" by simp
  from Suc.IH [OF vz this] obtain y where
    "forward k z = Inr y" "valid_datetime y" "toordinal y = toordinal z + int k" "same_time z y"
    by blast
  with z oz tz show ?case by (simp add: then_do_def same_time_def)
qed

lemma forward_overflow:
  "valid_datetime x \<Longrightarrow> 3652059 < toordinal x + int k \<Longrightarrow> forward k x = Inl OverflowError"
proof (induction k arbitrary: x)
  case 0
  then show ?case using toordinal_bounds [of x] by simp
next
  case (Suc k)
  show ?case
  proof (cases "next_day x")
    case (Inl e)
    then have "e = OverflowError" using next_day_error [OF Suc.prems(1)] by simp
    with Inl show ?thesis by (simp add: then_do_def)
  next
    case (Inr z)
    have vz: "valid_datetime z" using Suc.prems(1) Inr by (rule next_day_valid)
    have oz: "toordinal z = toordinal x + 1" using Suc.prems(1) Inr by (rule next_day_toordinal)
    from oz Suc.prems(2) have "3652059 < toordinal z + int k" by simp
    from Suc.IH [OF vz this] Inr show ?thesis by (simp add: then_do_def)
  qed
qed

lemma backward_ok:
  "valid_datetime x \<Longrightarrow> int k < toordinal x \<Longrightarrow>
   \<exists>y. backward k x = Inr y \<and> valid_datetime y \<and> toordinal y = toordinal x - int k
       \<and> same_time x y"
proof (induction k arbitrary: x)
  case 0
  then show ?case by (simp add: same_time_def)
next
  case (Suc k)
  have "\<exists>z. prev_day x = Inr z"
  proof (cases "prev_day x")
    case (Inl e)
    then have "toordinal x = 1" using prev_day_error [OF Suc.prems(1)] by simp
    with Suc.prems(2) show ?thesis by simp
  next
    case (Inr z)
    then show ?thesis by blast
  qed
  then obtain z where z: "prev_day x = Inr z" by blast
  have vz: "valid_datetime z" using Suc.prems(1) z by (rule prev_day_valid)
  have oz: "toordinal z = toordinal x - 1" using Suc.prems(1) z by (rule prev_day_toordinal)
  have tz: "same_time x z" using prev_day_time [OF z] by (simp add: same_time_def)
  from oz Suc.prems(2) have "int k < toordinal z" by simp
  from Suc.IH [OF vz this] obtain y where
    "backward k z = Inr y" "valid_datetime y" "toordinal y = toordinal z - int k" "same_time z y"
    by blast
  with z oz tz show ?case by (simp add: then_do_def same_time_def)
qed

lemma tod_bounds:
  assumes "valid_datetime x"
  shows "0 \<le> time_of_day_us x \<and> time_of_day_us x < 86400000000"
  using assms by (auto simp: valid_datetime_def check_time_fields_def time_of_day_us_def)

lemma tod_less:
  assumes "valid_datetime a" "valid_datetime b"
    and "(hour a, minute a, second a, microsecond a) < (hour b, minute b, second b, microsecond b)"
  shows "time_of_day_us a < time_of_day_us b"
proof -
  from assms(1) have ba: "0 \<le> minute a" "minute a \<le> 59" "0 \<le> second a" "second a \<le> 59"
    "0 \<le> microsecond a" "microsecond a \<le> 999999"
    by (simp_all add: valid_datetime_def check_time_fields_def)
  from assms(2) have bb: "0 \<le> minute b" "minute b \<le> 59" "0 \<le> second b" "second b \<le> 59"
    "0 \<le> microsecond b" "microsecond b \<le> 999999"
    by (simp_all add: valid_datetime_def check_time_fields_def)
  from assms(3) have
    "hour a < hour b \<or> (hour a = hour b \<and> minute a < minute b)
     \<or> (hour a = hour b \<and> minute a = minute b \<and> second a < second b)
     \<or> (hour a = hour b \<and> minute a = minute b \<and> second a = second b
         \<and> microsecond a < microsecond b)"
    by (auto simp: less_prod_def order_le_less)
  then show ?thesis using ba bb unfolding time_of_day_us_def by auto
qed

lemma dt_key_less_cases:
  assumes "dt_key a < dt_key b"
  shows "(year a, month a, day a) < (year b, month b, day b)
     \<or> ((year a, month a, day a) = (year b, month b, day b)
        \<and> (hour a, minute a, second a, microsecond a)
           < (hour b, minute b, second b, microsecond b))"
  using assms by (auto simp: dt_key_def less_prod_def order_le_less)

lemma instant_less:
  assumes va: "valid_datetime a" and vb: "valid_datetime b" and lt: "dt_key a < dt_key b"
  shows "instant_us a < instant_us b"
proof -
  from va have ca: "check_date_fields (year a) (month a) (day a)" by (simp add: valid_datetime_def)
  from vb have cb: "check_date_fields (year b) (month b) (day b)" by (simp add: valid_datetime_def)
  note ta = tod_bounds [OF va] and tb = tod_bounds [OF vb]
  from dt_key_less_cases [OF lt] show ?thesis
  proof
    assume "(year a, month a, day a) < (year b, month b, day b)"
    then have "toordinal a < toordinal b"
      unfolding toordinal_def by (rule ymd2ord_less [OF ca cb])
    then have "toordinal a + 1 \<le> toordinal b" by simp
    then have "(toordinal a + 1) * 86400000000 \<le> toordinal b * 86400000000" by simp
    then show ?thesis using ta tb unfolding instant_us_def by (simp add: algebra_simps)
  next
    assume h: "(year a, month a, day a) = (year b, month b, day b)
        \<and> (hour a, minute a, second a, microsecond a)
           < (hour b, minute b, second b, microsecond b)"
    then have "time_of_day_us a < time_of_day_us b" using tod_less [OF va vb] by blast
    moreover from h have "toordinal a = toordinal b" by (simp add: toordinal_def)
    ultimately show ?thesis by (simp add: instant_us_def)
  qed
qed

lemma datetime_le_iff:
  assumes va: "valid_datetime a" and vb: "valid_datetime b"
  shows "datetime_le a b = (instant_us a \<le> instant_us b)"
proof
  assume le: "datetime_le a b"
  show "instant_us a \<le> instant_us b"
  proof (cases "dt_key a = dt_key b")
    case True
    then show ?thesis
      by (simp add: dt_key_def instant_us_def toordinal_def time_of_day_us_def)
  next
    case False
    with le have "dt_key a < dt_key b" unfolding datetime_le_def by (rule le_neq_trans)
    then show ?thesis using instant_less [OF va vb] by simp
  qed
next
  assume le: "instant_us a \<le> instant_us b"
  show "datetime_le a b"
  proof (rule ccontr)
    assume "\<not> datetime_le a b"
    then have "dt_key b < dt_key a" by (simp only: datetime_le_def not_le)
    then have "instant_us b < instant_us a" by (rule instant_less [OF vb va])
    with le show False by simp
  qed
qed

lemma festival_end:
  assumes vf: "valid_datetime f" and d: "0 \<le> d" "toordinal f + d \<le> 3652059"
  shows "\<exists>e. then_do (timedelta_days d) (datetime_add f) = Inr e \<and> valid_datetime e
             \<and> instant_us e = instant_us f + d * 86400000000"
proof -
  from toordinal_bounds [OF vf] d have "d \<le> 999999999" by simp
  with d(1) have td: "timedelta_days d = Inr d" by (simp add: timedelta_days_def)
  from d have "toordinal f + int (nat d) \<le> 3652059" by simp
  from forward_ok [OF vf this] obtain e where
    e: "forward (nat d) f = Inr e" "valid_datetime e" "toordinal e = toordinal f + int (nat d)"
       "same_time f e" by blast
  from e(3,4) d(1) have "instant_us e = instant_us f + d * 86400000000"
    by (simp add: instant_us_def time_of_day_us_def same_time_def algebra_simps)
  with td e(1,2) d(1) show ?thesis by (simp add: then_do_def datetime_add_def)
qed

lemma is_in_festival_period_instants:
  assumes vx: "valid_datetime x" and vf: "valid_datetime f"
    and d: "0 \<le> d" "toordinal f + d \<le> 3652059"
  shows "is_in_festival_period x f d
         = Inr (instant_us f \<le> instant_us x \<and> instant_us x \<le> instant_us f + d * 86400000000)"
proof -
  from festival_end [OF vf d] obtain e where
    e: "then_do (timedelta_days d) (datetime_add f) = Inr e" "valid_datetime e"
       "instant_us e = instant_us f + d * 86400000000" by blast
  from e(1) have "is_in_festival_period x f d = Inr (datetime_le f x \<and> datetime_le x e)"
    by (auto simp: is_in_festival_period_def then_do_def split: sum.splits)
  then show ?thesis
    using datetime_le_iff [OF vf vx] datetime_le_iff [OF vx e(2)] e(3) by simp
qed

lemma ymd2ord_inj:
  assumes "check_date_fields y1 m1 d1" "check_date_fields y2 m2 d2"
    and "ymd2ord y1 m1 d1 = ymd2ord y2 m2 d2"
  shows "(y1, m1, d1) = (y2, m2, d2)"
proof (rule ccontr)
  assume "(y1, m1, d1) \<noteq> (y2, m2, d2)"
  then have "(y1, m1, d1) < (y2, m2, d2) \<or> (y2, m2, d2) < (y1, m1, d1)"
    by (simp only: neq_iff)
  then show False
  proof
    assume "(y1, m1, d1) < (y2, m2, d2)"
    then have "ymd2ord y1 m1 d1 < ymd2ord y2 m2 d2" by (rule ymd2ord_less [OF assms(1,2)])
    with assms(3) show False by simp
  next
    assume "(y2, m2, d2) < (y1, m1, d1)"
    then have "ymd2ord y2 m2 d2 < ymd2ord y1 m1 d1" by (rule ymd2ord_less [OF assms(2,1)])
    with assms(3) show False by simp
  qed
qed

lemma in_period_toordinal:
  assumes vx: "valid_datetime x" and vf: "valid_datetime f"
    and d: "0 \<le> d" "toordinal f + d \<le> 3652059"
    and p: "is_in_festival_period x f d = Inr True"
  shows "toordinal f \<le> toordinal x \<and> toordinal x \<le> toordinal f + d"
proof -
  from p is_in_festival_period_instants [OF vx vf d]
  have i: "instant_us f \<le> instant_us x" "instant_us x \<le> instant_us f + d * 86400000000"
    by simp_all
  note tx = tod_bounds [OF vx] and tf = tod_bounds [OF vf]
  have "toordinal f \<le> toordinal x"
  proof (rule ccontr)
    assume "\<not> toordinal f \<le> toordinal x"
    then have "toordinal x + 1 \<le> toordinal f" by simp
    then have "(toordinal x + 1) * 86400000000 \<le> toordinal f * 86400000000" by simp
    with i(1) tx tf show False by (simp add: instant_us_def algebra_simps)
  qed
  moreover have "toordinal x \<le> toordinal f + d"
  proof (rule ccontr)
    assume "\<not> toordinal x \<le> toordinal f + d"
    then have "toordinal f + d + 1 \<le> toordinal x" by simp
    then have "(toordinal f + d + 1) * 86400000000 \<le> toordinal x * 86400000000" by simp
    with i(2) tx tf show False by (simp add: instant_us_def algebra_simps)
  qed
  ultimately show ?thesis by simp
qed

lemma in_period_days_image:
  assumes vf: "valid_datetime f" and d: "0 \<le> d" "toordinal f + d \<le> 3652059"
  shows "(\<lambda>(y, m, dd). ymd2ord y m dd) ` in_period_days f d = {toordinal f .. toordinal f + d}"
proof (intro set_eqI iffI)
  fix n assume "n \<in> (\<lambda>(y, m, dd). ymd2ord y m dd) ` in_period_days f d"
  then obtain x where x: "valid_datetime x" "is_in_festival_period x f d = Inr True"
    "n = toordinal x"
    by (auto simp: in_period_days_def toordinal_def)
  from in_period_toordinal [OF x(1) vf d x(2)] x(3)
  show "n \<in> {toordinal f .. toordinal f + d}" by simp
next
  fix n assume n: "n \<in> {toordinal f .. toordinal f + d}"
  then have "toordinal f + int (nat (n - toordinal f)) \<le> 3652059" using d by simp
  from forward_ok [OF vf this] obtain x where
    x: "valid_datetime x" "toordinal x = toordinal f + int (nat (n - toordinal f))"
       "same_time f x" by blast
  from x(2) n have ox: "toordinal x = n" by simp
  from x(3) have "time_of_day_us x = time_of_day_us f"
    by (simp add: same_time_def time_of_day_us_def)
  with ox n have "instant_us f \<le> instant_us x \<and> instant_us x \<le> instant_us f + d * 86400000000"
    by (simp add: instant_us_def algebra_simps)
  then have "is_in_festival_period x f d = Inr True"
    using is_in_festival_period_instants [OF x(1) vf d] by simp
  with x(1) have "(year x, month x, day x) \<in> in_period_days f d"
    by (auto simp: in_period_days_def)
  then have "(\<lambda>(y, m, dd). ymd2ord y m dd) (year x, month x, day x)
             \<in> (\<lambda>(y, m, dd). ymd2ord y m dd) ` in_period_days f d"
    by (rule imageI)
  then show "n \<in> (\<lambda>(y, m, dd). ymd2ord y m dd) ` in_period_days f d"
    using ox by (simp add: toordinal_def)
qed

lemma in_period_days_inj:
  "inj_on (\<lambda>(y, m, dd). ymd2ord y m dd) (in_period_days f d)"
proof (rule inj_onI)
  fix s t assume s: "s \<in> in_period_days f d" and t: "t \<in> in_period_days f d"
    and eq: "(\<lambda>(y, m, dd). ymd2ord y m dd) s = (\<lambda>(y, m, dd). ymd2ord y m dd) t"
  obtain y1 m1 d1 where s': "s = (y1, m1, d1)" by (cases s) auto
  obtain y2 m2 d2 where t': "t = (y2, m2, d2)" by (cases t) auto
  from s s' have c1: "check_date_fields y1 m1 d1"
    by (auto simp: in_period_days_def valid_datetime_def)
  from t t' have c2: "check_date_fields y2 m2 d2"
    by (auto simp: in_period_days_def valid_datetime_def)
  from eq s' t' have "ymd2ord y1 m1 d1 = ymd2ord y2 m2 d2" by simp
  from ymd2ord_inj [OF c1 c2 this] s' t' show "s = t" by simp
qed

lemma in_period_days_card:
  assumes vf: "valid_datetime f" and d: "0 \<le> d" "toordinal f + d \<le> 3652059"
  shows "card (in_period_days f d) = nat d + 1"
proof -
  have "card (in_period_days f d) = card ((\<lambda>(y, m, dd). ymd2ord y m dd) ` in_period_days f d)"
    using in_period_days_inj by (rule card_image [symmetric])
  also have "\<dots> = card {toordinal f .. toordinal f + d}"
    by (simp only: in_period_days_image [OF vf d])
  also have "\<dots> = nat d + 1" using d(1) by simp
  finally show ?thesis .
qed

section \<open>The festival period\<close>

text \<open>
  C10, as the code has it. For valid date-times and a duration \<open>d \<ge> 0\<close> whose end
  \<open>festival_date + d days\<close> is not after 9999-12-31, the function returns whether
  \<open>festival_date \<le> date \<le> festival_date + d days\<close> on the time line, both ends
  included, and the days that hold an in-period date-time are exactly \<open>d + 1\<close>.
\<close>

theorem is_in_festival_period_inclusive:
  assumes "valid_datetime date" and "valid_datetime festival_date"
    and "0 \<le> duration" and "toordinal festival_date + duration \<le> 3652059"
  shows "is_in_festival_period date festival_date duration
         = Inr (instant_us festival_date \<le> instant_us date
                \<and> instant_us date \<le> instant_us festival_date + duration * 86400000000)
       \<and> card (in_period_days festival_date duration) = nat duration + 1"
  using is_in_festival_period_instants [OF assms] in_period_days_card [OF assms(2,3,4)]
  by simp

theorem is_in_festival_period_inclusive_witness:
  "is_in_festival_period
     \<lparr>year = 2023, month = 11, day = 14, hour = 10, minute = 30, second = 0, microsecond = 0\<rparr>
     \<lparr>year = 2023, month = 11, day = 12, hour = 0, minute = 0, second = 0, microsecond = 0\<rparr> 5
   = Inr True
   \<and> card (in_period_days
        \<lparr>year = 2023, month = 11, day = 12, hour = 0, minute = 0, second = 0, microsecond = 0\<rparr> 5)
     = 6"
  using is_in_festival_period_inclusive
    [of "\<lparr>year = 2023, month = 11, day = 14, hour = 10, minute = 30, second = 0, microsecond = 0\<rparr>"
        "\<lparr>year = 2023, month = 11, day = 12, hour = 0, minute = 0, second = 0, microsecond = 0\<rparr>"
        5]
  by (simp add: valid_datetime_def check_date_fields_def check_time_fields_def dim_values
      instant_us_def time_of_day_us_def toordinal_def ymd2ord_def days_before_year_def
      dbm_values is_leap_def)

text \<open>
  The claim as stated, for every festival date and duration, fails at the end of the
  calendar: for a festival on 9999-12-31 lasting one day the addition raises
  OverflowError, although the date lies between the festival's start and its end on the
  time line, and no day is in-period instead of two.
\<close>

lemma next_day_last:
  "next_day \<lparr>year = 9999, month = 12, day = 31, hour = 0, minute = 0, second = 0,
              microsecond = 0\<rparr> = Inl OverflowError"
  by (simp add: next_day_def dim_values)

lemma is_in_festival_period_last:
  "is_in_festival_period x
     \<lparr>year = 9999, month = 12, day = 31, hour = 0, minute = 0, second = 0, microsecond = 0\<rparr> 1
   = Inl OverflowError"
  by (simp add: is_in_festival_period_def timedelta_days_def datetime_add_def then_do_def
      next_day_last)

theorem is_in_festival_period_overflow_counterexample:
  "valid_datetime
     \<lparr>year = 9999, month = 12, day = 31, hour = 0, minute = 0, second = 0, microsecond = 0\<rparr>
   \<and> is_in_festival_period
       \<lparr>year = 9999, month = 12, day = 31, hour = 0, minute = 0, second = 0, microsecond = 0\<rparr>
       \<lparr>year = 9999, month = 12, day = 31, hour = 0, minute = 0, second = 0, microsecond = 0\<rparr> 1
     = Inl OverflowError
   \<and> instant_us
       \<lparr>year = 9999, month = 12, day = 31, hour = 0, minute = 0, second = 0, microsecond = 0\<rparr>
     \<le> instant_us
       \<lparr>year = 9999, month = 12, day = 31, hour = 0, minute = 0, second = 0, microsecond = 0\<rparr>
       + 1 * 86400000000
   \<and> in_period_days
       \<lparr>year = 9999, month = 12, day = 31, hour = 0, minute = 0, second = 0, microsecond = 0\<rparr> 1
     = {}"
  by (simp add: is_in_festival_period_last in_period_days_def valid_datetime_def
      check_date_fields_def check_time_fields_def dim_values)

section \<open>A sales record at a given reading\<close>

lemma str_nat_2023: "str_nat 2023 = ''2023''"
  by (simp add: str_nat.simps [of 2023] str_nat.simps [of 202] str_nat.simps [of 20]
      str_nat_digit)

lemma sales_record_example:
  "sales_record_strategy
     \<lparr>year = 2023, month = 10, day = 2, hour = h, minute = 0, second = 0, microsecond = 0\<rparr>
     \<lparr>days_ago = 1, sku = ''SKU001'', quantity = 10, category = ''grocery'',
      price = Finite 5\<rparr>
   = Inr [(''date'', VStr ''2023-10-01''), (''sku'', VStr ''SKU001''), (''quantity'', VInt 10),
          (''category'', VStr ''grocery''), (''price'', VFloat (Finite 5))]"
  by (simp add: sales_record_strategy_def timedelta_days_def datetime_sub_def datetime_add_def
      then_do_def prev_day_def strftime_Ymd_def zero_pad2_def str_int_def str_nat_2023
      str_nat.simps [of 10] str_nat_digit)

section \<open>Properties of the parser and of the validators\<close>

lemma only_VE_simps [simp]:
  "only_ValueError (Inr x)" "only_ValueError (Inl ValueError)" "only_ValueError (need y)"
  by (simp_all add: only_ValueError_def need_def split: option.splits)

lemma only_VE_then_do:
  assumes "only_ValueError m" and "\<And>x. only_ValueError (f x)"
  shows "only_ValueError (then_do m f)"
proof (cases m)
  case (Inl e)
  with assms(1) show ?thesis by (simp add: only_ValueError_def then_do_def)
next
  case (Inr x)
  then show ?thesis using assms(2) [of x] by (simp add: then_do_def)
qed

lemma only_VE_find_sep: "only_ValueError (find_isoformat_datetime_separator bs)"
  by (simp add: find_isoformat_datetime_separator_def Let_def)

lemma only_VE_isoweek: "only_ValueError (isoweek_to_gregorian y w d)"
  by (simp add: isoweek_to_gregorian_def Let_def)

lemma only_VE_expect_dash: "only_ValueError (expect_dash bs u c)"
  by (simp add: expect_dash_def)

lemma only_VE_date: "only_ValueError (parse_isoformat_date bs n)"
  unfolding parse_isoformat_date_def Let_def
  by (intro only_VE_then_do) (simp_all add: only_VE_isoweek only_VE_expect_dash only_VE_then_do)

lemma only_VE_fraction: "only_ValueError (fraction bs e p vs)"
  unfolding fraction_def Let_def by (intro only_VE_then_do) simp_all

lemma only_VE_hms: "only_ValueError (hms bs e k p hs vs)"
proof (induction k arbitrary: p hs vs)
  case 0
  then show ?case by (simp add: only_VE_fraction)
next
  case (Suc k)
  show ?case
    unfolding hms.simps Let_def
    by (intro only_VE_then_do) (simp_all add: Suc only_VE_fraction)
qed

lemma only_VE_hhmmss: "only_ValueError (parse_hh_mm_ss_ff bs p e)"
  by (simp add: parse_hh_mm_ss_ff_def only_VE_hms)

lemma only_VE_time: "only_ValueError (parse_isoformat_time bs p n)"
  unfolding parse_isoformat_time_def Let_def
  by (intro only_VE_then_do only_VE_hhmmss) (auto simp: only_VE_hhmmss intro!: only_VE_then_do)

lemma only_VE_fromisoformat: "only_ValueError (fromisoformat s)"
  unfolding fromisoformat_def Let_def
  by (auto simp: only_VE_find_sep only_VE_date only_VE_time intro!: only_VE_then_do)

lemma is_valid_date_string_total: "\<exists>b. is_valid_date_string s = Inr b"
  using only_VE_fromisoformat [of "replace_Z s"]
  by (auto simp: is_valid_date_string_def only_ValueError_def split: sum.splits)

subsection \<open>Required fields\<close>

lemma has_required_fields_all:
  "has_required_fields obj required_fields
   = (\<forall>field \<in> set required_fields. \<exists>v. map_of obj field = Some v \<and> v \<noteq> VNone)"
  by (auto simp: has_required_fields_def list_all_iff dict_contains_def)

lemma has_required_fields_null:
  "field \<in> set required_fields \<Longrightarrow> map_of obj field = Some VNone \<Longrightarrow>
   \<not> has_required_fields obj required_fields"
proof
  assume a: "field \<in> set required_fields" and b: "map_of obj field = Some VNone"
    and c: "has_required_fields obj required_fields"
  from c a have "\<exists>v. map_of obj field = Some v \<and> v \<noteq> VNone"
    unfolding has_required_fields_all by (rule bspec)
  with b show False by simp
qed

lemma has_required_fields_getitem:
  "has_required_fields obj required_fields \<Longrightarrow> field \<in> set required_fields \<Longrightarrow>
   \<exists>v. getitem obj field = Inr v \<and> map_of obj field = Some v \<and> v \<noteq> VNone"
  by (auto simp: has_required_fields_all getitem_def)

lemma then_do_Inl [simp]: "then_do (Inl e) f = Inl e"
  by (simp add: then_do_def)

lemma then_do_Inr [simp]: "then_do (Inr x) f = f x"
  by (simp add: then_do_def)

lemma then_do_fails: "(\<And>x. \<exists>e. f x = Inl e) \<Longrightarrow> \<exists>e. then_do m f = Inl e"
  by (cases m) simp_all

lemma py_assert_simps [simp]: "py_assert True = Inr ()" "py_assert False = Inl AssertionError"
  by (simp_all add: py_assert_def)

lemma py_assert_fails: "(b \<Longrightarrow> \<exists>e. f () = Inl e) \<Longrightarrow> \<exists>e. then_do (py_assert b) f = Inl e"
  by (cases b) simp_all

text \<open>A null in a prediction, in a nested risk and in a recommendation.\<close>

lemma assert_prediction_null:
  assumes "field \<in> set [''date'', ''demandForecast'', ''lowerBound'', ''upperBound'']"
    and "map_of prediction field = Some VNone"
  shows "assert_prediction_valid R (VDict prediction) = Inl AssertionError"
proof -
  have "\<not> has_required_fields prediction
          [''date'', ''demandForecast'', ''lowerBound'', ''upperBound'']"
    using assms by (rule has_required_fields_null)
  then show ?thesis
    by (simp add: assert_prediction_valid_def has_required_fields_val_def)
qed

lemma assert_fields_and_probability_null:
  assumes "field \<in> set required_fields" and "map_of d field = Some VNone"
  shows "assert_fields_and_probability (VDict d) required_fields k = Inl AssertionError"
proof -
  have "\<not> has_required_fields d required_fields"
    using assms by (rule has_required_fields_null)
  then show ?thesis
    by (simp add: assert_fields_and_probability_def has_required_fields_val_def)
qed

lemma assert_predictions_append:
  "assert_predictions_valid R ps1 = Inr () \<Longrightarrow>
   assert_predictions_valid R (ps1 @ qs) = assert_predictions_valid R qs"
proof (induction ps1)
  case Nil
  then show ?case by simp
next
  case (Cons q ps1)
  then show ?case by (cases "assert_prediction_valid R q") simp_all
qed

lemma assert_predictions_first_null:
  assumes "assert_predictions_valid R ps1 = Inr ()"
    and "field \<in> set [''date'', ''demandForecast'', ''lowerBound'', ''upperBound'']"
    and "map_of prediction field = Some VNone"
  shows "assert_predictions_valid R (ps1 @ VDict prediction # ps2) = Inl AssertionError"
  using assert_predictions_append [OF assms(1)] assert_prediction_null [OF assms(2,3)]
  by simp

lemma assert_predictions_null:
  assumes "field \<in> set [''date'', ''demandForecast'', ''lowerBound'', ''upperBound'']"
    and "map_of prediction field = Some VNone"
  shows "VDict prediction \<in> set ps \<Longrightarrow> \<exists>e. assert_predictions_valid R ps = Inl e"
proof (induction ps)
  case Nil
  then show ?case by simp
next
  case (Cons q ps)
  show ?case
  proof (cases "assert_prediction_valid R q")
    case (Inl e)
    then show ?thesis by simp
  next
    case (Inr u)
    with assert_prediction_null [OF assms, of R] have "q \<noteq> VDict prediction" by auto
    with Cons.prems have "VDict prediction \<in> set ps" by simp
    with Cons.IH Inr show ?thesis by simp
  qed
qed

lemma assert_forecast_top_null:
  assumes "field \<in> set [''sku'', ''category'', ''predictions'', ''confidence'', ''methodology'']"
    and "map_of forecast field = Some VNone"
  shows "assert_forecast_result_valid R forecast = Inl AssertionError"
proof -
  have "\<not> has_required_fields forecast
          [''sku'', ''category'', ''predictions'', ''confidence'', ''methodology'']"
    using assms by (rule has_required_fields_null)
  then show ?thesis by (simp add: assert_forecast_result_valid_def)
qed

lemma assert_forecast_nested_null:
  assumes ps: "map_of forecast ''predictions'' = Some (VList ps)"
    and mem: "VDict prediction \<in> set ps"
    and f: "field \<in> set [''date'', ''demandForecast'', ''lowerBound'', ''upperBound'']"
    and null: "map_of prediction field = Some VNone"
  shows "\<exists>e. assert_forecast_result_valid R forecast = Inl e"
proof -
  obtain e where "assert_predictions_valid R ps = Inl e"
    using assert_predictions_null [OF f null mem, of R] by blast
  with ps show ?thesis
    by (auto simp: assert_forecast_result_valid_def getitem_def py_assert_def then_do_def
        split: sum.splits option.splits)
qed

lemma assert_forecast_first_null:
  assumes top: "has_required_fields forecast
                  [''sku'', ''category'', ''predictions'', ''confidence'', ''methodology'']"
    and c: "map_of forecast ''confidence'' = Some c" "is_valid_confidence_val c = Inr True"
    and m: "map_of forecast ''methodology'' = Some m"
           "m \<in> set [VStr ''ml'', VStr ''pattern'', VStr ''hybrid'']"
    and ps: "map_of forecast ''predictions'' = Some (VList (ps1 @ VDict prediction # ps2))"
    and before: "assert_predictions_valid R ps1 = Inr ()"
    and f: "field \<in> set [''date'', ''demandForecast'', ''lowerBound'', ''upperBound'']"
    and null: "map_of prediction field = Some VNone"
  shows "assert_forecast_result_valid R forecast = Inl AssertionError"
  using top c m ps assert_predictions_first_null [OF before f null, of ps2]
  by (simp add: assert_forecast_result_valid_def getitem_def isinstance_def issubclass_def)

lemma assert_risk_top_null:
  assumes "field \<in> set [''sku'', ''category'', ''currentStock'', ''stockoutRisk'',
                        ''overstockRisk'', ''recommendation'']"
    and "map_of risk field = Some VNone"
  shows "assert_risk_assessment_valid risk = Inl AssertionError"
proof -
  have "\<not> has_required_fields risk
          [''sku'', ''category'', ''currentStock'', ''stockoutRisk'', ''overstockRisk'',
           ''recommendation'']"
    using assms by (rule has_required_fields_null)
  then show ?thesis by (simp add: assert_risk_assessment_valid_def)
qed

lemma assert_risk_stockout_null:
  assumes so: "map_of risk ''stockoutRisk'' = Some (VDict d)"
    and f: "field \<in> set [''probability'', ''daysUntilStockout'', ''potentialLostSales'']"
    and null: "map_of d field = Some VNone"
  shows "assert_risk_assessment_valid risk = Inl AssertionError"
  using so assert_fields_and_probability_null [OF f null, of "''probability''"]
  by (cases "has_required_fields risk
        [''sku'', ''category'', ''currentStock'', ''stockoutRisk'', ''overstockRisk'',
         ''recommendation'']")
     (simp_all add: assert_risk_assessment_valid_def getitem_def)

lemma assert_risk_overstock_null:
  assumes ov: "map_of risk ''overstockRisk'' = Some (VDict d)"
    and f: "field \<in> set [''probability'', ''excessUnits'', ''carryingCost'']"
    and null: "map_of d field = Some VNone"
  shows "(\<exists>e. assert_risk_assessment_valid risk = Inl e)
       \<and> (map_of risk ''stockoutRisk'' = Some so \<longrightarrow>
            assert_fields_and_probability so
              [''probability'', ''daysUntilStockout'', ''potentialLostSales''] ''probability''
            = Inr () \<longrightarrow>
            assert_risk_assessment_valid risk = Inl AssertionError)"
  using ov assert_fields_and_probability_null [OF f null, of "''probability''"]
  by (cases "has_required_fields risk
        [''sku'', ''category'', ''currentStock'', ''stockoutRisk'', ''overstockRisk'',
         ''recommendation'']")
     (auto simp: assert_risk_assessment_valid_def getitem_def then_do_def
        split: sum.splits option.splits)

lemma assert_risk_recommendation_null:
  assumes rc: "map_of risk ''recommendation'' = Some (VDict d)"
    and f: "field \<in> set [''action'', ''suggestedQuantity'', ''urgency'', ''confidence'']"
    and null: "map_of d field = Some VNone"
  shows "(\<exists>e. assert_risk_assessment_valid risk = Inl e)
       \<and> (map_of risk ''stockoutRisk'' = Some so \<longrightarrow>
            assert_fields_and_probability so
              [''probability'', ''daysUntilStockout'', ''potentialLostSales''] ''probability''
            = Inr () \<longrightarrow>
            map_of risk ''overstockRisk'' = Some ov \<longrightarrow>
            assert_fields_and_probability ov
              [''probability'', ''excessUnits'', ''carryingCost''] ''probability''
            = Inr () \<longrightarrow>
            assert_risk_assessment_valid risk = Inl AssertionError)"
proof -
  have "\<not> has_required_fields d [''action'', ''suggestedQuantity'', ''urgency'', ''confidence'']"
    using f null by (rule has_required_fields_null)
  with rc show ?thesis
    by (cases "has_required_fields risk
          [''sku'', ''category'', ''currentStock'', ''stockoutRisk'', ''overstockRisk'',
           ''recommendation'']")
       (auto simp: assert_risk_assessment_valid_def getitem_def then_do_def
          has_required_fields_val_def split: sum.splits option.splits)
qed

text \<open>
  C8. \<open>has_required_fields\<close> holds exactly when every listed field is a key of the
  dictionary bound to a value other than None; a field bound to None counts as missing.
  So the validators built on it reject a record with an explicit null, at the top
  level and in a nested record. \<open>assert_forecast_result_valid\<close> fails with
  AssertionError on a null in a required field of the forecast; the check of one
  prediction fails with AssertionError on a null in a required field of the prediction,
  so the validator fails on such a null in any prediction of the list, and with
  AssertionError when the checks before that prediction pass.
  \<open>assert_risk_assessment_valid\<close> fails with AssertionError on a null in a required
  field of the assessment and of its stock-out risk; it fails on a null in a required
  field of the overstock risk and of the recommendation, and with AssertionError when
  the checks before it pass.
\<close>

theorem has_required_fields_iff:
  "has_required_fields obj required_fields
   = (\<forall>field \<in> set required_fields. \<exists>v. map_of obj field = Some v \<and> v \<noteq> VNone)
   \<and> (f \<in> set required_fields \<longrightarrow> map_of obj f = Some VNone \<longrightarrow>
        \<not> has_required_fields obj required_fields)
   \<and> (f \<in> set [''sku'', ''category'', ''predictions'', ''confidence'', ''methodology''] \<longrightarrow>
        map_of forecast f = Some VNone \<longrightarrow>
        assert_forecast_result_valid R forecast = Inl AssertionError)
   \<and> (f \<in> set [''date'', ''demandForecast'', ''lowerBound'', ''upperBound''] \<longrightarrow>
        map_of prediction f = Some VNone \<longrightarrow>
        assert_prediction_valid R (VDict prediction) = Inl AssertionError
        \<and> (map_of forecast ''predictions'' = Some (VList ps) \<longrightarrow> VDict prediction \<in> set ps \<longrightarrow>
           (\<exists>e. assert_forecast_result_valid R forecast = Inl e))
        \<and> (has_required_fields forecast
               [''sku'', ''category'', ''predictions'', ''confidence'', ''methodology''] \<longrightarrow>
             map_of forecast ''confidence'' = Some c \<longrightarrow> is_valid_confidence_val c = Inr True \<longrightarrow>
             map_of forecast ''methodology'' = Some m \<longrightarrow>
             m \<in> set [VStr ''ml'', VStr ''pattern'', VStr ''hybrid''] \<longrightarrow>
             map_of forecast ''predictions'' = Some (VList (passed @ VDict prediction # later)) \<longrightarrow>
             assert_predictions_valid R passed = Inr () \<longrightarrow>
             assert_forecast_result_valid R forecast = Inl AssertionError))
   \<and> (f \<in> set [''sku'', ''category'', ''currentStock'', ''stockoutRisk'', ''overstockRisk'',
                  ''recommendation''] \<longrightarrow>
        map_of risk f = Some VNone \<longrightarrow> assert_risk_assessment_valid risk = Inl AssertionError)
   \<and> (f \<in> set [''probability'', ''daysUntilStockout'', ''potentialLostSales''] \<longrightarrow>
        map_of d f = Some VNone \<longrightarrow> map_of risk ''stockoutRisk'' = Some (VDict d) \<longrightarrow>
        assert_risk_assessment_valid risk = Inl AssertionError)
   \<and> (f \<in> set [''probability'', ''excessUnits'', ''carryingCost''] \<longrightarrow>
        map_of d f = Some VNone \<longrightarrow> map_of risk ''overstockRisk'' = Some (VDict d) \<longrightarrow>
        (\<exists>e. assert_risk_assessment_valid risk = Inl e)
        \<and> (map_of risk ''stockoutRisk'' = Some so \<longrightarrow>
             assert_fields_and_probability so
               [''probability'', ''daysUntilStockout'', ''potentialLostSales''] ''probability''
             = Inr () \<longrightarrow>
             assert_risk_assessment_valid risk = Inl AssertionError))
   \<and> (f \<in> set [''action'', ''suggestedQuantity'', ''urgency'', ''confidence''] \<longrightarrow>
        map_of d f = Some VNone \<longrightarrow> map_of risk ''recommendation'' = Some (VDict d) \<longrightarrow>
        (\<exists>e. assert_risk_assessment_valid risk = Inl e)
        \<and> (map_of risk ''stockoutRisk'' = Some so \<longrightarrow>
             assert_fields_and_probability so
               [''probability'', ''daysUntilStockout'', ''potentialLostSales''] ''probability''
             = Inr () \<longrightarrow>
             map_of risk ''overstockRisk'' = Some ov \<longrightarrow>
             assert_fields_and_probability ov
               [''probability'', ''excessUnits'', ''carryingCost''] ''probability''
             = Inr () \<longrightarrow>
             assert_risk_assessment_valid risk = Inl AssertionError))"
proof (intro conjI impI)
  show "has_required_fields obj required_fields
        = (\<forall>field \<in> set required_fields. \<exists>v. map_of obj field = Some v \<and> v \<noteq> VNone)"
    by (rule has_required_fields_all)
next
  assume "f \<in> set required_fields" and "map_of obj f = Some VNone"
  then show "\<not> has_required_fields obj required_fields" by (rule has_required_fields_null)
next
  assume "f \<in> set [''sku'', ''category'', ''predictions'', ''confidence'', ''methodology'']"
    and "map_of forecast f = Some VNone"
  then show "assert_forecast_result_valid R forecast = Inl AssertionError"
    by (rule assert_forecast_top_null)
next
  assume "f \<in> set [''date'', ''demandForecast'', ''lowerBound'', ''upperBound'']"
    and "map_of prediction f = Some VNone"
  then show "assert_prediction_valid R (VDict prediction) = Inl AssertionError"
    by (rule assert_prediction_null)
next
  assume "f \<in> set [''date'', ''demandForecast'', ''lowerBound'', ''upperBound'']"
    and "map_of prediction f = Some VNone"
    and "map_of forecast ''predictions'' = Some (VList ps)" and "VDict prediction \<in> set ps"
  then show "\<exists>e. assert_forecast_result_valid R forecast = Inl e"
    by (intro assert_forecast_nested_null)
next
  assume "f \<in> set [''date'', ''demandForecast'', ''lowerBound'', ''upperBound'']"
    and "map_of prediction f = Some VNone"
    and "has_required_fields forecast
           [''sku'', ''category'', ''predictions'', ''confidence'', ''methodology'']"
    and "map_of forecast ''confidence'' = Some c" and "is_valid_confidence_val c = Inr True"
    and "map_of forecast ''methodology'' = Some m"
    and "m \<in> set [VStr ''ml'', VStr ''pattern'', VStr ''hybrid'']"
    and "map_of forecast ''predictions'' = Some (VList (passed @ VDict prediction # later))"
    and "assert_predictions_valid R passed = Inr ()"
  then show "assert_forecast_result_valid R forecast = Inl AssertionError"
    by (intro assert_forecast_first_null)
next
  assume "f \<in> set [''sku'', ''category'', ''currentStock'', ''stockoutRisk'', ''overstockRisk'',
                    ''recommendation'']"
    and "map_of risk f = Some VNone"
  then show "assert_risk_assessment_valid risk = Inl AssertionError"
    by (rule assert_risk_top_null)
next
  assume "f \<in> set [''probability'', ''daysUntilStockout'', ''potentialLostSales'']"
    and "map_of d f = Some VNone" and "map_of risk ''stockoutRisk'' = Some (VDict d)"
  then show "assert_risk_assessment_valid risk = Inl AssertionError"
    by (intro assert_risk_stockout_null)
next
  assume a: "f \<in> set [''probability'', ''excessUnits'', ''carryingCost'']"
    "map_of d f = Some VNone" "map_of risk ''overstockRisk'' = Some (VDict d)"
  from assert_risk_overstock_null [OF a(3,1,2)]
  show "\<exists>e. assert_risk_assessment_valid risk = Inl e" by blast
  assume "map_of risk ''stockoutRisk'' = Some so"
    and "assert_fields_and_probability so
           [''probability'', ''daysUntilStockout'', ''potentialLostSales''] ''probability''
         = Inr ()"
  with assert_risk_overstock_null [OF a(3,1,2), of so]
  show "assert_risk_assessment_valid risk = Inl AssertionError" by blast
next
  assume a: "f \<in> set [''action'', ''suggestedQuantity'', ''urgency'', ''confidence'']"
    "map_of d f = Some VNone" "map_of risk ''recommendation'' = Some (VDict d)"
  from assert_risk_recommendation_null [OF a(3,1,2)]
  show "\<exists>e. assert_risk_assessment_valid risk = Inl e" by blast
  assume "map_of risk ''stockoutRisk'' = Some so"
    and "assert_fields_and_probability so
           [''probability'', ''daysUntilStockout'', ''potentialLostSales''] ''probability''
         = Inr ()"
    and "map_of risk ''overstockRisk'' = Some ov"
    and "assert_fields_and_probability ov
           [''probability'', ''excessUnits'', ''carryingCost''] ''probability''
         = Inr ()"
  with assert_risk_recommendation_null [OF a(3,1,2), of so ov]
  show "assert_risk_assessment_valid risk = Inl AssertionError" by blast
qed

theorem has_required_fields_iff_witness:
  "has_required_fields [(''sku'', VStr ''SKU001''), (''category'', VStr ''grocery'')]
     [''sku'', ''category'']
   \<and> \<not> has_required_fields [(''sku'', VStr ''SKU001''), (''category'', VNone)]
         [''sku'', ''category'']
   \<and> \<not> has_required_fields [(''sku'', VStr ''SKU001'')] [''sku'', ''category'']
   \<and> assert_forecast_result_valid (\<lambda>v. Inl AttributeError)
        [(''sku'', VStr ''SKU001''), (''category'', VStr ''grocery''),
         (''predictions'', VList
            [VDict [(''date'', VStr ''2023-10-01''), (''demandForecast'', VInt 10),
                    (''lowerBound'', VInt 8), (''upperBound'', VInt 12)],
             VDict [(''date'', VNone), (''demandForecast'', VInt 10),
                    (''lowerBound'', VInt 8), (''upperBound'', VInt 12)]]),
         (''confidence'', VFloat (Finite (1 / 2))), (''methodology'', VStr ''ml'')]
       = Inl AssertionError
   \<and> assert_risk_assessment_valid
        [(''sku'', VStr ''SKU001''), (''category'', VStr ''grocery''), (''currentStock'', VInt 5),
         (''stockoutRisk'', VDict [(''probability'', VFloat (Finite (1 / 2))),
                                   (''daysUntilStockout'', VInt 3),
                                   (''potentialLostSales'', VInt 10)]),
         (''overstockRisk'', VDict [(''probability'', VFloat (Finite (1 / 4))),
                                    (''excessUnits'', VNone), (''carryingCost'', VInt 0)]),
         (''recommendation'', VDict [(''action'', VStr ''reorder''),
                                     (''suggestedQuantity'', VInt 20),
                                     (''urgency'', VStr ''high''),
                                     (''confidence'', VFloat (Finite (1 / 2)))])]
       = Inl AssertionError"
proof -
  have a: "has_required_fields [(''sku'', VStr ''SKU001''), (''category'', VStr ''grocery'')]
     [''sku'', ''category'']"
    using has_required_fields_iff
      [where obj = "[(''sku'', VStr ''SKU001''), (''category'', VStr ''grocery'')]"
         and required_fields = "[''sku'', ''category'']" and f = "''sku''"]
    by simp
  have b: "\<not> has_required_fields [(''sku'', VStr ''SKU001''), (''category'', VNone)]
         [''sku'', ''category'']"
    using has_required_fields_iff
      [where obj = "[(''sku'', VStr ''SKU001''), (''category'', VNone)]"
         and required_fields = "[''sku'', ''category'']" and f = "''category''"]
    by simp
  have c: "\<not> has_required_fields [(''sku'', VStr ''SKU001'')] [''sku'', ''category'']"
    using has_required_fields_iff
      [where obj = "[(''sku'', VStr ''SKU001'')]"
         and required_fields = "[''sku'', ''category'']" and f = "''category''"]
    by simp
  have before: "assert_predictions_valid (\<lambda>v. Inl AttributeError)
        [VDict [(''date'', VStr ''2023-10-01''), (''demandForecast'', VInt 10),
                (''lowerBound'', VInt 8), (''upperBound'', VInt 12)]] = Inr ()"
    by code_simp
  have d: "assert_forecast_result_valid (\<lambda>v. Inl AttributeError)
        [(''sku'', VStr ''SKU001''), (''category'', VStr ''grocery''),
         (''predictions'', VList
            [VDict [(''date'', VStr ''2023-10-01''), (''demandForecast'', VInt 10),
                    (''lowerBound'', VInt 8), (''upperBound'', VInt 12)],
             VDict [(''date'', VNone), (''demandForecast'', VInt 10),
                    (''lowerBound'', VInt 8), (''upperBound'', VInt 12)]]),
         (''confidence'', VFloat (Finite (1 / 2))), (''methodology'', VStr ''ml'')]
       = Inl AssertionError"
    using before has_required_fields_iff
      [where f = "''date''" and R = "\<lambda>v. Inl AttributeError"
         and forecast = "[(''sku'', VStr ''SKU001''), (''category'', VStr ''grocery''),
           (''predictions'', VList
              [VDict [(''date'', VStr ''2023-10-01''), (''demandForecast'', VInt 10),
                      (''lowerBound'', VInt 8), (''upperBound'', VInt 12)],
               VDict [(''date'', VNone), (''demandForecast'', VInt 10),
                      (''lowerBound'', VInt 8), (''upperBound'', VInt 12)]]),
           (''confidence'', VFloat (Finite (1 / 2))), (''methodology'', VStr ''ml'')]"
         and prediction = "[(''date'', VNone), (''demandForecast'', VInt 10),
                            (''lowerBound'', VInt 8), (''upperBound'', VInt 12)]"
         and c = "VFloat (Finite (1 / 2))" and m = "VStr ''ml''"
         and passed = "[VDict [(''date'', VStr ''2023-10-01''), (''demandForecast'', VInt 10),
                            (''lowerBound'', VInt 8), (''upperBound'', VInt 12)]]"
         and later = "[]"]
    by (simp add: has_required_fields_def dict_contains_def is_valid_confidence_val_def
        is_valid_confidence_def is_in_range_def)
  have so: "assert_fields_and_probability
        (VDict [(''probability'', VFloat (Finite (1 / 2))), (''daysUntilStockout'', VInt 3),
                (''potentialLostSales'', VInt 10)])
        [''probability'', ''daysUntilStockout'', ''potentialLostSales''] ''probability''
      = Inr ()"
    by (simp add: assert_fields_and_probability_def has_required_fields_val_def
        has_required_fields_def dict_contains_def getitem_val_def getitem_def
        is_valid_confidence_val_def is_valid_confidence_def is_in_range_def)
  have e: "assert_risk_assessment_valid
        [(''sku'', VStr ''SKU001''), (''category'', VStr ''grocery''), (''currentStock'', VInt 5),
         (''stockoutRisk'', VDict [(''probability'', VFloat (Finite (1 / 2))),
                                   (''daysUntilStockout'', VInt 3),
                                   (''potentialLostSales'', VInt 10)]),
         (''overstockRisk'', VDict [(''probability'', VFloat (Finite (1 / 4))),
                                    (''excessUnits'', VNone), (''carryingCost'', VInt 0)]),
         (''recommendation'', VDict [(''action'', VStr ''reorder''),
                                     (''suggestedQuantity'', VInt 20),
                                     (''urgency'', VStr ''high''),
                                     (''confidence'', VFloat (Finite (1 / 2)))])]
       = Inl AssertionError"
    using so has_required_fields_iff
      [where f = "''excessUnits''"
         and risk = "[(''sku'', VStr ''SKU001''), (''category'', VStr ''grocery''),
           (''currentStock'', VInt 5),
           (''stockoutRisk'', VDict [(''probability'', VFloat (Finite (1 / 2))),
                                     (''daysUntilStockout'', VInt 3),
                                     (''potentialLostSales'', VInt 10)]),
           (''overstockRisk'', VDict [(''probability'', VFloat (Finite (1 / 4))),
                                      (''excessUnits'', VNone), (''carryingCost'', VInt 0)]),
           (''recommendation'', VDict [(''action'', VStr ''reorder''),
                                       (''suggestedQuantity'', VInt 20),
                                       (''urgency'', VStr ''high''),
                                       (''confidence'', VFloat (Finite (1 / 2)))])]"
         and d = "[(''probability'', VFloat (Finite (1 / 4))), (''excessUnits'', VNone),
                   (''carryingCost'', VInt 0)]"
         and so = "VDict [(''probability'', VFloat (Finite (1 / 2))),
                          (''daysUntilStockout'', VInt 3), (''potentialLostSales'', VInt 10)]"]
    by simp
  from a b c d e show ?thesis by blast
qed

text \<open>
  C7, as the code has it. \<open>is_valid_date_string\<close> returns a boolean for every string
  and never raises. It rewrites every \<open>Z\<close> of the string, not only a trailing one: the
  string \<open>2023-10-01T10:00:00Z:30\<close> has no trailing \<open>Z\<close> and is rejected by the
  parser as it stands, but is rewritten to \<open>2023-10-01T10:00:00+00:00:30\<close>, an offset
  with seconds, and the function returns True.
\<close>

theorem is_valid_date_string_rewrites_every_Z:
  "is_valid_date_string ''2023-10-01T10:00:00Z:30'' = Inr True
   \<and> replace_Z ''2023-10-01T10:00:00Z:30'' = ''2023-10-01T10:00:00+00:00:30''
   \<and> fromisoformat ''2023-10-01T10:00:00Z:30'' = Inl ValueError
   \<and> is_valid_date_string ''2023-10-01T10:00:00Z'' = Inr True
   \<and> is_valid_date_string ''invalid-date'' = Inr False
   \<and> (\<exists>b. is_valid_date_string s = Inr b)"
proof -
  have "is_valid_date_string ''2023-10-01T10:00:00Z:30'' = Inr True" by code_simp
  moreover have "replace_Z ''2023-10-01T10:00:00Z:30'' = ''2023-10-01T10:00:00+00:00:30''"
    by (simp add: replace_Z_def)
  moreover have "fromisoformat ''2023-10-01T10:00:00Z:30'' = Inl ValueError" by code_simp
  moreover have "is_valid_date_string ''2023-10-01T10:00:00Z'' = Inr True" by code_simp
  moreover have "is_valid_date_string ''invalid-date'' = Inr False" by code_simp
  ultimately show ?thesis using is_valid_date_string_total [of s] by simp
qed

subsection \<open>Parsing a formatted date\<close>

lemma digit_cases:
  "k < (10::nat) \<Longrightarrow>
   k = 0 \<or> k = 1 \<or> k = 2 \<or> k = 3 \<or> k = 4 \<or> k = 5 \<or> k = 6 \<or> k = 7 \<or> k = 8 \<or> k = 9"
  by presburger

lemma of_char_digit_char: "k < 10 \<Longrightarrow> (of_char (digit_char k) :: nat) = 48 + k"
  using digit_cases [of k] by (auto simp: digit_char_def)

lemma is_digit_digit_char [simp]: "k < 10 \<Longrightarrow> is_digit (digit_char k)"
  by (simp add: is_digit_def of_char_digit_char)

lemma digit_value_digit_char [simp]: "k < 10 \<Longrightarrow> digit_value (digit_char k) = k"
  by (simp add: digit_value_def of_char_digit_char)

lemma digit_char_neq [simp]:
  assumes "k < 10"
  shows "digit_char k \<noteq> CHR ''-''" "digit_char k \<noteq> CHR ''W''" "digit_char k \<noteq> CHR ''Z''"
  using assms of_char_digit_char [OF assms] by auto

lemma utf8_char_digit_char [simp]: "k < 10 \<Longrightarrow> utf8_char (digit_char k) = [digit_char k]"
  by (simp add: utf8_char_def of_char_digit_char)

lemma utf8_char_dash [simp]: "utf8_char CHR ''-'' = ''-''"
  by (simp add: utf8_char_def)

lemma parse_digits_2:
  "parse_digits bs p 2 =
     (if is_digit (byte_at bs p) \<and> is_digit (byte_at bs (Suc p))
      then Some (digit_value (byte_at bs p) * 10 + digit_value (byte_at bs (Suc p)))
      else None)"
  by (simp add: parse_digits_def numeral_2_eq_2)

lemma parse_digits_4:
  "parse_digits bs p 4 =
     (if is_digit (byte_at bs p) \<and> is_digit (byte_at bs (Suc p))
         \<and> is_digit (byte_at bs (Suc (Suc p))) \<and> is_digit (byte_at bs (Suc (Suc (Suc p))))
      then Some (((digit_value (byte_at bs p) * 10 + digit_value (byte_at bs (Suc p))) * 10
                  + digit_value (byte_at bs (Suc (Suc p)))) * 10
                 + digit_value (byte_at bs (Suc (Suc (Suc p)))))
      else None)"
proof -
  have four: "(4::nat) = Suc (Suc (Suc (Suc 0)))" by simp
  show ?thesis unfolding parse_digits_def by (subst four) simp
qed

lemma str_nat_4digits:
  assumes "1000 \<le> n" "n < 10000"
  shows "str_nat n = [digit_char (n div 10 div 10 div 10), digit_char (n div 10 div 10 mod 10),
                      digit_char (n div 10 mod 10), digit_char (n mod 10)]"
proof -
  have a: "\<not> n < 10" "\<not> n div 10 < 10" "\<not> n div 10 div 10 < 10" "n div 10 div 10 div 10 < 10"
    using assms by simp_all
  show ?thesis
    by (simp add: str_nat.simps [of n] str_nat.simps [of "n div 10"]
        str_nat.simps [of "n div 10 div 10"] str_nat.simps [of "n div 10 div 10 div 10"] a)
qed

lemma zero_pad2_digits:
  assumes "0 \<le> k" "k < 100"
  shows "zero_pad2 k = [digit_char (nat k div 10), digit_char (nat k mod 10)]"
proof (cases "k < 10")
  case True
  with assms have "nat k < 10" "nat k div 10 = 0" by simp_all
  with assms True show ?thesis
    by (simp add: zero_pad2_def str_int_def str_nat.simps [of "nat k"])
next
  case False
  with assms have "\<not> nat k < 10" "nat k div 10 < 10" by simp_all
  with assms False show ?thesis
    by (simp add: zero_pad2_def str_int_def str_nat.simps [of "nat k"]
        str_nat.simps [of "nat k div 10"])
qed

text \<open>The parser on ten bytes \<open>YYYY-MM-DD\<close> of decimal digits.\<close>

lemma fromisoformat_digits:
  assumes "a < 10" "b < 10" "c < 10" "d < 10" "e < 10" "f < 10" "g < 10" "h < 10"
  shows "fromisoformat [digit_char a, digit_char b, digit_char c, digit_char d, CHR ''-'',
                        digit_char e, digit_char f, CHR ''-'', digit_char g, digit_char h]
       = (if check_date_fields (int (((a * 10 + b) * 10 + c) * 10 + d)) (int (e * 10 + f))
               (int (g * 10 + h))
          then Inr (\<lparr> year = int (((a * 10 + b) * 10 + c) * 10 + d), month = int (e * 10 + f),
                       day = int (g * 10 + h), hour = 0, minute = 0, second = 0,
                       microsecond = 0 \<rparr>, None)
          else Inl ValueError)"
  using assms
  by (simp add: fromisoformat_def encode_utf8_def find_isoformat_datetime_separator_def
      parse_isoformat_date_def parse_digits_2 parse_digits_4 byte_at_def need_def
      expect_dash_def then_do_def check_time_fields_def Let_def)

lemma digits_sum_4: "((n div 10 div 10 div 10 * 10 + n div 10 div 10 mod 10) * 10
                       + n div 10 mod 10) * 10 + n mod 10 = (n::nat)"
  by simp

text \<open>
  A date of a year from 1000 on is written as ten characters, and the parser reads the
  same date back, at midnight and without an offset.
\<close>

lemma strftime_Ymd_digits:
  assumes v: "valid_datetime x" and y: "1000 \<le> year x"
  shows "strftime_Ymd x =
     [digit_char (nat (year x) div 10 div 10 div 10), digit_char (nat (year x) div 10 div 10 mod 10),
      digit_char (nat (year x) div 10 mod 10), digit_char (nat (year x) mod 10), CHR ''-'',
      digit_char (nat (month x) div 10), digit_char (nat (month x) mod 10), CHR ''-'',
      digit_char (nat (day x) div 10), digit_char (nat (day x) mod 10)]"
proof -
  from v have c: "check_date_fields (year x) (month x) (day x)"
    by (simp add: valid_datetime_def)
  then have b: "year x \<le> 9999" "1 \<le> month x" "month x \<le> 12" "1 \<le> day x"
    "day x \<le> days_in_month (year x) (month x)"
    by (simp_all add: check_date_fields_def)
  from b dim_bounds [of "month x" "year x"] have d: "day x \<le> 31" by simp
  have "str_int (year x) = str_nat (nat (year x))" using y by (simp add: str_int_def)
  moreover have "1000 \<le> nat (year x)" "nat (year x) < 10000" using y b by simp_all
  ultimately show ?thesis
    using b d
    by (simp add: strftime_Ymd_def str_nat_4digits zero_pad2_digits)
qed

lemma fromisoformat_strftime:
  assumes v: "valid_datetime x" and y: "1000 \<le> year x"
  shows "fromisoformat (strftime_Ymd x)
       = Inr (x\<lparr>hour := 0, minute := 0, second := 0, microsecond := 0\<rparr>, None)"
proof -
  from v have c: "check_date_fields (year x) (month x) (day x)"
    by (simp add: valid_datetime_def)
  then have b: "year x \<le> 9999" "1 \<le> month x" "month x \<le> 12" "1 \<le> day x"
    "day x \<le> days_in_month (year x) (month x)"
    by (simp_all add: check_date_fields_def)
  from b dim_bounds [of "month x" "year x"] have d: "day x \<le> 31" by simp
  have ys: "int (((nat (year x) div 10 div 10 div 10 * 10 + nat (year x) div 10 div 10 mod 10) * 10
               + nat (year x) div 10 mod 10) * 10 + nat (year x) mod 10) = year x"
    unfolding digits_sum_4 using y by simp
  have ms: "int (nat (month x) div 10 * 10 + nat (month x) mod 10) = month x"
    using b by simp
  have ds: "int (nat (day x) div 10 * 10 + nat (day x) mod 10) = day x"
    using b by simp
  have lt: "nat (year x) div 10 div 10 div 10 < 10" "nat (year x) div 10 div 10 mod 10 < 10"
    "nat (year x) div 10 mod 10 < 10" "nat (year x) mod 10 < 10"
    "nat (month x) div 10 < 10" "nat (month x) mod 10 < 10"
    "nat (day x) div 10 < 10" "nat (day x) mod 10 < 10"
    using b d by simp_all
  show ?thesis
    unfolding strftime_Ymd_digits [OF v y] fromisoformat_digits [OF lt] ys ms ds
    using c by (cases x) simp
qed

lemma replace_Z_strftime:
  assumes v: "valid_datetime x" and y: "1000 \<le> year x"
  shows "replace_Z (strftime_Ymd x) = strftime_Ymd x"
proof -
  from v have c: "check_date_fields (year x) (month x) (day x)"
    by (simp add: valid_datetime_def)
  then have b: "year x \<le> 9999" "1 \<le> month x" "month x \<le> 12" "1 \<le> day x"
    "day x \<le> days_in_month (year x) (month x)"
    by (simp_all add: check_date_fields_def)
  from b dim_bounds [of "month x" "year x"] have d: "day x \<le> 31" by simp
  have lt: "nat (year x) div 10 div 10 div 10 < 10" "nat (year x) div 10 div 10 mod 10 < 10"
    "nat (year x) div 10 mod 10 < 10" "nat (year x) mod 10 < 10"
    "nat (month x) div 10 < 10" "nat (month x) mod 10 < 10"
    "nat (day x) div 10 < 10" "nat (day x) mod 10 < 10"
    using b d by simp_all
  show ?thesis
    unfolding strftime_Ymd_digits [OF v y] using lt by (simp add: replace_Z_def)
qed

lemma is_valid_date_string_strftime:
  assumes "valid_datetime x" and "1000 \<le> year x"
  shows "is_valid_date_string (strftime_Ymd x) = Inr True"
  by (simp add: is_valid_date_string_def replace_Z_strftime [OF assms]
      fromisoformat_strftime [OF assms])

text \<open>Subtracting days, and the year of a day number.\<close>

lemma datetime_sub_ok:
  assumes "valid_datetime x" and "0 \<le> n" and "n < toordinal x"
  shows "\<exists>y. datetime_sub x n = Inr y \<and> valid_datetime y \<and> toordinal y = toordinal x - n
             \<and> same_time x y"
proof (cases "n = 0")
  case True
  with assms(1) show ?thesis
    by (simp add: datetime_sub_def datetime_add_def same_time_def)
next
  case False
  with assms(2) have pos: "0 < n" by simp
  have "int (nat n) < toordinal x" using assms(2,3) by simp
  from backward_ok [OF assms(1) this] pos show ?thesis
    by (simp add: datetime_sub_def datetime_add_def)
qed

lemma year_from_ordinal:
  assumes v: "valid_datetime x" and y: "1 \<le> y" "y \<le> 9999"
    and le: "ymd2ord y 1 1 \<le> toordinal x"
  shows "y \<le> year x"
proof -
  from v have c: "check_date_fields (year x) (month x) (day x)"
    by (simp add: valid_datetime_def)
  have f: "check_date_fields y 1 1" using y by (simp add: check_date_fields_def dim_values)
  from le have "(y, 1, 1) \<le> (year x, month x, day x)"
    unfolding toordinal_def ymd2ord_le_iff [OF f c] .
  then show ?thesis by (auto simp: less_eq_prod_def)
qed

lemma ordinal_from_year:
  assumes v: "valid_datetime x" and y: "1 \<le> y" "y \<le> year x"
  shows "ymd2ord y 1 1 \<le> toordinal x"
proof -
  from v have c: "check_date_fields (year x) (month x) (day x)"
    by (simp add: valid_datetime_def)
  then have b: "year x \<le> 9999" "1 \<le> month x" "1 \<le> day x"
    by (simp_all add: check_date_fields_def)
  have f: "check_date_fields y 1 1" using y b by (simp add: check_date_fields_def dim_values)
  have "(y, 1, 1) \<le> (year x, month x, day x)"
    using y b by (auto simp: less_eq_prod_def)
  then show ?thesis unfolding toordinal_def ymd2ord_le_iff [OF f c] .
qed

lemma ymd2ord_1000: "ymd2ord 1000 1 1 = 364878" "ymd2ord 1002 1 1 = 365608"
  by (simp_all add: ymd2ord_def days_before_year_def dbm_values)

text \<open>
  C6. At a reading of the clock in the year 1002 or later (any reading of a running
  clock is), for drawn values in the ranges of the strategies, \<open>sales_record_strategy\<close>
  returns a record whose \<open>quantity\<close> is an integer of at least 1 and whose \<open>date\<close> is a
  string that \<open>is_valid_date_string\<close> accepts: \<open>datetime.fromisoformat\<close> reads it as
  the day \<open>days_ago\<close> days before the reading, at midnight, without an offset.
\<close>

theorem sales_record_strategy_quantity_and_date:
  assumes "valid_datetime now" and "1002 \<le> year now" and "sales_draws_ok d"
  shows "\<exists>r q s x. sales_record_strategy now d = Inr r
           \<and> map fst r = [''date'', ''sku'', ''quantity'', ''category'', ''price'']
           \<and> map_of r ''quantity'' = Some (VInt q) \<and> 1 \<le> q
           \<and> map_of r ''date'' = Some (VStr s)
           \<and> is_valid_date_string s = Inr True
           \<and> fromisoformat s = Inr (x, None)
           \<and> valid_datetime x \<and> toordinal x = toordinal now - days_ago d
           \<and> hour x = 0 \<and> minute x = 0 \<and> second x = 0 \<and> microsecond x = 0"
proof -
  from assms(3) have dr: "0 \<le> days_ago d" "days_ago d \<le> 730" "1 \<le> quantity d"
    by (simp_all add: sales_draws_ok_def)
  have lo: "365608 \<le> toordinal now"
    using ordinal_from_year [OF assms(1), of 1002] assms(2) by (simp add: ymd2ord_1000)
  with dr have "days_ago d < toordinal now" by simp
  from datetime_sub_ok [OF assms(1) dr(1) this]
  obtain y where y: "datetime_sub now (days_ago d) = Inr y" "valid_datetime y"
    "toordinal y = toordinal now - days_ago d"
    by blast
  have "ymd2ord 1000 1 1 \<le> toordinal y" using y(3) lo dr by (simp add: ymd2ord_1000)
  with year_from_ordinal [OF y(2), of 1000] have yr: "1000 \<le> year y" by simp
  define x where "x = y\<lparr>hour := 0, minute := 0, second := 0, microsecond := 0\<rparr>"
  have vx: "valid_datetime x" using y(2)
    by (simp add: x_def valid_datetime_def check_time_fields_def)
  have ox: "toordinal x = toordinal now - days_ago d" using y(3)
    by (simp add: x_def toordinal_def)
  have run: "sales_record_strategy now d
             = Inr [(''date'', VStr (strftime_Ymd y)), (''sku'', VStr (sku d)),
                    (''quantity'', VInt (quantity d)), (''category'', VStr (category d)),
                    (''price'', VFloat (price d))]"
    using dr y(1) by (simp add: sales_record_strategy_def timedelta_days_def then_do_def)
  show ?thesis
    unfolding run
    using dr(3) vx ox is_valid_date_string_strftime [OF y(2) yr]
      fromisoformat_strftime [OF y(2) yr]
    by (auto simp: x_def)
qed

theorem sales_record_strategy_quantity_and_date_witness:
  "\<exists>x. sales_record_strategy
       \<lparr>year = 2023, month = 10, day = 2, hour = 8, minute = 0, second = 0, microsecond = 0\<rparr>
       \<lparr>days_ago = 1, sku = ''SKU001'', quantity = 10, category = ''grocery'',
        price = Finite 5\<rparr>
     = Inr [(''date'', VStr ''2023-10-01''), (''sku'', VStr ''SKU001''), (''quantity'', VInt 10),
            (''category'', VStr ''grocery''), (''price'', VFloat (Finite 5))]
     \<and> is_valid_date_string ''2023-10-01'' = Inr True
     \<and> fromisoformat ''2023-10-01'' = Inr (x, None)
     \<and> valid_datetime x
     \<and> toordinal x
         = toordinal \<lparr>year = 2023, month = 10, day = 2, hour = 8, minute = 0, second = 0,
                      microsecond = 0\<rparr> - 1
     \<and> hour x = 0 \<and> minute x = 0 \<and> second x = 0 \<and> microsecond x = 0"
  using sales_record_strategy_quantity_and_date
    [of "\<lparr>year = 2023, month = 10, day = 2, hour = 8, minute = 0, second = 0,
           microsecond = 0\<rparr>"
        "\<lparr>days_ago = 1, sku = ''SKU001'', quantity = 10, category = ''grocery'',
          price = Finite 5\<rparr>"]
  by (auto simp: sales_record_example valid_datetime_def check_date_fields_def
      check_time_fields_def dim_values sales_draws_ok_def is_Lu_or_Nd_def)

section \<open>Dependence on the clock\<close>

subsection \<open>The ISO format of a date-time\<close>

lemma numeral_value_snoc: "numeral_value (s @ [c]) = numeral_value s * 10 + digit_value c"
  by (simp add: numeral_value_def)

lemma numeral_value_str_nat: "numeral_value (str_nat n) = n"
proof (induction n rule: str_nat.induct)
  case (1 n)
  show ?case
  proof (cases "n < 10")
    case True
    then show ?thesis by (simp add: str_nat.simps [of n] numeral_value_def)
  next
    case False
    with 1 have "numeral_value (str_nat (n div 10)) = n div 10" by simp
    moreover have "n mod 10 < 10" by simp
    ultimately show ?thesis
      using False by (simp add: str_nat.simps [of n] numeral_value_snoc)
  qed
qed

lemma numeral_value_zeros: "numeral_value (replicate k CHR ''0'' @ s) = numeral_value s"
proof (induction k)
  case 0
  then show ?case by simp
next
  case (Suc k)
  have "digit_value CHR ''0'' = 0" by (simp add: digit_value_def)
  with Suc show ?case by (simp add: numeral_value_def)
qed

lemma length_str_nat: "n < 10 ^ Suc w \<Longrightarrow> length (str_nat n) \<le> Suc w"
proof (induction w arbitrary: n)
  case 0
  then show ?case by (simp add: str_nat.simps [of n])
next
  case (Suc w)
  show ?case
  proof (cases "n < 10")
    case True
    then show ?thesis by (simp add: str_nat.simps [of n])
  next
    case False
    from Suc.prems have "n div 10 < 10 ^ Suc w" by (simp add: less_mult_imp_div_less)
    from Suc.IH [OF this] False show ?thesis by (simp add: str_nat.simps [of n])
  qed
qed

lemma numeral_value_format_0d: "0 \<le> n \<Longrightarrow> numeral_value (format_0d w n) = nat n"
  by (simp add: format_0d_def zfill_def numeral_value_zeros numeral_value_str_nat)

lemma length_format_0d:
  assumes "0 \<le> n" and "0 < w" and "nat n < 10 ^ w"
  shows "length (format_0d w n) = w"
proof -
  from assms(2) obtain v where w: "w = Suc v" by (cases w) simp_all
  with assms(3) have "length (str_nat (nat n)) \<le> w" using length_str_nat [of "nat n" v] by simp
  with assms(1) show ?thesis by (simp add: format_0d_def zfill_def)
qed

lemma format_0d_inj:
  assumes "0 \<le> a" and "0 \<le> b" and "format_0d w a = format_0d w b"
  shows "a = b"
proof -
  from assms(3) have "numeral_value (format_0d w a) = numeral_value (format_0d w b)" by simp
  with assms(1,2) show ?thesis by (simp add: numeral_value_format_0d)
qed

lemma length_format_fields:
  assumes "valid_datetime x"
  shows "length (format_0d 4 (year x)) = 4" "length (format_0d 2 (month x)) = 2"
    "length (format_0d 2 (day x)) = 2" "length (format_0d 2 (hour x)) = 2"
    "length (format_0d 2 (minute x)) = 2" "length (format_0d 2 (second x)) = 2"
    "length (format_0d 6 (microsecond x)) = 6"
proof -
  from assms have c: "check_date_fields (year x) (month x) (day x)"
    and t: "check_time_fields (hour x) (minute x) (second x) (microsecond x)"
    by (simp_all add: valid_datetime_def)
  from c have b: "1 \<le> year x" "year x \<le> 9999" "1 \<le> month x" "month x \<le> 12" "1 \<le> day x"
    "day x \<le> days_in_month (year x) (month x)"
    by (simp_all add: check_date_fields_def)
  from b dim_bounds [of "month x" "year x"] have d: "day x \<le> 31" by simp
  from t have tb: "0 \<le> hour x" "hour x \<le> 23" "0 \<le> minute x" "minute x \<le> 59"
    "0 \<le> second x" "second x \<le> 59" "0 \<le> microsecond x" "microsecond x \<le> 999999"
    by (simp_all add: check_time_fields_def)
  show "length (format_0d 4 (year x)) = 4"
    by (rule length_format_0d) (use b in simp_all)
  show "length (format_0d 2 (month x)) = 2"
    by (rule length_format_0d) (use b in simp_all)
  show "length (format_0d 2 (day x)) = 2"
    by (rule length_format_0d) (use b d in simp_all)
  show "length (format_0d 2 (hour x)) = 2"
    by (rule length_format_0d) (use tb in simp_all)
  show "length (format_0d 2 (minute x)) = 2"
    by (rule length_format_0d) (use tb in simp_all)
  show "length (format_0d 2 (second x)) = 2"
    by (rule length_format_0d) (use tb in simp_all)
  show "length (format_0d 6 (microsecond x)) = 6"
    by (rule length_format_0d) (use tb in simp_all)
qed

lemma isoformat_inj:
  assumes vx: "valid_datetime x" and vy: "valid_datetime y"
    and eq: "isoformat x = isoformat y"
  shows "x = y"
proof -
  from vx have nx: "0 \<le> year x" "0 \<le> month x" "0 \<le> day x" "0 \<le> hour x" "0 \<le> minute x"
    "0 \<le> second x" "0 \<le> microsecond x"
    by (simp_all add: valid_datetime_def check_date_fields_def check_time_fields_def)
  from vy have ny: "0 \<le> year y" "0 \<le> month y" "0 \<le> day y" "0 \<le> hour y" "0 \<le> minute y"
    "0 \<le> second y" "0 \<le> microsecond y"
    by (simp_all add: valid_datetime_def check_date_fields_def check_time_fields_def)
  note lx = length_format_fields [OF vx]
  note ly = length_format_fields [OF vy]
  from eq have parts:
    "format_0d 4 (year x) = format_0d 4 (year y)"
    "format_0d 2 (month x) = format_0d 2 (month y)"
    "format_0d 2 (day x) = format_0d 2 (day y)"
    "format_0d 2 (hour x) = format_0d 2 (hour y)"
    "format_0d 2 (minute x) = format_0d 2 (minute y)"
    "format_0d 2 (second x) = format_0d 2 (second y)"
    "(if microsecond x = 0 then [] else ''.'' @ format_0d 6 (microsecond x))
     = (if microsecond y = 0 then [] else ''.'' @ format_0d 6 (microsecond y))"
    unfolding isoformat_def using lx ly by simp_all
  have "microsecond x = microsecond y"
  proof (cases "microsecond x = 0")
    case True
    with parts(7) show ?thesis by (simp split: if_splits)
  next
    case False
    with parts(7) have "format_0d 6 (microsecond x) = format_0d 6 (microsecond y)"
      by (simp split: if_splits)
    then show ?thesis by (rule format_0d_inj [OF nx(7) ny(7)])
  qed
  moreover have "year x = year y" using parts(1) by (rule format_0d_inj [OF nx(1) ny(1)])
  moreover have "month x = month y" using parts(2) by (rule format_0d_inj [OF nx(2) ny(2)])
  moreover have "day x = day y" using parts(3) by (rule format_0d_inj [OF nx(3) ny(3)])
  moreover have "hour x = hour y" using parts(4) by (rule format_0d_inj [OF nx(4) ny(4)])
  moreover have "minute x = minute y" using parts(5) by (rule format_0d_inj [OF nx(5) ny(5)])
  moreover have "second x = second y" using parts(6) by (rule format_0d_inj [OF nx(6) ny(6)])
  ultimately show ?thesis by simp
qed

subsection \<open>Dates written by two readings\<close>

lemma same_day_fields:
  assumes "valid_datetime x" "valid_datetime y" "toordinal x = toordinal y"
  shows "year x = year y \<and> month x = month y \<and> day x = day y"
proof -
  from assms(1,2) have "check_date_fields (year x) (month x) (day x)"
    "check_date_fields (year y) (month y) (day y)"
    by (simp_all add: valid_datetime_def)
  from ymd2ord_inj [OF this] assms(3) show ?thesis by (simp add: toordinal_def)
qed

lemma numeral_value_zero_pad2: "0 \<le> k \<Longrightarrow> numeral_value (zero_pad2 k) = nat k"
  using numeral_value_zeros [of 1 "str_nat (nat k)"]
  by (simp add: zero_pad2_def str_int_def numeral_value_str_nat)

lemma length_zero_pad2: "0 \<le> k \<Longrightarrow> k < 100 \<Longrightarrow> length (zero_pad2 k) = 2"
  by (simp add: zero_pad2_digits)

lemma zero_pad2_inj:
  assumes "0 \<le> a" and "0 \<le> b" and "zero_pad2 a = zero_pad2 b"
  shows "a = b"
proof -
  from assms(3) have "numeral_value (zero_pad2 a) = numeral_value (zero_pad2 b)" by simp
  with assms(1,2) show ?thesis by (simp add: numeral_value_zero_pad2)
qed

lemma str_nat_inj:
  assumes "str_nat a = str_nat b"
  shows "a = b"
proof -
  from assms have "numeral_value (str_nat a) = numeral_value (str_nat b)" by simp
  then show ?thesis by (simp add: numeral_value_str_nat)
qed

lemma strftime_Ymd_inj:
  assumes vx: "valid_datetime x" and vy: "valid_datetime y"
    and eq: "strftime_Ymd x = strftime_Ymd y"
  shows "year x = year y \<and> month x = month y \<and> day x = day y"
proof -
  from vx have bx: "1 \<le> year x" "1 \<le> month x" "month x \<le> 12" "1 \<le> day x"
    "day x \<le> days_in_month (year x) (month x)"
    by (simp_all add: valid_datetime_def check_date_fields_def)
  from vy have fy: "1 \<le> year y" "1 \<le> month y" "month y \<le> 12" "1 \<le> day y"
    "day y \<le> days_in_month (year y) (month y)"
    by (simp_all add: valid_datetime_def check_date_fields_def)
  from bx dim_bounds [of "month x" "year x"] have dx: "day x \<le> 31" by simp
  from fy dim_bounds [of "month y" "year y"] have dy: "day y \<le> 31" by simp
  have len: "length (zero_pad2 (month x)) = 2" "length (zero_pad2 (day x)) = 2"
    "length (zero_pad2 (month y)) = 2" "length (zero_pad2 (day y)) = 2"
    using bx fy dx dy by (simp_all add: length_zero_pad2)
  from eq bx fy len have parts: "str_nat (nat (year x)) = str_nat (nat (year y))"
    "zero_pad2 (month x) = zero_pad2 (month y)" "zero_pad2 (day x) = zero_pad2 (day y)"
    by (simp_all add: strftime_Ymd_def str_int_def)
  from str_nat_inj [OF parts(1)] bx fy have "year x = year y" by simp
  moreover from zero_pad2_inj [OF _ _ parts(2)] bx fy have "month x = month y" by simp
  moreover from zero_pad2_inj [OF _ _ parts(3)] bx fy have "day x = day y" by simp
  ultimately show ?thesis by simp
qed

lemma strftime_Ymd_eq_iff:
  assumes "valid_datetime x" and "valid_datetime y"
  shows "(strftime_Ymd x = strftime_Ymd y) = (toordinal x = toordinal y)"
proof
  assume "strftime_Ymd x = strftime_Ymd y"
  from strftime_Ymd_inj [OF assms this] show "toordinal x = toordinal y"
    by (simp add: toordinal_def)
next
  assume "toordinal x = toordinal y"
  with same_day_fields [OF assms] show "strftime_Ymd x = strftime_Ymd y"
    by (simp add: strftime_Ymd_def)
qed

lemma datetime_add_ok:
  assumes "valid_datetime x" and "0 \<le> n" and "toordinal x + n \<le> 3652059"
  shows "\<exists>y. datetime_add x n = Inr y \<and> valid_datetime y \<and> toordinal y = toordinal x + n"
proof -
  have "toordinal x + int (nat n) \<le> 3652059" using assms(2,3) by simp
  from forward_ok [OF assms(1) this] assms(2) show ?thesis
    by (auto simp: datetime_add_def)
qed

subsection \<open>Sales records\<close>

lemma sales_record_shape:
  "(\<exists>e. sales_record_strategy now d = Inl e)
   \<or> (\<exists>s. sales_record_strategy now d
          = Inr [(''date'', VStr s), (''sku'', VStr (sku d)), (''quantity'', VInt (quantity d)),
                 (''category'', VStr (category d)), (''price'', VFloat (price d))])"
  by (auto simp: sales_record_strategy_def then_do_def split: sum.splits)

lemma sales_record_run:
  assumes "valid_datetime now" and "0 \<le> days_ago d" and "days_ago d \<le> 730"
    and "days_ago d < toordinal now"
  shows "\<exists>y. sales_record_strategy now d
             = Inr [(''date'', VStr (strftime_Ymd y)), (''sku'', VStr (sku d)),
                    (''quantity'', VInt (quantity d)), (''category'', VStr (category d)),
                    (''price'', VFloat (price d))]
           \<and> valid_datetime y \<and> toordinal y = toordinal now - days_ago d"
proof -
  from datetime_sub_ok [OF assms(1,2,4)]
  obtain y where y: "datetime_sub now (days_ago d) = Inr y" "valid_datetime y"
    "toordinal y = toordinal now - days_ago d"
    by blast
  with assms(2,3) show ?thesis
    by (auto simp: sales_record_strategy_def timedelta_days_def)
qed

lemma sales_record_clock:
  assumes "valid_datetime now" and "valid_datetime now'"
    and "0 \<le> days_ago d" and "days_ago d \<le> 730"
    and "days_ago d < toordinal now" and "days_ago d < toordinal now'"
  shows "\<exists>r r'. sales_record_strategy now d = Inr r \<and> sales_record_strategy now' d = Inr r'
           \<and> (r = r') = (toordinal now = toordinal now')"
proof -
  from sales_record_run [OF assms(1,3,4,5)] obtain y where
    y: "sales_record_strategy now d
          = Inr [(''date'', VStr (strftime_Ymd y)), (''sku'', VStr (sku d)),
                 (''quantity'', VInt (quantity d)), (''category'', VStr (category d)),
                 (''price'', VFloat (price d))]"
       "valid_datetime y" "toordinal y = toordinal now - days_ago d"
    by blast
  from sales_record_run [OF assms(2,3,4,6)] obtain y' where
    y': "sales_record_strategy now' d
          = Inr [(''date'', VStr (strftime_Ymd y')), (''sku'', VStr (sku d)),
                 (''quantity'', VInt (quantity d)), (''category'', VStr (category d)),
                 (''price'', VFloat (price d))]"
       "valid_datetime y'" "toordinal y' = toordinal now' - days_ago d"
    by blast
  show ?thesis
    unfolding y(1) y'(1)
    using strftime_Ymd_eq_iff [OF y(2) y'(2)] y(3) y'(3) by simp
qed

subsection \<open>Lists of sales records\<close>

lemma sales_data_list_clock:
  assumes "list_all2 (\<lambda>run run'. snd run' = snd run
              \<and> valid_datetime (fst run) \<and> valid_datetime (fst run')
              \<and> 0 \<le> days_ago (snd run) \<and> days_ago (snd run) \<le> 730
              \<and> days_ago (snd run) < toordinal (fst run)
              \<and> days_ago (snd run) < toordinal (fst run')) runs runs'"
  shows "\<exists>rs rs'. sales_data_list_strategy min_size max_size runs = Inr rs
           \<and> sales_data_list_strategy min_size max_size runs' = Inr rs'
           \<and> (rs = rs')
             = list_all2 (\<lambda>run run'. toordinal (fst run) = toordinal (fst run')) runs runs'"
  using assms
proof (induction runs runs' rule: list_all2_induct)
  case Nil
  then show ?case by (simp add: sales_data_list_strategy_def)
next
  case (Cons run runs run' runs')
  from Cons.IH obtain rs rs' where
    rs: "map_results (\<lambda>run. sales_record_strategy (fst run) (snd run)) runs = Inr rs"
        "map_results (\<lambda>run. sales_record_strategy (fst run) (snd run)) runs' = Inr rs'"
        "(rs = rs')
         = list_all2 (\<lambda>run run'. toordinal (fst run) = toordinal (fst run')) runs runs'"
    by (auto simp: sales_data_list_strategy_def)
  from Cons.hyps(1) have h: "snd run' = snd run"
    "valid_datetime (fst run)" "valid_datetime (fst run')"
    "0 \<le> days_ago (snd run)" "days_ago (snd run) \<le> 730"
    "days_ago (snd run) < toordinal (fst run)" "days_ago (snd run) < toordinal (fst run')"
    by simp_all
  from sales_record_clock [OF h(2,3,4,5,6,7)] obtain r r' where
    r: "sales_record_strategy (fst run) (snd run) = Inr r"
       "sales_record_strategy (fst run') (snd run) = Inr r'"
       "(r = r') = (toordinal (fst run) = toordinal (fst run'))"
    by blast
  show ?case
    using rs r h(1) by (simp add: sales_data_list_strategy_def)
qed

subsection \<open>Festival events\<close>

lemma festival_event_shape:
  "(\<exists>e. festival_event_strategy now d = Inl e)
   \<or> (\<exists>i s. festival_event_strategy now d
          = Inr [(''festivalId'', VStr i), (''name'', VStr (fe_name d)), (''date'', VStr s),
                 (''region'', VList (map VStr (fe_region d))),
                 (''category'', VStr ''festival''),
                 (''demandMultipliers'',
                    VDict [(''grocery'', VFloat (fe_grocery d)),
                           (''apparel'', VFloat (fe_apparel d)),
                           (''electronics'', VFloat (fe_electronics d))]),
                 (''duration'', VInt (fe_duration d)),
                 (''preparationDays'', VInt (fe_preparation_days d))])"
  by (auto simp: festival_event_strategy_def then_do_def split: sum.splits)

lemma festival_event_run:
  assumes "valid_datetime now" and "1 \<le> fe_days_ahead d" and "fe_days_ahead d \<le> 365"
    and "toordinal now + fe_days_ahead d \<le> 3652059"
  shows "\<exists>y. festival_event_strategy now d
             = Inr [(''festivalId'', VStr (lower (fe_id_name d) @ ''-'' @ str_int (year y))),
                    (''name'', VStr (fe_name d)), (''date'', VStr (strftime_Ymd y)),
                    (''region'', VList (map VStr (fe_region d))),
                    (''category'', VStr ''festival''),
                    (''demandMultipliers'',
                       VDict [(''grocery'', VFloat (fe_grocery d)),
                              (''apparel'', VFloat (fe_apparel d)),
                              (''electronics'', VFloat (fe_electronics d))]),
                    (''duration'', VInt (fe_duration d)),
                    (''preparationDays'', VInt (fe_preparation_days d))]
           \<and> valid_datetime y \<and> toordinal y = toordinal now + fe_days_ahead d"
proof -
  from datetime_add_ok [OF assms(1) _ assms(4)] assms(2)
  obtain y where y: "datetime_add now (fe_days_ahead d) = Inr y" "valid_datetime y"
    "toordinal y = toordinal now + fe_days_ahead d"
    by auto
  with assms(2,3) show ?thesis
    by (auto simp: festival_event_strategy_def timedelta_days_def)
qed

lemma festival_event_clock:
  assumes "valid_datetime now" and "valid_datetime now'"
    and "1 \<le> fe_days_ahead d" and "fe_days_ahead d \<le> 365"
    and "toordinal now + fe_days_ahead d \<le> 3652059"
    and "toordinal now' + fe_days_ahead d \<le> 3652059"
  shows "\<exists>r r'. festival_event_strategy now d = Inr r \<and> festival_event_strategy now' d = Inr r'
           \<and> (r = r') = (toordinal now = toordinal now')"
proof -
  from festival_event_run [OF assms(1,3,4,5)] obtain y where
    y: "festival_event_strategy now d
          = Inr [(''festivalId'', VStr (lower (fe_id_name d) @ ''-'' @ str_int (year y))),
                    (''name'', VStr (fe_name d)), (''date'', VStr (strftime_Ymd y)),
                    (''region'', VList (map VStr (fe_region d))),
                    (''category'', VStr ''festival''),
                    (''demandMultipliers'',
                       VDict [(''grocery'', VFloat (fe_grocery d)),
                              (''apparel'', VFloat (fe_apparel d)),
                              (''electronics'', VFloat (fe_electronics d))]),
                    (''duration'', VInt (fe_duration d)),
                    (''preparationDays'', VInt (fe_preparation_days d))]"
       "valid_datetime y" "toordinal y = toordinal now + fe_days_ahead d"
    by blast
  from festival_event_run [OF assms(2,3,4,6)] obtain y' where
    y': "festival_event_strategy now' d
          = Inr [(''festivalId'', VStr (lower (fe_id_name d) @ ''-'' @ str_int (year y'))),
                    (''name'', VStr (fe_name d)), (''date'', VStr (strftime_Ymd y')),
                    (''region'', VList (map VStr (fe_region d))),
                    (''category'', VStr ''festival''),
                    (''demandMultipliers'',
                       VDict [(''grocery'', VFloat (fe_grocery d)),
                              (''apparel'', VFloat (fe_apparel d)),
                              (''electronics'', VFloat (fe_electronics d))]),
                    (''duration'', VInt (fe_duration d)),
                    (''preparationDays'', VInt (fe_preparation_days d))]"
       "valid_datetime y'" "toordinal y' = toordinal now' + fe_days_ahead d"
    by blast
  have eq: "(strftime_Ymd y = strftime_Ymd y') = (toordinal now = toordinal now')"
    using strftime_Ymd_eq_iff [OF y(2) y'(2)] y(3) y'(3) by simp
  have "year y = year y'" if "toordinal now = toordinal now'"
    using same_day_fields [OF y(2) y'(2)] y(3) y'(3) that by simp
  with eq show ?thesis unfolding y(1) y'(1) by auto
qed

subsection \<open>User profiles\<close>

lemma user_profile_clock:
  "(user_profile_strategy now d = user_profile_strategy now' d) = (isoformat now = isoformat now')"
  by (simp add: user_profile_strategy_def)

lemma user_profile_shape:
  "\<exists>s. user_profile_strategy now d
       = [(''userId'', VStr (''user-'' @ up_user_suffix d)),
          (''businessInfo'',
             VDict [(''name'', VStr (up_business_name d)),
                    (''type'', VStr (up_business_type d)),
                    (''location'',
                       VDict [(''city'', VStr (up_city d)),
                              (''state'', VStr (up_state d)),
                              (''region'', VStr (up_region d))]),
                    (''size'', VStr (up_size d))]),
          (''dataCapabilities'',
             VDict [(''hasHistoricalData'', VBool (up_has_historical_data d)),
                    (''dataQuality'', VStr (up_data_quality d)),
                    (''lastUpdated'', VStr s)]),
          (''preferences'',
             VDict [(''forecastHorizon'', VInt (up_forecast_horizon d)),
                    (''riskTolerance'', VStr (up_risk_tolerance d))])]"
  by (simp add: user_profile_strategy_def)

lemma user_profile_valid_clock:
  assumes "valid_datetime now" and "valid_datetime now'"
  shows "(user_profile_strategy now d = user_profile_strategy now' d) = (now = now')"
  using isoformat_inj [OF assms] by (auto simp: user_profile_clock)

lemma mock_s3_object_clock:
  "mock_s3_object now bucket k content
   = (mock_s3_object now' bucket k content)\<lparr>LastModified := now\<rparr>
   \<and> (mock_s3_object now bucket k content = mock_s3_object now' bucket k content) = (now = now')"
  by (auto simp: mock_s3_object_def)

text \<open>
  C2, as the code has it. Five operations read the clock: \<open>mock_s3_object\<close>,
  \<open>sales_record_strategy\<close>, \<open>sales_data_list_strategy\<close> (once for every element),
  \<open>festival_event_strategy\<close> and \<open>user_profile_strategy\<close>. With the reading as an
  argument, two calls with equal arguments and equal drawn values agree in everything
  that is not taken from the clock: the \<open>LastModified\<close> field, the \<open>date\<close> entry of a
  sales record, the \<open>festivalId\<close> and \<open>date\<close> entries of a festival event, the
  \<open>lastUpdated\<close> entry of a user profile. The two results are equal exactly when the
  two readings are equal (\<open>mock_s3_object\<close>, \<open>user_profile_strategy\<close>) or fall on the
  same day (the generators that write a date), for readings that are valid date-times,
  drawn values in the ranges of the strategies, and a date that stays in the calendar
  (from 0001-01-01 to 9999-12-31; outside it the subtraction or addition raises).
\<close>

theorem clock_dependence:
  "mock_s3_object now bucket k content
   = (mock_s3_object now' bucket k content)\<lparr>LastModified := now\<rparr>
   \<and> (mock_s3_object now bucket k content = mock_s3_object now' bucket k content) = (now = now')
   \<and> ((\<exists>e. sales_record_strategy now d = Inl e)
      \<or> (\<exists>s. sales_record_strategy now d
             = Inr [(''date'', VStr s), (''sku'', VStr (sku d)),
                    (''quantity'', VInt (quantity d)), (''category'', VStr (category d)),
                    (''price'', VFloat (price d))]))
   \<and> (valid_datetime now \<and> valid_datetime now' \<and> sales_draws_ok d
        \<and> days_ago d < toordinal now \<and> days_ago d < toordinal now' \<longrightarrow>
      (\<exists>r r'. sales_record_strategy now d = Inr r \<and> sales_record_strategy now' d = Inr r'
         \<and> (r = r') = (toordinal now = toordinal now')))
   \<and> (list_all2 (\<lambda>run run'. snd run' = snd run
            \<and> valid_datetime (fst run) \<and> valid_datetime (fst run')
            \<and> sales_draws_ok (snd run)
            \<and> days_ago (snd run) < toordinal (fst run)
            \<and> days_ago (snd run) < toordinal (fst run')) runs runs' \<longrightarrow>
      (\<exists>rs rs'. sales_data_list_strategy min_size max_size runs = Inr rs
         \<and> sales_data_list_strategy min_size max_size runs' = Inr rs'
         \<and> (rs = rs')
           = list_all2 (\<lambda>run run'. toordinal (fst run) = toordinal (fst run')) runs runs'))
   \<and> ((\<exists>e. festival_event_strategy now f = Inl e)
      \<or> (\<exists>i s. festival_event_strategy now f
             = Inr [(''festivalId'', VStr i), (''name'', VStr (fe_name f)), (''date'', VStr s),
                    (''region'', VList (map VStr (fe_region f))),
                    (''category'', VStr ''festival''),
                    (''demandMultipliers'',
                       VDict [(''grocery'', VFloat (fe_grocery f)),
                              (''apparel'', VFloat (fe_apparel f)),
                              (''electronics'', VFloat (fe_electronics f))]),
                    (''duration'', VInt (fe_duration f)),
                    (''preparationDays'', VInt (fe_preparation_days f))]))
   \<and> (valid_datetime now \<and> valid_datetime now' \<and> festival_draws_ok f
        \<and> toordinal now + fe_days_ahead f \<le> 3652059
        \<and> toordinal now' + fe_days_ahead f \<le> 3652059 \<longrightarrow>
      (\<exists>r r'. festival_event_strategy now f = Inr r \<and> festival_event_strategy now' f = Inr r'
         \<and> (r = r') = (toordinal now = toordinal now')))
   \<and> (\<exists>s. user_profile_strategy now u
          = [(''userId'', VStr (''user-'' @ up_user_suffix u)),
             (''businessInfo'',
                VDict [(''name'', VStr (up_business_name u)),
                       (''type'', VStr (up_business_type u)),
                       (''location'',
                          VDict [(''city'', VStr (up_city u)),
                                 (''state'', VStr (up_state u)),
                                 (''region'', VStr (up_region u))]),
                       (''size'', VStr (up_size u))]),
             (''dataCapabilities'',
                VDict [(''hasHistoricalData'', VBool (up_has_historical_data u)),
                       (''dataQuality'', VStr (up_data_quality u)),
                       (''lastUpdated'', VStr s)]),
             (''preferences'',
                VDict [(''forecastHorizon'', VInt (up_forecast_horizon u)),
                       (''riskTolerance'', VStr (up_risk_tolerance u))])])
   \<and> (valid_datetime now \<and> valid_datetime now' \<longrightarrow>
      (user_profile_strategy now u = user_profile_strategy now' u) = (now = now'))"
proof (intro conjI impI)
  show "mock_s3_object now bucket k content
        = (mock_s3_object now' bucket k content)\<lparr>LastModified := now\<rparr>"
    using mock_s3_object_clock [of now bucket k content now'] by blast
  show "(mock_s3_object now bucket k content = mock_s3_object now' bucket k content)
        = (now = now')"
    using mock_s3_object_clock [of now bucket k content now'] by blast
  show "(\<exists>e. sales_record_strategy now d = Inl e)
      \<or> (\<exists>s. sales_record_strategy now d
             = Inr [(''date'', VStr s), (''sku'', VStr (sku d)),
                    (''quantity'', VInt (quantity d)), (''category'', VStr (category d)),
                    (''price'', VFloat (price d))])"
    by (rule sales_record_shape)
  show "(\<exists>e. festival_event_strategy now f = Inl e)
      \<or> (\<exists>i s. festival_event_strategy now f
             = Inr [(''festivalId'', VStr i), (''name'', VStr (fe_name f)), (''date'', VStr s),
                    (''region'', VList (map VStr (fe_region f))),
                    (''category'', VStr ''festival''),
                    (''demandMultipliers'',
                       VDict [(''grocery'', VFloat (fe_grocery f)),
                              (''apparel'', VFloat (fe_apparel f)),
                              (''electronics'', VFloat (fe_electronics f))]),
                    (''duration'', VInt (fe_duration f)),
                    (''preparationDays'', VInt (fe_preparation_days f))])"
    by (rule festival_event_shape)
  show "\<exists>s. user_profile_strategy now u
          = [(''userId'', VStr (''user-'' @ up_user_suffix u)),
             (''businessInfo'',
                VDict [(''name'', VStr (up_business_name u)),
                       (''type'', VStr (up_business_type u)),
                       (''location'',
                          VDict [(''city'', VStr (up_city u)),
                                 (''state'', VStr (up_state u)),
                                 (''region'', VStr (up_region u))]),
                       (''size'', VStr (up_size u))]),
             (''dataCapabilities'',
                VDict [(''hasHistoricalData'', VBool (up_has_historical_data u)),
                       (''dataQuality'', VStr (up_data_quality u)),
                       (''lastUpdated'', VStr s)]),
             (''preferences'',
                VDict [(''forecastHorizon'', VInt (up_forecast_horizon u)),
                       (''riskTolerance'', VStr (up_risk_tolerance u))])]"
    by (rule user_profile_shape)
next
  assume "valid_datetime now \<and> valid_datetime now' \<and> sales_draws_ok d
          \<and> days_ago d < toordinal now \<and> days_ago d < toordinal now'"
  then show "\<exists>r r'. sales_record_strategy now d = Inr r \<and> sales_record_strategy now' d = Inr r'
         \<and> (r = r') = (toordinal now = toordinal now')"
    by (intro sales_record_clock) (simp_all add: sales_draws_ok_def)
next
  assume "list_all2 (\<lambda>run run'. snd run' = snd run
            \<and> valid_datetime (fst run) \<and> valid_datetime (fst run')
            \<and> sales_draws_ok (snd run)
            \<and> days_ago (snd run) < toordinal (fst run)
            \<and> days_ago (snd run) < toordinal (fst run')) runs runs'"
  then have "list_all2 (\<lambda>run run'. snd run' = snd run
            \<and> valid_datetime (fst run) \<and> valid_datetime (fst run')
            \<and> 0 \<le> days_ago (snd run) \<and> days_ago (snd run) \<le> 730
            \<and> days_ago (snd run) < toordinal (fst run)
            \<and> days_ago (snd run) < toordinal (fst run')) runs runs'"
    by (rule list_all2_mono) (simp add: sales_draws_ok_def)
  then show "\<exists>rs rs'. sales_data_list_strategy min_size max_size runs = Inr rs
         \<and> sales_data_list_strategy min_size max_size runs' = Inr rs'
         \<and> (rs = rs')
           = list_all2 (\<lambda>run run'. toordinal (fst run) = toordinal (fst run')) runs runs'"
    by (rule sales_data_list_clock)
next
  assume "valid_datetime now \<and> valid_datetime now' \<and> festival_draws_ok f
        \<and> toordinal now + fe_days_ahead f \<le> 3652059
        \<and> toordinal now' + fe_days_ahead f \<le> 3652059"
  then show "\<exists>r r'. festival_event_strategy now f = Inr r
         \<and> festival_event_strategy now' f = Inr r'
         \<and> (r = r') = (toordinal now = toordinal now')"
    by (intro festival_event_clock) (simp_all add: festival_draws_ok_def)
next
  assume "valid_datetime now \<and> valid_datetime now'"
  then show "(user_profile_strategy now u = user_profile_strategy now' u) = (now = now')"
    by (intro user_profile_valid_clock) simp_all
qed

theorem clock_dependence_witness:
  "mock_s3_object
     \<lparr>year = 2023, month = 10, day = 2, hour = 8, minute = 0, second = 0,
       microsecond = 0\<rparr> ''b'' ''k'' ''c''
   \<noteq> mock_s3_object
     \<lparr>year = 2023, month = 10, day = 2, hour = 9, minute = 30, second = 0,
       microsecond = 0\<rparr> ''b'' ''k'' ''c''
   \<and> sales_record_strategy
       \<lparr>year = 2023, month = 10, day = 2, hour = 8, minute = 0, second = 0,
         microsecond = 0\<rparr>
       \<lparr>days_ago = 1, sku = ''SKU001'', quantity = 10, category = ''grocery'',
         price = Finite 5\<rparr>
     \<noteq> sales_record_strategy
       \<lparr>year = 2023, month = 10, day = 3, hour = 8, minute = 0, second = 0,
         microsecond = 0\<rparr>
       \<lparr>days_ago = 1, sku = ''SKU001'', quantity = 10, category = ''grocery'',
         price = Finite 5\<rparr>
   \<and> sales_record_strategy
       \<lparr>year = 2023, month = 10, day = 2, hour = 8, minute = 0, second = 0,
         microsecond = 0\<rparr>
       \<lparr>days_ago = 1, sku = ''SKU001'', quantity = 10, category = ''grocery'',
         price = Finite 5\<rparr>
     = sales_record_strategy
       \<lparr>year = 2023, month = 10, day = 2, hour = 9, minute = 30, second = 0,
         microsecond = 0\<rparr>
       \<lparr>days_ago = 1, sku = ''SKU001'', quantity = 10, category = ''grocery'',
         price = Finite 5\<rparr>
   \<and> sales_data_list_strategy 1 100
       [(\<lparr>year = 2023, month = 10, day = 2, hour = 8, minute = 0, second = 0,
           microsecond = 0\<rparr>,
         \<lparr>days_ago = 1, sku = ''SKU001'', quantity = 10, category = ''grocery'',
           price = Finite 5\<rparr>)]
     \<noteq> sales_data_list_strategy 1 100
       [(\<lparr>year = 2023, month = 10, day = 3, hour = 8, minute = 0, second = 0,
           microsecond = 0\<rparr>,
         \<lparr>days_ago = 1, sku = ''SKU001'', quantity = 10, category = ''grocery'',
           price = Finite 5\<rparr>)]
   \<and> festival_event_strategy
       \<lparr>year = 2023, month = 10, day = 2, hour = 8, minute = 0, second = 0,
         microsecond = 0\<rparr>
       \<lparr>fe_days_ahead = 30, fe_id_name = ''Diwali'', fe_name = ''Eid'',
         fe_region = [''north''], fe_grocery = Finite 2, fe_apparel = Finite 1,
         fe_electronics = Finite 3, fe_duration = 5, fe_preparation_days = 14\<rparr>
     \<noteq> festival_event_strategy
       \<lparr>year = 2023, month = 10, day = 3, hour = 8, minute = 0, second = 0,
         microsecond = 0\<rparr>
       \<lparr>fe_days_ahead = 30, fe_id_name = ''Diwali'', fe_name = ''Eid'',
         fe_region = [''north''], fe_grocery = Finite 2, fe_apparel = Finite 1,
         fe_electronics = Finite 3, fe_duration = 5, fe_preparation_days = 14\<rparr>
   \<and> user_profile_strategy
       \<lparr>year = 2023, month = 10, day = 2, hour = 8, minute = 0, second = 0,
         microsecond = 0\<rparr>
       \<lparr>up_user_suffix = ''abcd1234'', up_business_name = ''Kirana'',
         up_business_type = ''grocery'', up_city = ''Pune'', up_state = ''Maharashtra'',
         up_region = ''west'', up_size = ''small'', up_has_historical_data = True,
         up_data_quality = ''good'', up_forecast_horizon = 7,
         up_risk_tolerance = ''moderate''\<rparr>
     \<noteq> user_profile_strategy
       \<lparr>year = 2023, month = 10, day = 2, hour = 9, minute = 30, second = 0,
         microsecond = 0\<rparr>
       \<lparr>up_user_suffix = ''abcd1234'', up_business_name = ''Kirana'',
         up_business_type = ''grocery'', up_city = ''Pune'', up_state = ''Maharashtra'',
         up_region = ''west'', up_size = ''small'', up_has_historical_data = True,
         up_data_quality = ''good'', up_forecast_horizon = 7,
         up_risk_tolerance = ''moderate''\<rparr>"
proof -
  let ?now = "\<lparr>year = 2023, month = 10, day = 2, hour = 8, minute = 0, second = 0,
                microsecond = 0\<rparr>"
  let ?next = "\<lparr>year = 2023, month = 10, day = 3, hour = 8, minute = 0, second = 0,
                 microsecond = 0\<rparr>"
  let ?later = "\<lparr>year = 2023, month = 10, day = 2, hour = 9, minute = 30, second = 0,
                  microsecond = 0\<rparr>"
  let ?d = "\<lparr>days_ago = 1, sku = ''SKU001'', quantity = 10, category = ''grocery'',
              price = Finite 5\<rparr>"
  let ?f = "\<lparr>fe_days_ahead = 30, fe_id_name = ''Diwali'', fe_name = ''Eid'',
              fe_region = [''north''], fe_grocery = Finite 2, fe_apparel = Finite 1,
              fe_electronics = Finite 3, fe_duration = 5, fe_preparation_days = 14\<rparr>"
  let ?u = "\<lparr>up_user_suffix = ''abcd1234'', up_business_name = ''Kirana'',
              up_business_type = ''grocery'', up_city = ''Pune'', up_state = ''Maharashtra'',
              up_region = ''west'', up_size = ''small'', up_has_historical_data = True,
              up_data_quality = ''good'', up_forecast_horizon = 7,
              up_risk_tolerance = ''moderate''\<rparr>"
  have v: "valid_datetime ?now" "valid_datetime ?next" "valid_datetime ?later"
    by (simp_all add: valid_datetime_def check_date_fields_def check_time_fields_def dim_values)
  have o: "toordinal ?now = 738795" "toordinal ?next = 738796" "toordinal ?later = 738795"
    by (simp_all add: toordinal_def ymd2ord_def days_before_year_def dbm_values is_leap_def)
  have dok: "sales_draws_ok ?d"
    by (simp add: sales_draws_ok_def is_Lu_or_Nd_def)
  have fok: "festival_draws_ok ?f"
    by (simp add: festival_draws_ok_def festival_names_def REGIONS_def)
  have a: "mock_s3_object ?now ''b'' ''k'' ''c'' \<noteq> mock_s3_object ?later ''b'' ''k'' ''c''"
    using clock_dependence [where now = ?now and now' = ?later and bucket = "''b''"
        and k = "''k''" and content = "''c''",
        THEN conjunct2, THEN conjunct1]
    by simp
  have b: "sales_record_strategy ?now ?d \<noteq> sales_record_strategy ?next ?d"
    using clock_dependence [where now = ?now and now' = ?next and d = ?d,
        THEN conjunct2, THEN conjunct2, THEN conjunct2, THEN conjunct1] v o dok
    by auto
  have c: "sales_record_strategy ?now ?d = sales_record_strategy ?later ?d"
    using clock_dependence [where now = ?now and now' = ?later and d = ?d,
        THEN conjunct2, THEN conjunct2, THEN conjunct2, THEN conjunct1] v o dok
    by auto
  have e: "sales_data_list_strategy 1 100 [(?now, ?d)]
           \<noteq> sales_data_list_strategy 1 100 [(?next, ?d)]"
    using clock_dependence [where runs = "[(?now, ?d)]" and runs' = "[(?next, ?d)]"
        and min_size = 1 and max_size = 100,
        THEN conjunct2, THEN conjunct2, THEN conjunct2, THEN conjunct2, THEN conjunct1] v o dok
    by auto
  have g: "festival_event_strategy ?now ?f \<noteq> festival_event_strategy ?next ?f"
    using clock_dependence [where now = ?now and now' = ?next and f = ?f,
        THEN conjunct2, THEN conjunct2, THEN conjunct2, THEN conjunct2, THEN conjunct2, THEN conjunct2, THEN conjunct1]
      v o fok
    by auto
  have h: "user_profile_strategy ?now ?u \<noteq> user_profile_strategy ?later ?u"
    using clock_dependence [where now = ?now and now' = ?later and u = ?u,
        THEN conjunct2, THEN conjunct2, THEN conjunct2, THEN conjunct2, THEN conjunct2, THEN conjunct2, THEN conjunct2, THEN conjunct2]
      v
    by auto
  from a b c e g h show ?thesis by blast
qed

text \<open>
  The claim as stated fails: the same arguments at two readings of the clock give two
  different results.
\<close>

theorem mock_s3_object_clock_counterexample:
  "mock_s3_object
     \<lparr>year = 2023, month = 10, day = 1, hour = 0, minute = 0, second = 0, microsecond = 0\<rparr>
     ''b'' ''k'' ''c''
   \<noteq> mock_s3_object
     \<lparr>year = 2023, month = 10, day = 1, hour = 0, minute = 0, second = 1, microsecond = 0\<rparr>
     ''b'' ''k'' ''c''"
  by (simp add: mock_s3_object_def)

end
